theory Spec2Isabelle
  imports Complex_Main "HOL-Library.AList" "HOL-Library.Log_Nat"
begin

section \<open>Values and rows\<close>

text \<open>
  JavaScript values that cross the boundaries of the program (request bodies, response
  bodies, query filters, audit metadata, rows as the database client returns them) are
  trees. A number is a double and carries the exact rational that the double denotes; a
  \<^verbatim>\<open>BigInt\<close> is \<open>JBigInt\<close>; a key whose value is \<^verbatim>\<open>undefined\<close> is a key that is
  absent.
\<close>

datatype json =
    JNull
  | JBool bool
  | JNum rat
  | JBigInt int
  | JStr string
  | JArr "json list"
  | JObj "(string \<times> json) list"

datatype MembershipRole = ADMIN | MANAGER | EMPLOYEE

datatype ExpenseStatus = PENDING | APPROVED | REJECTED | ESCALATED

datatype Decision = APPROVE | REJECT

datatype ApprovalType = MAJORITY | PERCENTAGE

text \<open>
  The rows of the relational schema, with the columns the handlers read and write.
  A \<^verbatim>\<open>BigInt\<close> column is an \<open>int\<close> (the inserts and updates below refuse a value
  outside the 64 bits of the column), a \<^verbatim>\<open>DateTime\<close> column is a timestamp.
\<close>

record Company =
  company_id :: string
  company_name :: string
  baseCurrency :: string

record User =
  user_id :: string
  email :: string
  user_name :: string
  passwordHash :: string

record Membership =
  membership_id :: string
  membership_userId :: string
  membership_companyId :: string
  role :: MembershipRole

record Project =
  project_id :: string
  project_name :: string
  project_description :: "string option"
  active :: bool
  project_companyId :: string

record Expense =
  expense_id :: string
  projectId :: string
  employeeId :: string
  amountMinor :: int
  currency :: string
  description :: string
  category :: string
  paidBy :: string
  expenseDate :: int
  status :: ExpenseStatus

record ReceiptFile =
  receipt_expenseId :: string
  url :: string
  mime :: string
  size_bytes :: int

record Approval =
  approval_expenseId :: string
  managerId :: string
  decision :: Decision
  approval_note :: "string option"
  decidedAt :: int

record ApprovalPolicy =
  policy_id :: string
  policy_companyId :: string
  policy_type :: ApprovalType
  thresholdPercent :: "int option"
  maxPerEmployeeMinor :: "int option"
  largeExpenseThresholdMinor :: "int option"
  requireCeoForLarge :: bool

record AuditLog =
  audit_id :: string
  audit_companyId :: string
  actorUserId :: string
  action :: string
  entity :: string
  entityId :: string
  meta :: json

record ExchangeRateSnapshot =
  snapshot_id :: string
  snapshot_companyId :: string
  snapshot_baseCurrency :: string
  rates :: json

text \<open>
  The database: one list of rows per table, in insertion order, and the counter from
  which the identifier of the next inserted row is drawn.
\<close>

record db =
  companies :: "Company list"
  users :: "User list"
  memberships :: "Membership list"
  projects :: "Project list"
  expenses :: "Expense list"
  receiptFiles :: "ReceiptFile list"
  approvals :: "Approval list"
  approvalPolicies :: "ApprovalPolicy list"
  auditLogs :: "AuditLog list"
  exchangeRateSnapshots :: "ExchangeRateSnapshot list"
  next_id :: nat

section \<open>The query filters of the database client\<close>

text \<open>
  A \<^verbatim>\<open>where\<close> object is a list of conditions, one per key of the object; a row
  matches when every condition holds. \<open>Fld k v\<close> is \<^verbatim>\<open>{k: v}\<close>, \<open>FldNot k v\<close> is
  \<^verbatim>\<open>{k: {not: v}}\<close>, \<open>FldIn k vs\<close> is \<^verbatim>\<open>{k: {in: vs}}\<close>, \<open>FldRange k lo hi\<close> is
  \<^verbatim>\<open>{k: {gte: lo, lte: hi}}\<close>, \<open>Rel k w\<close> is a filter \<open>w\<close> on the related row \<open>k\<close>
  (or on the columns of the compound key \<open>k\<close>), and \<open>AnyOf\<close>, \<open>AllOf\<close>, \<open>NoneOf\<close> are
  the keys \<^verbatim>\<open>OR\<close>, \<^verbatim>\<open>AND\<close> and \<^verbatim>\<open>NOT\<close>. Of a column that is null, \<^verbatim>\<open>not\<close>,
  \<^verbatim>\<open>in\<close> and the range comparisons do not hold; only equality with null does.
\<close>

datatype cond =
    Fld string json
  | FldNot string json
  | FldIn string "json list"
  | FldRange string "rat option" "rat option"
  | Rel string "cond list"
  | AnyOf "cond list list"
  | AllOf "cond list list"
  | NoneOf "cond list list"

fun key :: "cond \<Rightarrow> string" where
  "key (Fld k v) = k"
| "key (FldNot k v) = k"
| "key (FldIn k vs) = k"
| "key (FldRange k lo hi) = k"
| "key (Rel k w) = k"
| "key (AnyOf ws) = ''OR''"
| "key (AllOf ws) = ''AND''"
| "key (NoneOf ws) = ''NOT''"

text \<open>
  Object spread followed by one more key, \<^verbatim>\<open>{...w, k: v}\<close>: the later key replaces
  an earlier one of the same name, and is added otherwise.
\<close>

definition obj_put :: "cond \<Rightarrow> cond list \<Rightarrow> cond list" where
  "obj_put c w =
     (if key c \<in> key ` set w then map (\<lambda>d. if key d = key c then c else d) w
      else w @ [c])"

definition in_range :: "rat option \<Rightarrow> rat option \<Rightarrow> rat \<Rightarrow> bool" where
  "in_range lo hi x =
     ((case lo of None \<Rightarrow> True | Some l \<Rightarrow> l \<le> x) \<and>
      (case hi of None \<Rightarrow> True | Some h \<Rightarrow> x \<le> h))"

fun holds :: "cond \<Rightarrow> (string \<times> json) list \<Rightarrow> bool" where
  "holds (Fld k v) obj = (map_of obj k = Some v)"
| "holds (FldNot k v) obj =
     (case map_of obj k of None \<Rightarrow> False | Some x \<Rightarrow> x \<noteq> JNull \<and> x \<noteq> v)"
| "holds (FldIn k vs) obj =
     (case map_of obj k of None \<Rightarrow> False | Some x \<Rightarrow> x \<noteq> JNull \<and> x \<in> set vs)"
| "holds (FldRange k lo hi) obj =
     (case map_of obj k of Some (JNum x) \<Rightarrow> in_range lo hi x | _ \<Rightarrow> False)"
| "holds (Rel k w) obj =
     (case map_of obj k of
        Some (JObj related) \<Rightarrow> list_all (\<lambda>c. holds c related) w
      | _ \<Rightarrow> False)"
| "holds (AnyOf ws) obj = list_ex (\<lambda>w. list_all (\<lambda>c. holds c obj) w) ws"
| "holds (AllOf ws) obj = list_all (\<lambda>w. list_all (\<lambda>c. holds c obj) w) ws"
| "holds (NoneOf ws) obj = list_all (\<lambda>w. \<not> list_all (\<lambda>c. holds c obj) w) ws"

definition matches :: "cond list \<Rightarrow> (string \<times> json) list \<Rightarrow> bool" where
  "matches w obj = list_all (\<lambda>c. holds c obj) w"

text \<open>
  What a filter sees of a row: its scalar columns under their schema names (a 64-bit
  column by its value), for an expense the related project under the key
  \<^verbatim>\<open>project\<close>, and for a membership the compound key \<^verbatim>\<open>userId_companyId\<close>.
\<close>

fun role_name :: "MembershipRole \<Rightarrow> string" where
  "role_name ADMIN = ''ADMIN''"
| "role_name MANAGER = ''MANAGER''"
| "role_name EMPLOYEE = ''EMPLOYEE''"

fun status_name :: "ExpenseStatus \<Rightarrow> string" where
  "status_name PENDING = ''PENDING''"
| "status_name APPROVED = ''APPROVED''"
| "status_name REJECTED = ''REJECTED''"
| "status_name ESCALATED = ''ESCALATED''"

fun decision_name :: "Decision \<Rightarrow> string" where
  "decision_name APPROVE = ''APPROVE''"
| "decision_name REJECT = ''REJECT''"

fun type_name :: "ApprovalType \<Rightarrow> string" where
  "type_name MAJORITY = ''MAJORITY''"
| "type_name PERCENTAGE = ''PERCENTAGE''"

definition json_opt_int :: "int option \<Rightarrow> json" where
  "json_opt_int x = (case x of None \<Rightarrow> JNull | Some n \<Rightarrow> JNum (of_int n))"

definition json_opt_str :: "string option \<Rightarrow> json" where
  "json_opt_str x = (case x of None \<Rightarrow> JNull | Some s \<Rightarrow> JStr s)"

definition project_view :: "Project \<Rightarrow> (string \<times> json) list" where
  "project_view p =
     [(''id'', JStr (project_id p)),
      (''name'', JStr (project_name p)),
      (''description'', json_opt_str (project_description p)),
      (''active'', JBool (active p)),
      (''companyId'', JStr (project_companyId p))]"

definition project_of :: "db \<Rightarrow> Expense \<Rightarrow> Project option" where
  "project_of d e = find (\<lambda>p. project_id p = projectId e) (projects d)"

definition expense_columns :: "Expense \<Rightarrow> (string \<times> json) list" where
  "expense_columns e =
     [(''id'', JStr (expense_id e)),
      (''projectId'', JStr (projectId e)),
      (''employeeId'', JStr (employeeId e)),
      (''amountMinor'', JNum (of_int (amountMinor e))),
      (''currency'', JStr (currency e)),
      (''description'', JStr (description e)),
      (''category'', JStr (category e)),
      (''paidBy'', JStr (paidBy e)),
      (''expenseDate'', JNum (of_int (expenseDate e))),
      (''status'', JStr (status_name (status e)))]"

definition expense_view :: "db \<Rightarrow> Expense \<Rightarrow> (string \<times> json) list" where
  "expense_view d e =
     expense_columns e @
     (case project_of d e of
        None \<Rightarrow> []
      | Some p \<Rightarrow> [(''project'', JObj (project_view p))])"

definition membership_view :: "Membership \<Rightarrow> (string \<times> json) list" where
  "membership_view m =
     [(''id'', JStr (membership_id m)),
      (''userId'', JStr (membership_userId m)),
      (''companyId'', JStr (membership_companyId m)),
      (''role'', JStr (role_name (role m))),
      (''userId_companyId'',
       JObj [(''userId'', JStr (membership_userId m)),
             (''companyId'', JStr (membership_companyId m))])]"

definition policy_view :: "ApprovalPolicy \<Rightarrow> (string \<times> json) list" where
  "policy_view a =
     [(''id'', JStr (policy_id a)),
      (''companyId'', JStr (policy_companyId a)),
      (''type'', JStr (type_name (policy_type a))),
      (''thresholdPercent'', json_opt_int (thresholdPercent a)),
      (''maxPerEmployeeMinor'', json_opt_int (maxPerEmployeeMinor a)),
      (''largeExpenseThresholdMinor'', json_opt_int (largeExpenseThresholdMinor a)),
      (''requireCeoForLarge'', JBool (requireCeoForLarge a))]"

definition audit_view :: "AuditLog \<Rightarrow> (string \<times> json) list" where
  "audit_view l =
     [(''id'', JStr (audit_id l)),
      (''companyId'', JStr (audit_companyId l)),
      (''actorUserId'', JStr (actorUserId l)),
      (''action'', JStr (action l)),
      (''entity'', JStr (entity l)),
      (''entityId'', JStr (entityId l))]"

definition snapshot_view :: "ExchangeRateSnapshot \<Rightarrow> (string \<times> json) list" where
  "snapshot_view x =
     [(''id'', JStr (snapshot_id x)),
      (''companyId'', JStr (snapshot_companyId x)),
      (''baseCurrency'', JStr (snapshot_baseCurrency x))]"

section \<open>Effects: exceptions and the database state\<close>

text \<open>
  A thrown value is a validation error of the schema library, carrying the paths of its
  issues, or an \<^verbatim>\<open>Error\<close> carrying its message. An asynchronous operation takes
  the database and returns its outcome and the database it leaves; a throw keeps the
  writes made before it.
\<close>

datatype exn = ZodError "string list" | Error string

type_synonym 'a io = "db \<Rightarrow> (exn + 'a) \<times> db"

definition io_return :: "'a \<Rightarrow> 'a io" where
  "io_return x = (\<lambda>d. (Inr x, d))"

definition io_throw :: "exn \<Rightarrow> 'a io" where
  "io_throw e = (\<lambda>d. (Inl e, d))"

definition io_read :: "(db \<Rightarrow> 'a) \<Rightarrow> 'a io" where
  "io_read f = (\<lambda>d. (Inr (f d), d))"

text \<open>A read that may throw, and a computation that does not touch the database.\<close>

definition io_try :: "(db \<Rightarrow> exn + 'a) \<Rightarrow> 'a io" where
  "io_try f = (\<lambda>d. (f d, d))"

definition io_of :: "exn + 'a \<Rightarrow> 'a io" where
  "io_of x = (\<lambda>d. (x, d))"

definition io_bind :: "'a io \<Rightarrow> ('a \<Rightarrow> 'b io) \<Rightarrow> 'b io" where
  "io_bind m f =
     (\<lambda>d. case m d of (Inl e, d') \<Rightarrow> (Inl e, d') | (Inr x, d') \<Rightarrow> f x d')"

text \<open>
  \<^verbatim>\<open>prisma.$transaction(async (tx) => ...)\<close>: when the callback throws, the
  database is the one before the transaction.
\<close>

definition transaction :: "'a io \<Rightarrow> 'a io" where
  "transaction m =
     (\<lambda>d. case m d of (Inl e, d') \<Rightarrow> (Inl e, d) | (Inr x, d') \<Rightarrow> (Inr x, d'))"

section \<open>The reads of the database client\<close>

text \<open>
  The argument object of a query: \<^verbatim>\<open>where\<close>, \<^verbatim>\<open>skip\<close> and \<^verbatim>\<open>take\<close>, each
  optional. The reads return rows of the table that is queried; \<^verbatim>\<open>include\<close> and
  \<^verbatim>\<open>select\<close>, which decide what is loaded along with each of these rows, and
  \<^verbatim>\<open>orderBy\<close> and \<^verbatim>\<open>cursor\<close> are left out.
\<close>

record find_args =
  arg_where :: "cond list option"
  arg_skip :: "nat option"
  arg_take :: "nat option"

definition window :: "nat option \<Rightarrow> nat option \<Rightarrow> 'r list \<Rightarrow> 'r list" where
  "window sk tk rows =
     (let rest = (case sk of None \<Rightarrow> rows | Some n \<Rightarrow> drop n rows)
      in case tk of None \<Rightarrow> rest | Some n \<Rightarrow> take n rest)"

text \<open>
  A query without \<^verbatim>\<open>skip\<close> and \<^verbatim>\<open>take\<close> returns the rows in the order of the
  table. With either of them the client first orders the rows by their primary key,
  the column \<^verbatim>\<open>id\<close>, ascending; identifiers are compared character by character.
\<close>

fun str_le :: "string \<Rightarrow> string \<Rightarrow> bool" where
  "str_le [] t = True"
| "str_le (c # s) [] = False"
| "str_le (c # s) (c' # t) = ((of_char c :: nat) < of_char c' \<or> c = c' \<and> str_le s t)"

fun insert_by :: "('r \<Rightarrow> string) \<Rightarrow> 'r \<Rightarrow> 'r list \<Rightarrow> 'r list" where
  "insert_by k x [] = [x]"
| "insert_by k x (y # ys) =
     (if str_le (k x) (k y) then x # y # ys else y # insert_by k x ys)"

definition sort_by :: "('r \<Rightarrow> string) \<Rightarrow> 'r list \<Rightarrow> 'r list" where
  "sort_by k rows = foldr (insert_by k) rows []"

definition row_id :: "(string \<times> json) list \<Rightarrow> string" where
  "row_id obj = (case map_of obj ''id'' of Some (JStr i) \<Rightarrow> i | _ \<Rightarrow> [])"

definition where_or_empty :: "cond list option \<Rightarrow> cond list" where
  "where_or_empty w = (case w of None \<Rightarrow> [] | Some cs \<Rightarrow> cs)"

definition findMany :: "('r \<Rightarrow> (string \<times> json) list) \<Rightarrow> find_args \<Rightarrow> 'r list \<Rightarrow> 'r list" where
  "findMany view args rows =
     (let selected = filter (\<lambda>r. matches (where_or_empty (arg_where args)) (view r)) rows
      in if arg_skip args = None \<and> arg_take args = None then selected
         else window (arg_skip args) (arg_take args)
                (sort_by (\<lambda>r. row_id (view r)) selected))"

text \<open>\<^verbatim>\<open>findFirst\<close> is \<^verbatim>\<open>findMany\<close> taking one row.\<close>

definition findFirst :: "('r \<Rightarrow> (string \<times> json) list) \<Rightarrow> find_args \<Rightarrow> 'r list \<Rightarrow> 'r option" where
  "findFirst view args rows =
     (case findMany view (args\<lparr>arg_take := Some 1\<rparr>) rows of
        [] \<Rightarrow> None
      | r # rest \<Rightarrow> Some r)"

text \<open>
  \<^verbatim>\<open>findUnique\<close>, and every other operation on one row, takes a \<^verbatim>\<open>where\<close> that
  gives a value for a unique key of the table: its \<^verbatim>\<open>id\<close> or, for a membership,
  the compound key \<^verbatim>\<open>userId_companyId\<close>. The client refuses any other
  \<^verbatim>\<open>where\<close> with a validation error, before it reads. Further keys of the
  \<^verbatim>\<open>where\<close> are conditions on the row that the key selects.
\<close>

definition where_unique_error :: exn where
  "where_unique_error = Error ''Argument where needs at least one unique argument''"

definition unique_selector :: "string list \<Rightarrow> cond \<Rightarrow> bool" where
  "unique_selector uniques c =
     (case c of
        Fld k (JStr v) \<Rightarrow> k \<in> set uniques
      | Rel k w \<Rightarrow> k \<in> set uniques
      | _ \<Rightarrow> False)"

definition findUnique ::
  "string list \<Rightarrow> ('r \<Rightarrow> (string \<times> json) list) \<Rightarrow> cond list \<Rightarrow> 'r list \<Rightarrow> exn + 'r option" where
  "findUnique uniques view w rows =
     (if list_ex (unique_selector uniques) w
      then Inr (find (\<lambda>r. matches w (view r)) rows)
      else Inl where_unique_error)"

definition count_rows :: "('r \<Rightarrow> (string \<times> json) list) \<Rightarrow> find_args \<Rightarrow> 'r list \<Rightarrow> nat" where
  "count_rows view args rows = length (findMany view args rows)"

section \<open>The tenant wrapper: reads\<close>

record TenantPrisma =
  companyId :: string
  userId :: string

text \<open>
  \<^verbatim>\<open>{...args, where: {...args?.where, companyId: this.companyId}}\<close>: the caller's
  argument object with its \<^verbatim>\<open>where\<close> replaced by the caller's \<^verbatim>\<open>where\<close> plus
  the tenant key. A call without an argument object spreads nothing.
\<close>

definition caller_where :: "find_args option \<Rightarrow> cond list" where
  "caller_where args =
     (case args of None \<Rightarrow> [] | Some a \<Rightarrow> where_or_empty (arg_where a))"

definition scoped_args :: "cond \<Rightarrow> find_args option \<Rightarrow> find_args" where
  "scoped_args tenant_key args =
     \<lparr>arg_where = Some (obj_put tenant_key (caller_where args)),
      arg_skip = (case args of None \<Rightarrow> None | Some a \<Rightarrow> arg_skip a),
      arg_take = (case args of None \<Rightarrow> None | Some a \<Rightarrow> arg_take a)\<rparr>"

text \<open>
  \<open>count\<close> builds its argument object key by key:
  \<^verbatim>\<open>...(args?.take && { take: args.take })\<close> passes a key on only when it is truthy,
  so \<open>0\<close> is dropped like an absent key.
\<close>

definition truthy_nat :: "nat option \<Rightarrow> nat option" where
  "truthy_nat x = (case x of None \<Rightarrow> None | Some n \<Rightarrow> if n = 0 then None else Some n)"

definition scoped_count_args :: "cond \<Rightarrow> find_args option \<Rightarrow> find_args" where
  "scoped_count_args tenant_key args =
     \<lparr>arg_where = Some (obj_put tenant_key (caller_where args)),
      arg_skip = (case args of None \<Rightarrow> None | Some a \<Rightarrow> truthy_nat (arg_skip a)),
      arg_take = (case args of None \<Rightarrow> None | Some a \<Rightarrow> truthy_nat (arg_take a))\<rparr>"

definition company_key :: "TenantPrisma \<Rightarrow> cond" where
  "company_key t = Fld ''companyId'' (JStr (companyId t))"

definition project_company_key :: "TenantPrisma \<Rightarrow> cond" where
  "project_company_key t = Rel ''project'' [Fld ''companyId'' (JStr (companyId t))]"

definition tenant_project_findMany :: "TenantPrisma \<Rightarrow> find_args option \<Rightarrow> db \<Rightarrow> Project list" where
  "tenant_project_findMany t args d =
     findMany project_view (scoped_args (company_key t) args) (projects d)"

definition tenant_project_findUnique :: "TenantPrisma \<Rightarrow> cond list \<Rightarrow> db \<Rightarrow> exn + Project option" where
  "tenant_project_findUnique t w d =
     findUnique [''id''] project_view (obj_put (company_key t) w) (projects d)"

definition tenant_project_count :: "TenantPrisma \<Rightarrow> find_args option \<Rightarrow> db \<Rightarrow> nat" where
  "tenant_project_count t args d =
     count_rows project_view (scoped_count_args (company_key t) args) (projects d)"

definition tenant_expense_findMany :: "TenantPrisma \<Rightarrow> find_args option \<Rightarrow> db \<Rightarrow> Expense list" where
  "tenant_expense_findMany t args d =
     findMany (expense_view d) (scoped_args (project_company_key t) args) (expenses d)"

definition tenant_expense_findUnique :: "TenantPrisma \<Rightarrow> cond list \<Rightarrow> db \<Rightarrow> exn + Expense option" where
  "tenant_expense_findUnique t w d =
     findUnique [''id''] (expense_view d) (obj_put (project_company_key t) w) (expenses d)"

definition tenant_expense_count :: "TenantPrisma \<Rightarrow> find_args option \<Rightarrow> db \<Rightarrow> nat" where
  "tenant_expense_count t args d =
     count_rows (expense_view d) (scoped_count_args (project_company_key t) args) (expenses d)"

definition tenant_membership_findMany :: "TenantPrisma \<Rightarrow> find_args option \<Rightarrow> db \<Rightarrow> Membership list" where
  "tenant_membership_findMany t args d =
     findMany membership_view (scoped_args (company_key t) args) (memberships d)"

definition tenant_membership_findUnique :: "TenantPrisma \<Rightarrow> cond list \<Rightarrow> db \<Rightarrow> exn + Membership option" where
  "tenant_membership_findUnique t w d =
     findUnique [''id'', ''userId_companyId''] membership_view (obj_put (company_key t) w)
       (memberships d)"

definition tenant_membership_count :: "TenantPrisma \<Rightarrow> find_args option \<Rightarrow> db \<Rightarrow> nat" where
  "tenant_membership_count t args d =
     count_rows membership_view (scoped_count_args (company_key t) args) (memberships d)"

definition tenant_approvalPolicy_findMany :: "TenantPrisma \<Rightarrow> find_args option \<Rightarrow> db \<Rightarrow> ApprovalPolicy list" where
  "tenant_approvalPolicy_findMany t args d =
     findMany policy_view (scoped_args (company_key t) args) (approvalPolicies d)"

definition tenant_approvalPolicy_findUnique :: "TenantPrisma \<Rightarrow> cond list \<Rightarrow> db \<Rightarrow> exn + ApprovalPolicy option" where
  "tenant_approvalPolicy_findUnique t w d =
     findUnique [''id''] policy_view (obj_put (company_key t) w) (approvalPolicies d)"

definition tenant_auditLog_findMany :: "TenantPrisma \<Rightarrow> find_args option \<Rightarrow> db \<Rightarrow> AuditLog list" where
  "tenant_auditLog_findMany t args d =
     findMany audit_view (scoped_args (company_key t) args) (auditLogs d)"

definition tenant_exchangeRateSnapshot_findMany :: "TenantPrisma \<Rightarrow> find_args option \<Rightarrow> db \<Rightarrow> ExchangeRateSnapshot list" where
  "tenant_exchangeRateSnapshot_findMany t args d =
     findMany snapshot_view (scoped_args (company_key t) args) (exchangeRateSnapshots d)"

definition tenant_exchangeRateSnapshot_findFirst :: "TenantPrisma \<Rightarrow> find_args option \<Rightarrow> db \<Rightarrow> ExchangeRateSnapshot option" where
  "tenant_exchangeRateSnapshot_findFirst t args d =
     findFirst snapshot_view (scoped_args (company_key t) args) (exchangeRateSnapshots d)"

text \<open>The company an expense belongs to is the company of its project.\<close>

definition expense_company :: "db \<Rightarrow> Expense \<Rightarrow> string option" where
  "expense_company d e = map_option project_companyId (project_of d e)"

text \<open>The database with the rows of one company only, in the tables the wrapper reads.\<close>

definition only_company :: "string \<Rightarrow> db \<Rightarrow> db" where
  "only_company c d =
     d\<lparr>projects := filter (\<lambda>p. project_companyId p = c) (projects d),
       expenses := filter (\<lambda>e. expense_company d e = Some c) (expenses d),
       memberships := filter (\<lambda>m. membership_companyId m = c) (memberships d),
       approvalPolicies := filter (\<lambda>a. policy_companyId a = c) (approvalPolicies d),
       auditLogs := filter (\<lambda>l. audit_companyId l = c) (auditLogs d),
       exchangeRateSnapshots :=
         filter (\<lambda>x. snapshot_companyId x = c) (exchangeRateSnapshots d)\<rparr>"

section \<open>Numbers and strings of the runtime\<close>

text \<open>
  A Number is a double: not-a-number, an infinity, or a finite value, kept as the exact
  rational that the double denotes (zero is kept without its sign). \<open>to_double\<close> takes
  a rational to the nearest double: 53 significant bits, the spacing of the doubles
  never below \<open>2\<close> to the \<open>-1074\<close>, a tie to the even significand, and infinity from
  \<open>2\<close> to the \<open>1024\<close> on. \<open>ilog2 q\<close> is the integer part of the binary logarithm of
  a positive \<open>q\<close>.
\<close>

datatype js_number = NaN | Finite rat | PosInfinity | NegInfinity

definition ilog2 :: "rat \<Rightarrow> int" where
  "ilog2 q =
     (case quotient_of q of
        (a, b) \<Rightarrow> let k = bitlen a - bitlen b in if 2 powi k \<le> q then k else k - 1)"

definition round_half_even :: "rat \<Rightarrow> int" where
  "round_half_even x =
     (let f = \<lfloor>x\<rfloor>; r = x - of_int f
      in if r < 1 / 2 then f else if 1 / 2 < r then f + 1 else if even f then f else f + 1)"

definition nearest_double :: "rat \<Rightarrow> rat" where
  "nearest_double q =
     (let e = max (ilog2 q - 52) (- 1074)
      in of_int (round_half_even (q / 2 powi e)) * 2 powi e)"

definition to_double :: "rat \<Rightarrow> js_number" where
  "to_double q =
     (if q = 0 then Finite 0
      else if 0 < q then
        (let v = nearest_double q in if 2 powi 1024 \<le> v then PosInfinity else Finite v)
      else
        (let v = nearest_double (- q)
         in if 2 powi 1024 \<le> v then NegInfinity else Finite (- v)))"

text \<open>
  \<^verbatim>\<open>x * y\<close> and \<^verbatim>\<open>x / y\<close>: the exact result, rounded to a double. A zero divisor
  is taken as positive.
\<close>

definition js_negative :: "js_number \<Rightarrow> bool" where
  "js_negative x =
     (case x of NaN \<Rightarrow> False | Finite q \<Rightarrow> q < 0
      | PosInfinity \<Rightarrow> False | NegInfinity \<Rightarrow> True)"

definition signed_infinity :: "bool \<Rightarrow> js_number" where
  "signed_infinity negative = (if negative then NegInfinity else PosInfinity)"

definition js_times :: "js_number \<Rightarrow> js_number \<Rightarrow> js_number" where
  "js_times x y =
     (case (x, y) of
        (NaN, _) \<Rightarrow> NaN
      | (_, NaN) \<Rightarrow> NaN
      | (Finite a, Finite b) \<Rightarrow> to_double (a * b)
      | _ \<Rightarrow>
          if x = Finite 0 \<or> y = Finite 0 then NaN
          else signed_infinity (js_negative x \<noteq> js_negative y))"

definition js_divide :: "js_number \<Rightarrow> js_number \<Rightarrow> js_number" where
  "js_divide x y =
     (case (x, y) of
        (NaN, _) \<Rightarrow> NaN
      | (_, NaN) \<Rightarrow> NaN
      | (Finite a, Finite b) \<Rightarrow>
          if b = 0 then (if a = 0 then NaN else signed_infinity (a < 0))
          else to_double (a / b)
      | (Finite a, _) \<Rightarrow> Finite 0
      | (_, Finite b) \<Rightarrow> signed_infinity (js_negative x \<noteq> (b < 0))
      | _ \<Rightarrow> NaN)"

text \<open>\<^verbatim>\<open>Number(n)\<close> of a \<^verbatim>\<open>BigInt\<close>: the nearest double.\<close>

definition Number_of_BigInt :: "int \<Rightarrow> js_number" where
  "Number_of_BigInt n = to_double (of_int n)"

text \<open>A number as a JSON value: what is not finite is written as null.\<close>

definition json_of_number :: "js_number \<Rightarrow> json" where
  "json_of_number x = (case x of Finite q \<Rightarrow> JNum q | _ \<Rightarrow> JNull)"

text \<open>The decimal digits of an integer that is not negative.\<close>

definition digit_char :: "int \<Rightarrow> char" where
  "digit_char n = char_of (48 + n mod 10)"

function show_int :: "int \<Rightarrow> string" where
  "show_int n = (if n < 10 then [digit_char n] else show_int (n div 10) @ [digit_char n])"
  by pat_completeness auto
termination
  by (relation "measure (\<lambda>n. nat n)") auto

declare show_int.simps [simp del]

definition show_nat :: "nat \<Rightarrow> string" where
  "show_nat n = show_int (int n)"

definition is_space :: "char \<Rightarrow> bool" where
  "is_space c = (of_char c \<in> {9, 10, 11, 12, 13, 32 :: nat})"

definition is_digit :: "char \<Rightarrow> bool" where
  "is_digit c = (48 \<le> (of_char c :: nat) \<and> (of_char c :: nat) \<le> 57)"

definition digits_value :: "string \<Rightarrow> int" where
  "digits_value ds = foldl (\<lambda>a c. 10 * a + (of_char c - 48)) 0 ds"

fun starts_with :: "string \<Rightarrow> string \<Rightarrow> bool" where
  "starts_with [] s = True"
| "starts_with (p # ps) [] = False"
| "starts_with (p # ps) (c # cs) = (p = c \<and> starts_with ps cs)"

fun str_includes :: "string \<Rightarrow> string \<Rightarrow> bool" where
  "str_includes sub [] = (sub = [])"
| "str_includes sub (c # cs) = (starts_with sub (c # cs) \<or> str_includes sub cs)"

text \<open>
  The exponent part after a mantissa: \<^verbatim>\<open>e\<close> or \<^verbatim>\<open>E\<close>, an optional sign and at
  least one digit. Anything else is no exponent.
\<close>

definition exponent_of :: "string \<Rightarrow> int" where
  "exponent_of rest =
     (case rest of
        [] \<Rightarrow> 0
      | e # r \<Rightarrow>
          if e = CHR ''e'' \<or> e = CHR ''E'' then
            (case r of
               [] \<Rightarrow> 0
             | sg # r' \<Rightarrow>
                 if sg = CHR ''-'' then - digits_value (takeWhile is_digit r')
                 else if sg = CHR ''+'' then digits_value (takeWhile is_digit r')
                 else digits_value (takeWhile is_digit r))
          else 0)"

definition scale10 :: "rat \<Rightarrow> int \<Rightarrow> rat" where
  "scale10 m e = (if 0 \<le> e then m * 10 ^ nat e else m / 10 ^ nat (- e))"

text \<open>
  The value of the longest decimal literal at the head of a string: digits, a fraction,
  an exponent; \<open>None\<close> when there are no digits.
\<close>

definition decimal_value :: "string \<Rightarrow> rat option" where
  "decimal_value u =
     (let ip = takeWhile is_digit u;
          r = dropWhile is_digit u;
          fp = (case r of [] \<Rightarrow> [] | c # r' \<Rightarrow>
                  if c = CHR ''.'' then takeWhile is_digit r' else []);
          r2 = (case r of [] \<Rightarrow> [] | c # r' \<Rightarrow>
                  if c = CHR ''.'' then dropWhile is_digit r' else r)
      in if ip = [] \<and> fp = [] then None
         else Some (scale10 (of_int (digits_value ip)
                             + of_int (digits_value fp) / 10 ^ length fp)
                      (exponent_of r2)))"

definition unsigned_decimal :: "string \<Rightarrow> js_number" where
  "unsigned_decimal u =
     (if starts_with ''Infinity'' u then PosInfinity
      else case decimal_value u of None \<Rightarrow> NaN | Some q \<Rightarrow> to_double q)"

definition js_negate :: "js_number \<Rightarrow> js_number" where
  "js_negate x =
     (case x of NaN \<Rightarrow> NaN | Finite q \<Rightarrow> Finite (- q)
      | PosInfinity \<Rightarrow> NegInfinity | NegInfinity \<Rightarrow> PosInfinity)"

text \<open>
  \<^verbatim>\<open>parseFloat\<close>: leading white space is skipped, then the longest prefix that is a
  decimal literal (sign, digits, fraction, exponent, or \<^verbatim>\<open>Infinity\<close>) is read and
  whatever follows it is ignored; with no such prefix the result is \<^verbatim>\<open>NaN\<close>. The
  result is the double nearest to the value of the literal.
\<close>

definition parseFloat :: "string \<Rightarrow> js_number" where
  "parseFloat s =
     (case dropWhile is_space s of
        [] \<Rightarrow> NaN
      | c # u \<Rightarrow>
          if c = CHR ''-'' then js_negate (unsigned_decimal u)
          else if c = CHR ''+'' then unsigned_decimal u
          else unsigned_decimal (c # u))"

definition isNaN :: "js_number \<Rightarrow> bool" where
  "isNaN x = (x = NaN)"

text \<open>\<^verbatim>\<open>x <= 0\<close> and \<^verbatim>\<open>x > y\<close>; a comparison with \<^verbatim>\<open>NaN\<close> is false.\<close>

definition js_le_zero :: "js_number \<Rightarrow> bool" where
  "js_le_zero x =
     (case x of NaN \<Rightarrow> False | Finite q \<Rightarrow> q \<le> 0
      | PosInfinity \<Rightarrow> False | NegInfinity \<Rightarrow> True)"

definition js_gt :: "js_number \<Rightarrow> js_number \<Rightarrow> bool" where
  "js_gt x y =
     (case (x, y) of
        (NaN, _) \<Rightarrow> False
      | (_, NaN) \<Rightarrow> False
      | (Finite a, Finite b) \<Rightarrow> b < a
      | (PosInfinity, PosInfinity) \<Rightarrow> False
      | (PosInfinity, _) \<Rightarrow> True
      | (Finite a, NegInfinity) \<Rightarrow> True
      | _ \<Rightarrow> False)"

text \<open>
  \<^verbatim>\<open>BigInt(Math.round(x * 100))\<close>: the product is a double; \<^verbatim>\<open>Math.round\<close> takes
  a finite double to the nearest integer, halves upwards, which is a double again, and
  leaves the others as they are; \<^verbatim>\<open>BigInt\<close> takes an integer as it is and throws a
  \<^verbatim>\<open>RangeError\<close> on the others.
\<close>

definition math_round :: "rat \<Rightarrow> int" where
  "math_round q = \<lfloor>q + 1 / 2\<rfloor>"

definition to_minor_units :: "js_number \<Rightarrow> exn + int" where
  "to_minor_units x =
     (case js_times x (Finite 100) of
        Finite q \<Rightarrow> Inr (math_round q)
      | NaN \<Rightarrow>
          Inl (Error ''The number NaN cannot be converted to a BigInt because it is not an integer'')
      | PosInfinity \<Rightarrow>
          Inl (Error ''The number Infinity cannot be converted to a BigInt because it is not an integer'')
      | NegInfinity \<Rightarrow>
          Inl (Error ''The number -Infinity cannot be converted to a BigInt because it is not an integer''))"

text \<open>
  \<^verbatim>\<open>x.toFixed(2)\<close>: the two-digit decimal nearest to the exact value of the double,
  the larger one at a tie, with the sign of \<open>x\<close>. (This is the result for a magnitude
  below \<open>10\<close> to the \<open>21\<close>, which a limit made of a 64-bit cap does not reach.)
\<close>

definition fixed2 :: "rat \<Rightarrow> string" where
  "fixed2 q =
     (let k = math_round (\<bar>q\<bar> * 100)
      in (if q < 0 then [CHR ''-''] else [])
         @ show_int (k div 100) @ [CHR ''.'', digit_char (k div 10), digit_char k])"

definition toFixed2 :: "js_number \<Rightarrow> string" where
  "toFixed2 x =
     (case x of
        NaN \<Rightarrow> ''NaN''
      | Finite q \<Rightarrow> fixed2 q
      | PosInfinity \<Rightarrow> ''Infinity''
      | NegInfinity \<Rightarrow> ''-Infinity'')"

text \<open>Truthiness of a value, as \<^verbatim>\<open>if (v)\<close> and \<^verbatim>\<open>a && b\<close> test it.\<close>

fun js_truthy :: "json \<Rightarrow> bool" where
  "js_truthy JNull = False"
| "js_truthy (JBool b) = b"
| "js_truthy (JNum q) = (q \<noteq> 0)"
| "js_truthy (JBigInt n) = (n \<noteq> 0)"
| "js_truthy (JStr s) = (s \<noteq> [])"
| "js_truthy (JArr xs) = True"
| "js_truthy (JObj kvs) = True"

text \<open>\<^verbatim>\<open>s.split('/')\<close>; \<^verbatim>\<open>.pop()\<close> then takes the last piece.\<close>

fun split_on :: "char \<Rightarrow> string \<Rightarrow> string list" where
  "split_on sep [] = [[]]"
| "split_on sep (c # cs) =
     (if c = sep then [] # split_on sep cs
      else (case split_on sep cs of
              [] \<Rightarrow> [[c]]
            | piece # pieces \<Rightarrow> (c # piece) # pieces))"

definition pop :: "string list \<Rightarrow> string option" where
  "pop xs = (if xs = [] then None else Some (last xs))"

text \<open>\<^verbatim>\<open>{...a, ...b}\<close> on objects with JSON values.\<close>

definition spread :: "(string \<times> json) list \<Rightarrow> (string \<times> json) list \<Rightarrow> (string \<times> json) list" where
  "spread a b = fold (\<lambda>(k, v). AList.update k v) b a"

definition get_key :: "json \<Rightarrow> string \<Rightarrow> json option" where
  "get_key j k = (case j of JObj kvs \<Rightarrow> map_of kvs k | _ \<Rightarrow> None)"

section \<open>The writes of the database client\<close>

text \<open>
  The schema gives every new row a fresh identifier; the model draws it from the
  counter of the database.
\<close>

definition new_id :: "db \<Rightarrow> string" where
  "new_id d = ''c00000000'' @ show_nat (next_id d)"

fun update_first :: "('r \<Rightarrow> bool) \<Rightarrow> ('r \<Rightarrow> 'r) \<Rightarrow> 'r list \<Rightarrow> 'r list" where
  "update_first P f [] = []"
| "update_first P f (r # rs) = (if P r then f r # rs else r # update_first P f rs)"

fun delete_first :: "('r \<Rightarrow> bool) \<Rightarrow> 'r list \<Rightarrow> 'r list" where
  "delete_first P [] = []"
| "delete_first P (r # rs) = (if P r then rs else r # delete_first P rs)"

text \<open>
  The \<^verbatim>\<open>data\<close> of \<^verbatim>\<open>expense.create\<close>. A \<^verbatim>\<open>Date\<close> is a timestamp, or \<open>None\<close>
  for the invalid date that \<^verbatim>\<open>new Date(s)\<close> makes of an unreadable string; the
  client refuses to write an invalid date, and an amount that does not fit the 64 bits
  of its column.
\<close>

definition int64 :: "int \<Rightarrow> bool" where
  "int64 n = (- (2 ^ 63) \<le> n \<and> n < 2 ^ 63)"

definition out_of_range_error :: exn where
  "out_of_range_error = Error ''Value out of range for the type''"

record ExpenseCreateData =
  new_projectId :: string
  new_employeeId :: string
  new_amountMinor :: int
  new_currency :: string
  new_description :: string
  new_category :: string
  new_paidBy :: string
  new_expenseDate :: "int option"
  new_status :: ExpenseStatus

definition prisma_expense_create :: "ExpenseCreateData \<Rightarrow> Expense io" where
  "prisma_expense_create data =
     (\<lambda>d. case new_expenseDate data of
        None \<Rightarrow> (Inl (Error ''Invalid value for argument expenseDate''), d)
      | Some ts \<Rightarrow>
          if \<not> int64 (new_amountMinor data) then (Inl out_of_range_error, d)
          else
          let e = \<lparr>expense_id = new_id d,
                   projectId = new_projectId data,
                   employeeId = new_employeeId data,
                   amountMinor = new_amountMinor data,
                   currency = new_currency data,
                   description = new_description data,
                   category = new_category data,
                   paidBy = new_paidBy data,
                   expenseDate = ts,
                   status = new_status data\<rparr>
          in (Inr e, d\<lparr>expenses := expenses d @ [e], next_id := Suc (next_id d)\<rparr>))"

text \<open>The \<^verbatim>\<open>data\<close> of \<^verbatim>\<open>expense.update\<close>: the columns to set.\<close>

record ExpenseUpdateData =
  set_projectId :: "string option"
  set_amountMinor :: "int option"
  set_currency :: "string option"
  set_description :: "string option"
  set_category :: "string option"
  set_paidBy :: "string option"
  set_expenseDate :: "int option option"
  set_status :: "ExpenseStatus option"

definition or_else :: "'a option \<Rightarrow> 'a \<Rightarrow> 'a" where
  "or_else x y = (case x of None \<Rightarrow> y | Some v \<Rightarrow> v)"

definition apply_update :: "ExpenseUpdateData \<Rightarrow> Expense \<Rightarrow> Expense" where
  "apply_update u e =
     e\<lparr>projectId := or_else (set_projectId u) (projectId e),
       amountMinor := or_else (set_amountMinor u) (amountMinor e),
       currency := or_else (set_currency u) (currency e),
       description := or_else (set_description u) (description e),
       category := or_else (set_category u) (category e),
       paidBy := or_else (set_paidBy u) (paidBy e),
       expenseDate := (case set_expenseDate u of Some (Some ts) \<Rightarrow> ts | _ \<Rightarrow> expenseDate e),
       status := or_else (set_status u) (status e)\<rparr>"

definition prisma_expense_update :: "cond list \<Rightarrow> ExpenseUpdateData \<Rightarrow> Expense io" where
  "prisma_expense_update w u =
     (\<lambda>d. if set_expenseDate u = Some None
          then (Inl (Error ''Invalid value for argument expenseDate''), d)
          else if (case set_amountMinor u of None \<Rightarrow> False | Some n \<Rightarrow> \<not> int64 n)
          then (Inl out_of_range_error, d)
          else
            case findUnique [''id''] (expense_view d) w (expenses d) of
              Inl e \<Rightarrow> (Inl e, d)
            | Inr None \<Rightarrow> (Inl (Error ''Record to update not found''), d)
            | Inr (Some e) \<Rightarrow>
                (Inr (apply_update u e),
                 d\<lparr>expenses :=
                     update_first (\<lambda>r. matches w (expense_view d r)) (apply_update u)
                       (expenses d)\<rparr>))"

definition prisma_expense_delete :: "cond list \<Rightarrow> Expense io" where
  "prisma_expense_delete w =
     (\<lambda>d. case findUnique [''id''] (expense_view d) w (expenses d) of
        Inl e \<Rightarrow> (Inl e, d)
      | Inr None \<Rightarrow> (Inl (Error ''Record to delete does not exist''), d)
      | Inr (Some e) \<Rightarrow>
          (Inr e,
           d\<lparr>expenses := delete_first (\<lambda>r. matches w (expense_view d r)) (expenses d)\<rparr>))"

definition prisma_project_delete :: "cond list \<Rightarrow> Project io" where
  "prisma_project_delete w =
     (\<lambda>d. case findUnique [''id''] project_view w (projects d) of
        Inl e \<Rightarrow> (Inl e, d)
      | Inr None \<Rightarrow> (Inl (Error ''Record to delete does not exist''), d)
      | Inr (Some p) \<Rightarrow>
          (Inr p,
           d\<lparr>projects := delete_first (\<lambda>r. matches w (project_view r)) (projects d)\<rparr>))"

definition prisma_project_findUniqueOrThrow :: "cond list \<Rightarrow> Project io" where
  "prisma_project_findUniqueOrThrow w =
     (\<lambda>d. case findUnique [''id''] project_view w (projects d) of
        Inl e \<Rightarrow> (Inl e, d)
      | Inr None \<Rightarrow> (Inl (Error ''No Project found''), d)
      | Inr (Some p) \<Rightarrow> (Inr p, d))"

definition prisma_approval_create :: "Approval \<Rightarrow> Approval io" where
  "prisma_approval_create a = (\<lambda>d. (Inr a, d\<lparr>approvals := approvals d @ [a]\<rparr>))"

text \<open>
  The \<^verbatim>\<open>data\<close> of \<^verbatim>\<open>auditLog.create\<close> is given as the row that it makes of the
  identifier drawn for it.
\<close>

definition prisma_auditLog_create :: "(string \<Rightarrow> AuditLog) \<Rightarrow> AuditLog io" where
  "prisma_auditLog_create new_row =
     (\<lambda>d. let l = new_row (new_id d)
          in (Inr l, d\<lparr>auditLogs := auditLogs d @ [l], next_id := Suc (next_id d)\<rparr>))"

definition prisma_receiptFile_create :: "ReceiptFile \<Rightarrow> ReceiptFile io" where
  "prisma_receiptFile_create r = (\<lambda>d. (Inr r, d\<lparr>receiptFiles := receiptFiles d @ [r]\<rparr>))"

section \<open>The tenant wrapper: writes\<close>

text \<open>
  \<^verbatim>\<open>expense.create\<close> first reads the project under both its identifier and the
  tenant's company, throwing when there is none, and only then forwards the caller's
  arguments to the client.
\<close>

definition tenant_expense_create :: "TenantPrisma \<Rightarrow> ExpenseCreateData \<Rightarrow> Expense io" where
  "tenant_expense_create t data =
     io_bind
       (prisma_project_findUniqueOrThrow
          [Fld ''id'' (JStr (new_projectId data)), Fld ''companyId'' (JStr (companyId t))])
       (\<lambda>p. prisma_expense_create data)"

definition tenant_expense_update :: "TenantPrisma \<Rightarrow> cond list \<Rightarrow> ExpenseUpdateData \<Rightarrow> Expense io" where
  "tenant_expense_update t w u = prisma_expense_update (obj_put (project_company_key t) w) u"

definition tenant_expense_delete :: "TenantPrisma \<Rightarrow> cond list \<Rightarrow> Expense io" where
  "tenant_expense_delete t w = prisma_expense_delete (obj_put (project_company_key t) w)"

definition tenant_project_delete :: "TenantPrisma \<Rightarrow> cond list \<Rightarrow> Project io" where
  "tenant_project_delete t w = prisma_project_delete (obj_put (company_key t) w)"

definition createAuditLog ::
  "TenantPrisma \<Rightarrow> string \<Rightarrow> string \<Rightarrow> string \<Rightarrow> (string \<times> json) list option \<Rightarrow> AuditLog io" where
  "createAuditLog t act ent ent_id meta_arg =
     prisma_auditLog_create
       (\<lambda>i. \<lparr>audit_id = i,
             audit_companyId = companyId t,
             actorUserId = userId t,
             action = act,
             entity = ent,
             entityId = ent_id,
             meta = (case meta_arg of None \<Rightarrow> JNull | Some m \<Rightarrow> JObj m)\<rparr>)"

section \<open>Sessions\<close>

record AuthSession =
  session_userId :: string
  session_companyId :: string
  session_role :: MembershipRole
  session_email :: string

text \<open>
  \<^verbatim>\<open>redirect(path)\<close> never returns: it throws the framework's redirect signal, an
  \<^verbatim>\<open>Error\<close> whose message is \<^verbatim>\<open>NEXT_REDIRECT\<close>. The two functions below return
  the session, or the message of the \<^verbatim>\<open>Error\<close> they throw.
\<close>

definition redirect :: "string \<Rightarrow> string" where
  "redirect path = ''NEXT_REDIRECT''"

definition requireAuth :: "AuthSession option \<Rightarrow> string + AuthSession" where
  "requireAuth sess =
     (case sess of None \<Rightarrow> Inl (redirect ''/login'') | Some session \<Rightarrow> Inr session)"

definition requireRole :: "MembershipRole list \<Rightarrow> AuthSession option \<Rightarrow> string + AuthSession" where
  "requireRole allowedRoles sess =
     (case requireAuth sess of
        Inl m \<Rightarrow> Inl m
      | Inr session \<Rightarrow>
          if session_role session \<notin> set allowedRoles then Inl (redirect ''/dashboard'')
          else Inr session)"

definition require_session :: "MembershipRole list option \<Rightarrow> AuthSession option \<Rightarrow> string + AuthSession" where
  "require_session requiredRole sess =
     (case requiredRole of
        Some roles \<Rightarrow> requireRole roles sess
      | None \<Rightarrow> requireAuth sess)"

definition tenant_of :: "AuthSession \<Rightarrow> TenantPrisma" where
  "tenant_of session =
     \<lparr>companyId = session_companyId session, userId = session_userId session\<rparr>"

section \<open>The helpers of the HTTP API and of the server actions\<close>

record Response =
  http_status :: nat
  body :: json

record Request =
  pathname :: string
  json_body :: "json option"

text \<open>
  \<^verbatim>\<open>NextResponse.json(obj, {status})\<close>; the status is 200 when none is given. The
  body is written with \<^verbatim>\<open>JSON.stringify\<close>, which throws a \<^verbatim>\<open>TypeError\<close> on a
  \<^verbatim>\<open>BigInt\<close> anywhere in it. \<open>json_response\<close> is the response of a body that has
  none.
\<close>

definition json_response :: "(string \<times> json) list \<Rightarrow> nat \<Rightarrow> Response" where
  "json_response obj st = \<lparr>http_status = st, body = JObj obj\<rparr>"

fun serializable :: "json \<Rightarrow> bool" where
  "serializable (JBigInt n) = False"
| "serializable (JArr xs) = list_all serializable xs"
| "serializable (JObj kvs) = list_all serializable (map snd kvs)"
| "serializable other = True"

definition NextResponse_json :: "(string \<times> json) list \<Rightarrow> nat \<Rightarrow> exn + Response" where
  "NextResponse_json obj st =
     (if serializable (JObj obj) then Inr (json_response obj st)
      else Inl (Error ''Do not know how to serialize a BigInt''))"

definition createSuccessResponse :: "json \<Rightarrow> string option \<Rightarrow> exn + Response" where
  "createSuccessResponse dat message =
     NextResponse_json
       ([(''success'', JBool True), (''data'', dat)]
        @ (case message of None \<Rightarrow> [] | Some m \<Rightarrow> [(''message'', JStr m)]))
       200"

definition createErrorResponse :: "string \<Rightarrow> nat \<Rightarrow> json option \<Rightarrow> exn + Response" where
  "createErrorResponse err st details_arg =
     NextResponse_json
       ([(''success'', JBool False), (''error'', JStr err)]
        @ (case details_arg of
             None \<Rightarrow> []
           | Some j \<Rightarrow> if js_truthy j then [(''details'', j)] else []))
       st"

definition issues_json :: "string list \<Rightarrow> json" where
  "issues_json issues = JArr (map JStr issues)"

text \<open>The \<^verbatim>\<open>catch\<close> of the API wrapper, on an \<^verbatim>\<open>Error\<close> with message \<open>m\<close>.\<close>

definition api_catch :: "string \<Rightarrow> exn + Response" where
  "api_catch m =
     (if str_includes ''UNAUTHORIZED'' m then createErrorResponse ''Unauthorized'' 401 None
      else if str_includes ''FORBIDDEN'' m then createErrorResponse ''Forbidden'' 403 None
      else createErrorResponse m 500 None)"

text \<open>
  The API wrapper. A request body that is not JSON makes \<^verbatim>\<open>req.json()\<close> throw a
  \<^verbatim>\<open>SyntaxError\<close>, which is rethrown to the outer \<^verbatim>\<open>catch\<close>. The handler is
  returned without being awaited, so what the handler throws is not caught here: it is
  the \<open>Inl\<close> of the result, a request that ends without a response of this program.
\<close>

definition createApiHandler ::
  "MembershipRole list option \<Rightarrow> (json \<Rightarrow> string list + 'v) option \<Rightarrow>
   (Request \<Rightarrow> TenantPrisma \<Rightarrow> AuthSession \<Rightarrow> 'v option \<Rightarrow> Response io) \<Rightarrow>
   AuthSession option \<Rightarrow> Request \<Rightarrow> Response io" where
  "createApiHandler requiredRole validationSchema handler sess req =
     (case require_session requiredRole sess of
        Inl m \<Rightarrow> io_of (api_catch m)
      | Inr session \<Rightarrow>
          (case validationSchema of
             None \<Rightarrow> handler req (tenant_of session) session None
           | Some schema \<Rightarrow>
               (case json_body req of
                  None \<Rightarrow> io_of (api_catch ''Unexpected end of JSON input'')
                | Some b \<Rightarrow>
                    (case schema b of
                       Inl issues \<Rightarrow>
                         io_of
                           (createErrorResponse ''Invalid request data'' 400
                              (Some (issues_json issues)))
                     | Inr v \<Rightarrow> handler req (tenant_of session) session (Some v)))))"

text \<open>What a server action returns to its caller.\<close>

record 'r envelope =
  success :: bool
  data :: "'r option"
  error :: "string option"
  details :: "string list option"

definition succeeded :: "'r \<Rightarrow> 'r envelope" where
  "succeeded r = \<lparr>success = True, data = Some r, error = None, details = None\<rparr>"

definition failed :: "string \<Rightarrow> 'r envelope" where
  "failed m = \<lparr>success = False, data = None, error = Some m, details = None\<rparr>"

definition validation_failed :: "string list \<Rightarrow> 'r envelope" where
  "validation_failed issues =
     \<lparr>success = False, data = None, error = Some ''Validation failed'',
      details = Some issues\<rparr>"

text \<open>
  \<^verbatim>\<open>if (options.validationSchema && formData)\<close>: the input is parsed only when a
  schema is given and the input is truthy; otherwise the validated data stay undefined.
\<close>

definition validate_input ::
  "(json \<Rightarrow> string list + 'v) option \<Rightarrow> json option \<Rightarrow> string list + 'v option" where
  "validate_input validationSchema formData =
     (case validationSchema of
        None \<Rightarrow> Inr None
      | Some schema \<Rightarrow>
          (case formData of
             None \<Rightarrow> Inr None
           | Some j \<Rightarrow>
               if js_truthy j then
                 (case schema j of Inl issues \<Rightarrow> Inl issues | Inr v \<Rightarrow> Inr (Some v))
               else Inr None))"

text \<open>
  The server-action wrapper: whatever the action returns becomes the \<^verbatim>\<open>data\<close> of a
  successful envelope; whatever is thrown (by the session check, the schema or the
  action) becomes a failed envelope.
\<close>

definition createServerAction ::
  "MembershipRole list option \<Rightarrow> (json \<Rightarrow> string list + 'v) option \<Rightarrow>
   (TenantPrisma \<Rightarrow> AuthSession \<Rightarrow> 'v option \<Rightarrow> 'r io) \<Rightarrow>
   AuthSession option \<Rightarrow> json option \<Rightarrow> db \<Rightarrow> 'r envelope \<times> db" where
  "createServerAction requiredRole validationSchema act sess formData d =
     (case require_session requiredRole sess of
        Inl m \<Rightarrow> (failed m, d)
      | Inr session \<Rightarrow>
          (case validate_input validationSchema formData of
             Inl issues \<Rightarrow> (validation_failed issues, d)
           | Inr validatedData \<Rightarrow>
               (case act (tenant_of session) session validatedData d of
                  (Inl (ZodError issues), d') \<Rightarrow> (validation_failed issues, d')
                | (Inl (Error m), d') \<Rightarrow> (failed m, d')
                | (Inr result, d') \<Rightarrow> (succeeded result, d'))))"

definition auditAction ::
  "string \<Rightarrow> TenantPrisma \<Rightarrow> string \<Rightarrow> string \<Rightarrow> string \<Rightarrow> (string \<times> json) list \<Rightarrow> AuditLog io" where
  "auditAction timestamp t act ent ent_id meta_arg =
     createAuditLog t act ent ent_id (Some (spread [(''timestamp'', JStr timestamp)] meta_arg))"

section \<open>What the program takes from its libraries and its clock\<close>

text \<open>
  The functions of the libraries that the handlers call on request data, the clock, and,
  for the writes of the company-creation transaction, the tables whose insert fails.
\<close>

record env =
  is_email :: "string \<Rightarrow> bool"
  bcrypt_hash :: "string \<Rightarrow> string"
  date_parse :: "string \<Rightarrow> int option"
  json_parse :: "string \<Rightarrow> json option"
  now :: int
  now_iso :: string
  write_fails :: "string \<Rightarrow> bool"

section \<open>Schemas\<close>

text \<open>
  A schema returns the validated data, or the paths of the keys that failed. An object
  schema fails at the root on a value that is not an object.
\<close>

definition failing :: "(string \<times> bool) list \<Rightarrow> string list" where
  "failing checks = map fst (filter (\<lambda>(k, ok). \<not> ok) checks)"

definition object_schema :: "(json \<Rightarrow> 'v option) \<Rightarrow> (json \<Rightarrow> string list) \<Rightarrow> json \<Rightarrow> string list + 'v" where
  "object_schema parse issue_paths j =
     (case j of
        JObj kvs \<Rightarrow> (case parse j of Some v \<Rightarrow> Inr v | None \<Rightarrow> Inl (issue_paths j))
      | _ \<Rightarrow> Inl [[]])"

text \<open>\<^verbatim>\<open>z.string().min(lo).max(hi)\<close> on key \<open>k\<close>.\<close>

definition zod_string :: "nat \<Rightarrow> nat option \<Rightarrow> json \<Rightarrow> string \<Rightarrow> string option" where
  "zod_string lo hi j k =
     (case get_key j k of
        Some (JStr s) \<Rightarrow>
          if lo \<le> length s \<and> (case hi of None \<Rightarrow> True | Some h \<Rightarrow> length s \<le> h)
          then Some s else None
      | _ \<Rightarrow> None)"

text \<open>
  The same with \<^verbatim>\<open>.optional()\<close>: the outer \<open>None\<close> is a failure, \<open>Some None\<close> an
  absent key.
\<close>

definition zod_optional_string :: "nat \<Rightarrow> json \<Rightarrow> string \<Rightarrow> string option option" where
  "zod_optional_string lo j k =
     (case get_key j k of
        None \<Rightarrow> Some None
      | Some (JStr s) \<Rightarrow> if lo \<le> length s then Some (Some s) else None
      | Some other \<Rightarrow> None)"

record CreateExpenseInput =
  in_projectId :: string
  in_amount :: string
  in_currency :: string
  in_description :: string
  in_category :: string
  in_paidBy :: string
  in_expenseDate :: string
  in_receiptFileKeys :: "string option"

definition parse_createExpense :: "json \<Rightarrow> CreateExpenseInput option" where
  "parse_createExpense j =
     Option.bind (zod_string 1 None j ''projectId'') (\<lambda>p.
     Option.bind (zod_string 1 None j ''amount'') (\<lambda>a.
     Option.bind (zod_string 1 None j ''currency'') (\<lambda>c.
     Option.bind (zod_string 1 None j ''description'') (\<lambda>ds.
     Option.bind (zod_string 1 None j ''category'') (\<lambda>ca.
     Option.bind (zod_string 1 None j ''paidBy'') (\<lambda>pb.
     Option.bind (zod_string 1 None j ''expenseDate'') (\<lambda>ed.
     Option.bind (zod_optional_string 0 j ''receiptFileKeys'') (\<lambda>rk.
       Some \<lparr>in_projectId = p, in_amount = a, in_currency = c, in_description = ds,
             in_category = ca, in_paidBy = pb, in_expenseDate = ed,
             in_receiptFileKeys = rk\<rparr>))))))))"

definition createExpenseSchema :: "json \<Rightarrow> string list + CreateExpenseInput" where
  "createExpenseSchema =
     object_schema parse_createExpense
       (\<lambda>j. failing
          [(''projectId'', zod_string 1 None j ''projectId'' \<noteq> None),
           (''amount'', zod_string 1 None j ''amount'' \<noteq> None),
           (''currency'', zod_string 1 None j ''currency'' \<noteq> None),
           (''description'', zod_string 1 None j ''description'' \<noteq> None),
           (''category'', zod_string 1 None j ''category'' \<noteq> None),
           (''paidBy'', zod_string 1 None j ''paidBy'' \<noteq> None),
           (''expenseDate'', zod_string 1 None j ''expenseDate'' \<noteq> None),
           (''receiptFileKeys'', zod_optional_string 0 j ''receiptFileKeys'' \<noteq> None)])"

text \<open>\<^verbatim>\<open>createExpenseSchema.partial().extend({id: z.string().min(1)})\<close>.\<close>

record UpdateExpenseInput =
  upd_id :: string
  upd_projectId :: "string option"
  upd_amount :: "string option"
  upd_currency :: "string option"
  upd_description :: "string option"
  upd_category :: "string option"
  upd_paidBy :: "string option"
  upd_expenseDate :: "string option"
  upd_receiptFileKeys :: "string option"

definition parse_updateExpense :: "json \<Rightarrow> UpdateExpenseInput option" where
  "parse_updateExpense j =
     Option.bind (zod_string 1 None j ''id'') (\<lambda>i.
     Option.bind (zod_optional_string 1 j ''projectId'') (\<lambda>p.
     Option.bind (zod_optional_string 1 j ''amount'') (\<lambda>a.
     Option.bind (zod_optional_string 1 j ''currency'') (\<lambda>c.
     Option.bind (zod_optional_string 1 j ''description'') (\<lambda>ds.
     Option.bind (zod_optional_string 1 j ''category'') (\<lambda>ca.
     Option.bind (zod_optional_string 1 j ''paidBy'') (\<lambda>pb.
     Option.bind (zod_optional_string 1 j ''expenseDate'') (\<lambda>ed.
     Option.bind (zod_optional_string 0 j ''receiptFileKeys'') (\<lambda>rk.
       Some \<lparr>upd_id = i, upd_projectId = p, upd_amount = a, upd_currency = c,
             upd_description = ds, upd_category = ca, upd_paidBy = pb,
             upd_expenseDate = ed, upd_receiptFileKeys = rk\<rparr>)))))))))"

definition updateExpenseSchema :: "json \<Rightarrow> string list + UpdateExpenseInput" where
  "updateExpenseSchema =
     object_schema parse_updateExpense
       (\<lambda>j. failing
          [(''id'', zod_string 1 None j ''id'' \<noteq> None),
           (''projectId'', zod_optional_string 1 j ''projectId'' \<noteq> None),
           (''amount'', zod_optional_string 1 j ''amount'' \<noteq> None),
           (''currency'', zod_optional_string 1 j ''currency'' \<noteq> None),
           (''description'', zod_optional_string 1 j ''description'' \<noteq> None),
           (''category'', zod_optional_string 1 j ''category'' \<noteq> None),
           (''paidBy'', zod_optional_string 1 j ''paidBy'' \<noteq> None),
           (''expenseDate'', zod_optional_string 1 j ''expenseDate'' \<noteq> None),
           (''receiptFileKeys'', zod_optional_string 0 j ''receiptFileKeys'' \<noteq> None)])"

text \<open>\<^verbatim>\<open>z.object({id: z.string().min(1)})\<close>, of the two delete actions.\<close>

definition idSchema :: "json \<Rightarrow> string list + string" where
  "idSchema =
     object_schema (\<lambda>j. zod_string 1 None j ''id'')
       (\<lambda>j. failing [(''id'', zod_string 1 None j ''id'' \<noteq> None)])"

section \<open>The expense actions\<close>

text \<open>
  The cap that the creation checks: the first policy the tenant wrapper returns, and its
  \<^verbatim>\<open>maxPerEmployeeMinor\<close> when that is truthy (neither null nor zero). The limit
  that the amount is compared with is \<^verbatim>\<open>Number(cap) / 100\<close>, a double.
\<close>

definition per_employee_cap :: "ApprovalPolicy list \<Rightarrow> int option" where
  "per_employee_cap policies =
     (case policies of
        [] \<Rightarrow> None
      | approvalPolicy # others \<Rightarrow>
          (case maxPerEmployeeMinor approvalPolicy of
             None \<Rightarrow> None
           | Some cap \<Rightarrow> if cap = 0 then None else Some cap))"

text \<open>
  The receipt records: the keys are read with \<^verbatim>\<open>JSON.parse\<close> and one record is
  written per key, inside a \<^verbatim>\<open>try\<close> whose \<^verbatim>\<open>catch\<close> only logs. The loop over an
  array stops at the first element that is not a string (the client refuses it); a
  string is iterated character by character; any other value is not iterable.
\<close>

fun receipt_loop :: "string \<Rightarrow> json list \<Rightarrow> unit io" where
  "receipt_loop eid [] = io_return ()"
| "receipt_loop eid (JStr k # rest) =
     io_bind
       (prisma_receiptFile_create
          \<lparr>receipt_expenseId = eid, url = k, mime = ''application/octet-stream'',
           size_bytes = 0\<rparr>)
       (\<lambda>r. receipt_loop eid rest)"
| "receipt_loop eid (other # rest) = io_return ()"

definition create_receipts :: "env \<Rightarrow> string option \<Rightarrow> Expense \<Rightarrow> unit io" where
  "create_receipts ev receiptFileKeys expense =
     (case receiptFileKeys of
        None \<Rightarrow> io_return ()
      | Some s \<Rightarrow>
          if s = [] then io_return ()
          else
            (case json_parse ev s of
               Some (JArr fileKeys) \<Rightarrow> receipt_loop (expense_id expense) fileKeys
             | Some (JStr chars) \<Rightarrow>
                 receipt_loop (expense_id expense) (map (\<lambda>c. JStr [c]) chars)
             | _ \<Rightarrow> io_return ()))"

definition createExpense_insert ::
  "env \<Rightarrow> TenantPrisma \<Rightarrow> AuthSession \<Rightarrow> CreateExpenseInput \<Rightarrow> js_number \<Rightarrow> string envelope io" where
  "createExpense_insert ev tenant session input amountNumber =
     (case to_minor_units amountNumber of
        Inl e \<Rightarrow> io_throw e
      | Inr amount_minor \<Rightarrow>
          io_bind
            (tenant_expense_create tenant
               \<lparr>new_projectId = in_projectId input,
                new_employeeId = session_userId session,
                new_amountMinor = amount_minor,
                new_currency = in_currency input,
                new_description = in_description input,
                new_category = in_category input,
                new_paidBy = in_paidBy input,
                new_expenseDate = date_parse ev (in_expenseDate input),
                new_status = PENDING\<rparr>)
            (\<lambda>expense.
               io_bind (create_receipts ev (in_receiptFileKeys input) expense)
                 (\<lambda>u. io_return (succeeded (expense_id expense)))))"

definition createExpense_action ::
  "env \<Rightarrow> TenantPrisma \<Rightarrow> AuthSession \<Rightarrow> CreateExpenseInput option \<Rightarrow> string envelope io" where
  "createExpense_action ev tenant session validatedData =
     (case validatedData of
        None \<Rightarrow> io_throw (Error ''Cannot destructure validatedData as it is undefined'')
      | Some input \<Rightarrow>
          let amountNumber = parseFloat (in_amount input) in
          if isNaN amountNumber \<or> js_le_zero amountNumber
          then io_return (failed ''Invalid amount'')
          else
            io_bind
              (io_try (tenant_project_findUnique tenant [Fld ''id'' (JStr (in_projectId input))]))
              (\<lambda>project.
                 if (case project of None \<Rightarrow> True | Some p \<Rightarrow> \<not> active p)
                 then io_return (failed ''Project not found or inactive'')
                 else
                   io_bind (io_read (tenant_approvalPolicy_findMany tenant None))
                     (\<lambda>policies.
                        case per_employee_cap policies of
                          None \<Rightarrow> createExpense_insert ev tenant session input amountNumber
                        | Some cap \<Rightarrow>
                            let maxAmount = js_divide (Number_of_BigInt cap) (Finite 100) in
                            if js_gt amountNumber maxAmount
                            then io_return
                                   (failed (''Amount exceeds maximum per employee limit of $''
                                            @ toFixed2 maxAmount))
                            else createExpense_insert ev tenant session input amountNumber)))"

definition createExpense :: "env \<Rightarrow> AuthSession option \<Rightarrow> json option \<Rightarrow> db \<Rightarrow> string envelope envelope \<times> db" where
  "createExpense ev = createServerAction None (Some createExpenseSchema) (createExpense_action ev)"

text \<open>\<^verbatim>\<open>if (updateData.k) updateFields.k = updateData.k\<close>: only a truthy string is taken.\<close>

definition truthy_string :: "string option \<Rightarrow> string option" where
  "truthy_string x = (case x of None \<Rightarrow> None | Some s \<Rightarrow> if s = [] then None else Some s)"

definition updateExpense_action ::
  "env \<Rightarrow> TenantPrisma \<Rightarrow> AuthSession \<Rightarrow> UpdateExpenseInput option \<Rightarrow> Expense envelope io" where
  "updateExpense_action ev tenant session validatedData =
     (case validatedData of
        None \<Rightarrow> io_throw (Error ''Cannot destructure validatedData as it is undefined'')
      | Some input \<Rightarrow>
          io_bind
            (io_try (tenant_expense_findUnique tenant [Fld ''id'' (JStr (upd_id input))]))
            (\<lambda>existingExpense.
               case existingExpense of
                 None \<Rightarrow> io_return (failed ''Expense not found or access denied'')
               | Some existing \<Rightarrow>
                   if employeeId existing \<noteq> session_userId session
                   then io_return (failed ''Expense not found or access denied'')
                   else if status existing \<noteq> PENDING
                   then io_return (failed ''Cannot update non-pending expenses'')
                   else
                     let amountNumber = map_option parseFloat (truthy_string (upd_amount input)) in
                     if (case amountNumber of
                           None \<Rightarrow> False
                         | Some x \<Rightarrow> isNaN x \<or> js_le_zero x)
                     then io_return (failed ''Invalid amount'')
                     else
                       (case (case amountNumber of
                                None \<Rightarrow> Inr None
                              | Some x \<Rightarrow> map_sum id Some (to_minor_units x)) of
                          Inl e \<Rightarrow> io_throw e
                        | Inr amount_minor \<Rightarrow>
                            io_bind
                              (tenant_expense_update tenant [Fld ''id'' (JStr (upd_id input))]
                                 \<lparr>set_projectId = truthy_string (upd_projectId input),
                                  set_amountMinor = amount_minor,
                                  set_currency = truthy_string (upd_currency input),
                                  set_description = truthy_string (upd_description input),
                                  set_category = truthy_string (upd_category input),
                                  set_paidBy = truthy_string (upd_paidBy input),
                                  set_expenseDate =
                                    map_option (date_parse ev) (truthy_string (upd_expenseDate input)),
                                  set_status = None\<rparr>)
                              (\<lambda>updatedExpense. io_return (succeeded updatedExpense)))))"

definition updateExpense :: "env \<Rightarrow> AuthSession option \<Rightarrow> json option \<Rightarrow> db \<Rightarrow> Expense envelope envelope \<times> db" where
  "updateExpense ev = createServerAction None (Some updateExpenseSchema) (updateExpense_action ev)"

text \<open>
  The action returns \<^verbatim>\<open>{success: true}\<close> with no data; the deleted row stands for
  nothing here and the data of the result is left out.
\<close>

definition deleteExpense_action ::
  "TenantPrisma \<Rightarrow> AuthSession \<Rightarrow> string option \<Rightarrow> unit envelope io" where
  "deleteExpense_action tenant session validatedData =
     (case validatedData of
        None \<Rightarrow> io_throw (Error ''Cannot destructure validatedData as it is undefined'')
      | Some i \<Rightarrow>
          io_bind
            (io_try (tenant_expense_findUnique tenant [Fld ''id'' (JStr i)]))
            (\<lambda>existingExpense.
               case existingExpense of
                 None \<Rightarrow> io_return (failed ''Expense not found or access denied'')
               | Some existing \<Rightarrow>
                   if employeeId existing \<noteq> session_userId session
                   then io_return (failed ''Expense not found or access denied'')
                   else if status existing \<noteq> PENDING
                   then io_return (failed ''Cannot delete non-pending expenses'')
                   else
                     io_bind (tenant_expense_delete tenant [Fld ''id'' (JStr i)])
                       (\<lambda>deleted.
                          io_return
                            \<lparr>success = True, data = None, error = None, details = None\<rparr>)))"

definition deleteExpense :: "AuthSession option \<Rightarrow> json option \<Rightarrow> db \<Rightarrow> unit envelope envelope \<times> db" where
  "deleteExpense = createServerAction None (Some idSchema) deleteExpense_action"

section \<open>The project actions\<close>

text \<open>
  \<^verbatim>\<open>deleteProject\<close> ends in \<^verbatim>\<open>redirect("/projects")\<close>, which throws inside the
  wrapper's \<^verbatim>\<open>try\<close>, after the row and the audit entry have been written.
\<close>

definition deleteProject_action ::
  "TenantPrisma \<Rightarrow> AuthSession \<Rightarrow> string option \<Rightarrow> unit io" where
  "deleteProject_action tenant session validatedData =
     (case truthy_string validatedData of
        None \<Rightarrow> io_throw (Error ''Project ID is required'')
      | Some i \<Rightarrow>
          io_bind (io_try (tenant_project_findUnique tenant [Fld ''id'' (JStr i)]))
            (\<lambda>found.
               case found of
                 None \<Rightarrow> io_throw (Error ''Project not found'')
               | Some project \<Rightarrow>
                   io_bind
                     (io_read
                        (tenant_expense_count tenant
                           (Some \<lparr>arg_where = Some [Fld ''projectId'' (JStr i)],
                                  arg_skip = None, arg_take = None\<rparr>)))
                     (\<lambda>expenseCount.
                        if 0 < expenseCount
                        then io_throw (Error ''Cannot delete project with existing expenses'')
                        else
                          io_bind (tenant_project_delete tenant [Fld ''id'' (JStr i)])
                            (\<lambda>deleted.
                               io_bind
                                 (createAuditLog tenant ''DELETE_PROJECT'' ''Project'' i
                                    (Some [(''projectName'', JStr (project_name project)),
                                           (''deletedBy'', JStr (session_userId session))]))
                                 (\<lambda>logged. io_throw (Error (redirect ''/projects'')))))))"

definition deleteProject :: "AuthSession option \<Rightarrow> json option \<Rightarrow> db \<Rightarrow> unit envelope \<times> db" where
  "deleteProject = createServerAction (Some [ADMIN]) (Some idSchema) deleteProject_action"

section \<open>The HTTP route that creates an expense\<close>

text \<open>
  The schema of \<^verbatim>\<open>POST /api/expenses\<close>. \<^verbatim>\<open>cuid()\<close> accepts a \<^verbatim>\<open>c\<close> in either
  case followed by at least eight characters, none of them white space or a hyphen.
\<close>

definition is_cuid :: "string \<Rightarrow> bool" where
  "is_cuid s =
     (case s of
        [] \<Rightarrow> False
      | c # rest \<Rightarrow>
          (c = CHR ''c'' \<or> c = CHR ''C'') \<and> 8 \<le> length rest \<and>
          list_all (\<lambda>x. \<not> is_space x \<and> x \<noteq> CHR ''-'') rest)"

definition zod_cuid :: "json \<Rightarrow> string \<Rightarrow> string option" where
  "zod_cuid j k =
     (case get_key j k of
        Some (JStr s) \<Rightarrow> if is_cuid s then Some s else None
      | _ \<Rightarrow> None)"

text \<open>\<^verbatim>\<open>z.number().int().positive()\<close>.\<close>

definition zod_positive_int :: "json \<Rightarrow> string \<Rightarrow> int option" where
  "zod_positive_int j k =
     (case get_key j k of
        Some (JNum q) \<Rightarrow> if q = of_int \<lfloor>q\<rfloor> \<and> 0 < q then Some \<lfloor>q\<rfloor> else None
      | _ \<Rightarrow> None)"

text \<open>\<^verbatim>\<open>z.string().length(3).default("USD")\<close>.\<close>

definition zod_currency :: "json \<Rightarrow> string \<Rightarrow> string option" where
  "zod_currency j k =
     (case get_key j k of
        None \<Rightarrow> Some ''USD''
      | Some (JStr s) \<Rightarrow> if length s = 3 then Some s else None
      | Some other \<Rightarrow> None)"

record ApiExpenseInput =
  api_projectId :: string
  api_amountMinor :: int
  api_currency :: string
  api_description :: string
  api_category :: string
  api_paidBy :: string
  api_expenseDate :: "int option"

definition parse_apiExpense :: "env \<Rightarrow> json \<Rightarrow> ApiExpenseInput option" where
  "parse_apiExpense ev j =
     Option.bind (zod_cuid j ''projectId'') (\<lambda>p.
     Option.bind (zod_positive_int j ''amountMinor'') (\<lambda>a.
     Option.bind (zod_currency j ''currency'') (\<lambda>c.
     Option.bind (zod_string 1 (Some 500) j ''description'') (\<lambda>ds.
     Option.bind (zod_string 1 (Some 100) j ''category'') (\<lambda>ca.
     Option.bind (zod_string 1 (Some 100) j ''paidBy'') (\<lambda>pb.
     Option.bind (zod_string 0 None j ''expenseDate'') (\<lambda>ed.
       Some \<lparr>api_projectId = p, api_amountMinor = a, api_currency = c,
             api_description = ds, api_category = ca, api_paidBy = pb,
             api_expenseDate = date_parse ev ed\<rparr>)))))))"

definition apiExpenseSchema :: "env \<Rightarrow> json \<Rightarrow> string list + ApiExpenseInput" where
  "apiExpenseSchema ev =
     object_schema (parse_apiExpense ev)
       (\<lambda>j. failing
          [(''projectId'', zod_cuid j ''projectId'' \<noteq> None),
           (''amountMinor'', zod_positive_int j ''amountMinor'' \<noteq> None),
           (''currency'', zod_currency j ''currency'' \<noteq> None),
           (''description'', zod_string 1 (Some 500) j ''description'' \<noteq> None),
           (''category'', zod_string 1 (Some 100) j ''category'' \<noteq> None),
           (''paidBy'', zod_string 1 (Some 100) j ''paidBy'' \<noteq> None),
           (''expenseDate'', zod_string 0 None j ''expenseDate'' \<noteq> None)])"

text \<open>
  An expense as the client returns it: the columns of the row, the amount of its 64-bit
  column as a \<^verbatim>\<open>BigInt\<close>.
\<close>

definition expense_object :: "Expense \<Rightarrow> (string \<times> json) list" where
  "expense_object e = AList.update ''amountMinor'' (JBigInt (amountMinor e)) (expense_columns e)"

text \<open>The created row with the two included relations.\<close>

definition expense_with_includes :: "db \<Rightarrow> Expense \<Rightarrow> json" where
  "expense_with_includes d e =
     JObj (expense_object e
           @ (case project_of d e of
                None \<Rightarrow> []
              | Some p \<Rightarrow>
                  [(''project'',
                    JObj [(''id'', JStr (project_id p)), (''name'', JStr (project_name p))])])
           @ (case find (\<lambda>u. user_id u = employeeId e) (users d) of
                None \<Rightarrow> []
              | Some u \<Rightarrow>
                  [(''employee'',
                    JObj [(''id'', JStr (user_id u)), (''name'', JStr (user_name u)),
                          (''email'', JStr (email u))])]))"

text \<open>
  The handler ends by making the success response of the created row. The row has a
  \<^verbatim>\<open>BigInt\<close>, so what the handler does there, after its writes, is throw.
\<close>

definition expenses_POST_handler ::
  "env \<Rightarrow> Request \<Rightarrow> TenantPrisma \<Rightarrow> AuthSession \<Rightarrow> ApiExpenseInput option \<Rightarrow> Response io" where
  "expenses_POST_handler ev req tenant session validatedData =
     (case validatedData of
        None \<Rightarrow> io_throw (Error ''Cannot read properties of undefined'')
      | Some input \<Rightarrow>
          io_bind
            (io_try (tenant_project_findUnique tenant [Fld ''id'' (JStr (api_projectId input))]))
            (\<lambda>found.
               case found of
                 None \<Rightarrow> io_throw (Error ''Project not found'')
               | Some project \<Rightarrow>
                   io_bind
                     (tenant_expense_create tenant
                        \<lparr>new_projectId = api_projectId input,
                         new_employeeId = session_userId session,
                         new_amountMinor = api_amountMinor input,
                         new_currency = api_currency input,
                         new_description = api_description input,
                         new_category = api_category input,
                         new_paidBy = api_paidBy input,
                         new_expenseDate = api_expenseDate input,
                         new_status = PENDING\<rparr>)
                     (\<lambda>expense.
                        io_bind
                          (auditAction (now_iso ev) tenant ''CREATE_EXPENSE'' ''Expense''
                             (expense_id expense)
                             [(''projectId'', JStr (projectId expense)),
                              (''projectName'', JStr (project_name project)),
                              (''amount'',
                               json_of_number
                                 (js_divide (Finite (of_int (api_amountMinor input)))
                                    (Finite 100))),
                              (''currency'', JStr (api_currency input)),
                              (''category'', JStr (api_category input))])
                          (\<lambda>logged.
                             io_bind (io_read (\<lambda>d. expense_with_includes d expense))
                               (\<lambda>j. io_of
                                       (createSuccessResponse j
                                          (Some ''Expense created successfully'')))))))"

definition expenses_POST :: "env \<Rightarrow> AuthSession option \<Rightarrow> Request \<Rightarrow> Response io" where
  "expenses_POST ev =
     createApiHandler (Some [ADMIN, MANAGER, EMPLOYEE]) (Some (apiExpenseSchema ev))
       (expenses_POST_handler ev)"

section \<open>The HTTP route that approves or rejects an expense\<close>

record ApproveInput =
  in_decision :: Decision
  in_note :: "string option"

definition zod_decision :: "json \<Rightarrow> string \<Rightarrow> Decision option" where
  "zod_decision j k =
     (case get_key j k of
        Some (JStr s) \<Rightarrow>
          if s = ''APPROVE'' then Some APPROVE
          else if s = ''REJECT'' then Some REJECT
          else None
      | _ \<Rightarrow> None)"

definition approveExpenseSchema :: "json \<Rightarrow> string list + ApproveInput" where
  "approveExpenseSchema =
     object_schema
       (\<lambda>j. Option.bind (zod_decision j ''decision'') (\<lambda>dc.
            Option.bind (zod_optional_string 0 j ''note'') (\<lambda>n.
              Some \<lparr>in_decision = dc, in_note = n\<rparr>)))
       (\<lambda>j. failing
          [(''decision'', zod_decision j ''decision'' \<noteq> None),
           (''note'', zod_optional_string 0 j ''note'' \<noteq> None)])"

definition char_lower :: "char \<Rightarrow> char" where
  "char_lower c =
     (if 65 \<le> (of_char c :: nat) \<and> (of_char c :: nat) \<le> 90
      then char_of (of_char c + 32 :: nat) else c)"

definition toLowerCase :: "string \<Rightarrow> string" where
  "toLowerCase s = map char_lower s"

definition decided_status :: "Decision \<Rightarrow> ExpenseStatus" where
  "decided_status dc = (if dc = APPROVE then APPROVED else REJECTED)"

definition status_only :: "ExpenseStatus \<Rightarrow> ExpenseUpdateData" where
  "status_only st =
     \<lparr>set_projectId = None, set_amountMinor = None, set_currency = None,
      set_description = None, set_category = None, set_paidBy = None,
      set_expenseDate = None, set_status = Some st\<rparr>"

text \<open>
  The handler takes the expense identifier from the request URL:
  \<^verbatim>\<open>url.pathname.split('/').pop()\<close>, the last segment of the path. Its reads and writes
  go through the unscoped client, with the company compared by hand. The three writes
  that follow the checks are \<open>approve_writes\<close>; the success response that is made
  after them is of the updated row, which has a \<^verbatim>\<open>BigInt\<close>.
\<close>

definition approve_writes ::
  "env \<Rightarrow> AuthSession \<Rightarrow> string \<Rightarrow> ApproveInput \<Rightarrow> Expense \<Rightarrow> Response io" where
  "approve_writes ev session expenseId input expense =
     io_bind
       (prisma_expense_update [Fld ''id'' (JStr expenseId)]
          (status_only (decided_status (in_decision input))))
       (\<lambda>updatedExpense.
          io_bind
            (prisma_approval_create
               \<lparr>approval_expenseId = expenseId,
                managerId = session_userId session,
                decision = in_decision input,
                approval_note = truthy_string (in_note input),
                decidedAt = now ev\<rparr>)
            (\<lambda>approved.
               io_bind
                 (prisma_auditLog_create
                    (\<lambda>i. \<lparr>audit_id = i,
                          audit_companyId = session_companyId session,
                          actorUserId = session_userId session,
                          action = ''EXPENSE_'' @ decision_name (in_decision input),
                          entity = ''Expense'',
                          entityId = expenseId,
                          meta =
                            JObj ([(''expenseDescription'', JStr (description expense)),
                                   (''amount'',
                                    json_of_number (Number_of_BigInt (amountMinor expense))),
                                   (''currency'', JStr (currency expense)),
                                   (''decision'', JStr (decision_name (in_decision input)))]
                                  @ (case in_note input of
                                       None \<Rightarrow> []
                                     | Some n \<Rightarrow> [(''note'', JStr n)]))\<rparr>))
                 (\<lambda>logged.
                    io_of
                      (createSuccessResponse (JObj (expense_object updatedExpense))
                         (Some (''Expense ''
                                @ toLowerCase (decision_name (in_decision input))
                                @ ''d successfully''))))))"

definition approve_POST_handler ::
  "env \<Rightarrow> Request \<Rightarrow> TenantPrisma \<Rightarrow> AuthSession \<Rightarrow> ApproveInput option \<Rightarrow> Response io" where
  "approve_POST_handler ev req tenant session validatedData =
     (case truthy_string (pop (split_on CHR ''/'' (pathname req))) of
        None \<Rightarrow> io_of (NextResponse_json [(''error'', JStr ''Expense ID is required'')] 400)
      | Some expenseId \<Rightarrow>
          (case validatedData of
             None \<Rightarrow> io_throw (Error ''Cannot destructure validatedData as it is undefined'')
           | Some input \<Rightarrow>
               io_bind
                 (io_try (\<lambda>d. map_sum id (map_option (\<lambda>e. (e, project_of d e)))
                                 (findUnique [''id''] (expense_view d)
                                    [Fld ''id'' (JStr expenseId)] (expenses d))))
                 (\<lambda>found.
                    case found of
                      None \<Rightarrow>
                        io_of (NextResponse_json [(''error'', JStr ''Expense not found'')] 404)
                    | Some (expense, None) \<Rightarrow>
                        io_throw (Error ''Cannot read properties of null'')
                    | Some (expense, Some project) \<Rightarrow>
                        if project_companyId project \<noteq> session_companyId session
                        then io_of (NextResponse_json [(''error'', JStr ''Unauthorized'')] 403)
                        else if status expense \<noteq> PENDING
                        then io_of
                               (NextResponse_json
                                  [(''error'', JStr ''Expense is not pending approval'')] 400)
                        else approve_writes ev session expenseId input expense)))"

definition approve_POST :: "env \<Rightarrow> AuthSession option \<Rightarrow> Request \<Rightarrow> Response io" where
  "approve_POST ev =
     createApiHandler (Some [MANAGER, ADMIN]) (Some approveExpenseSchema) (approve_POST_handler ev)"

text \<open>The path under which the framework serves this handler for expense \<open>i\<close>.\<close>

definition approve_path :: "string \<Rightarrow> string" where
  "approve_path i = ''/api/expenses/'' @ i @ ''/approve''"

section \<open>The HTTP route that creates a company\<close>

record CreateCompanyInput =
  in_companyName :: string
  in_adminName :: string
  in_adminEmail :: string
  in_adminPassword :: string

definition zod_email :: "env \<Rightarrow> json \<Rightarrow> string \<Rightarrow> string option" where
  "zod_email ev j k =
     (case get_key j k of
        Some (JStr s) \<Rightarrow> if is_email ev s then Some s else None
      | _ \<Rightarrow> None)"

definition createCompanySchema :: "env \<Rightarrow> json \<Rightarrow> string list + CreateCompanyInput" where
  "createCompanySchema ev =
     object_schema
       (\<lambda>j. Option.bind (zod_string 1 None j ''companyName'') (\<lambda>cn.
            Option.bind (zod_string 1 None j ''adminName'') (\<lambda>an.
            Option.bind (zod_email ev j ''adminEmail'') (\<lambda>ae.
            Option.bind (zod_string 6 None j ''adminPassword'') (\<lambda>ap.
              Some \<lparr>in_companyName = cn, in_adminName = an, in_adminEmail = ae,
                    in_adminPassword = ap\<rparr>)))))
       (\<lambda>j. failing
          [(''companyName'', zod_string 1 None j ''companyName'' \<noteq> None),
           (''adminName'', zod_string 1 None j ''adminName'' \<noteq> None),
           (''adminEmail'', zod_email ev j ''adminEmail'' \<noteq> None),
           (''adminPassword'', zod_string 6 None j ''adminPassword'' \<noteq> None)])"

text \<open>
  The four inserts of the transaction. Each fails when the environment says that the
  write to its table fails; the insert of a user also fails on an email that is taken.
\<close>

definition tx_company_create :: "env \<Rightarrow> string \<Rightarrow> string \<Rightarrow> Company io" where
  "tx_company_create ev nm cur =
     (\<lambda>d. if write_fails ev ''company'' then (Inl (Error ''company.create failed''), d)
          else
            let c = \<lparr>company_id = new_id d, company_name = nm, baseCurrency = cur\<rparr>
            in (Inr c, d\<lparr>companies := companies d @ [c], next_id := Suc (next_id d)\<rparr>))"

definition tx_user_create :: "env \<Rightarrow> string \<Rightarrow> string \<Rightarrow> string \<Rightarrow> User io" where
  "tx_user_create ev em nm ph =
     (\<lambda>d. if write_fails ev ''user'' then (Inl (Error ''user.create failed''), d)
          else if find (\<lambda>u. email u = em) (users d) \<noteq> None
          then (Inl (Error ''Unique constraint failed on the fields: (email)''), d)
          else
            let u = \<lparr>user_id = new_id d, email = em, user_name = nm, passwordHash = ph\<rparr>
            in (Inr u, d\<lparr>users := users d @ [u], next_id := Suc (next_id d)\<rparr>))"

definition tx_membership_create :: "env \<Rightarrow> string \<Rightarrow> string \<Rightarrow> MembershipRole \<Rightarrow> Membership io" where
  "tx_membership_create ev uid cid r =
     (\<lambda>d. if write_fails ev ''membership'' then (Inl (Error ''membership.create failed''), d)
          else
            let m = \<lparr>membership_id = new_id d, membership_userId = uid,
                     membership_companyId = cid, role = r\<rparr>
            in (Inr m, d\<lparr>memberships := memberships d @ [m], next_id := Suc (next_id d)\<rparr>))"

definition default_policy :: "string \<Rightarrow> string \<Rightarrow> ApprovalPolicy" where
  "default_policy pid cid =
     \<lparr>policy_id = pid, policy_companyId = cid, policy_type = PERCENTAGE,
      thresholdPercent = Some 50, maxPerEmployeeMinor = Some 100000,
      largeExpenseThresholdMinor = Some 500000, requireCeoForLarge = False\<rparr>"

definition tx_approvalPolicy_create :: "env \<Rightarrow> string \<Rightarrow> ApprovalPolicy io" where
  "tx_approvalPolicy_create ev cid =
     (\<lambda>d. if write_fails ev ''approvalPolicy''
          then (Inl (Error ''approvalPolicy.create failed''), d)
          else
            let a = default_policy (new_id d) cid
            in (Inr a, d\<lparr>approvalPolicies := approvalPolicies d @ [a],
                         next_id := Suc (next_id d)\<rparr>))"

definition company_create_writes :: "env \<Rightarrow> CreateCompanyInput \<Rightarrow> (Company \<times> User) io" where
  "company_create_writes ev input =
     io_bind (tx_company_create ev (in_companyName input) ''USD'') (\<lambda>company.
     io_bind (tx_user_create ev (in_adminEmail input) (in_adminName input)
                (bcrypt_hash ev (in_adminPassword input))) (\<lambda>adminUser.
     io_bind (tx_membership_create ev (user_id adminUser) (company_id company) ADMIN) (\<lambda>m.
     io_bind (tx_approvalPolicy_create ev (company_id company)) (\<lambda>a.
       io_return (company, adminUser)))))"

text \<open>
  The handler has its own \<^verbatim>\<open>try\<close> and \<^verbatim>\<open>catch\<close>, which answers every throw, and
  builds its responses by hand.
\<close>

definition company_create_POST :: "env \<Rightarrow> Request \<Rightarrow> db \<Rightarrow> Response \<times> db" where
  "company_create_POST ev req d =
     (case json_body req of
        None \<Rightarrow> (json_response [(''error'', JStr ''Failed to create company'')] 500, d)
      | Some b \<Rightarrow>
          (case createCompanySchema ev b of
             Inl issues \<Rightarrow>
               (json_response
                  [(''error'', JStr ''Validation failed''), (''details'', issues_json issues)]
                  400, d)
           | Inr input \<Rightarrow>
               if find (\<lambda>c. company_name c = in_companyName input) (companies d) \<noteq> None
               then (json_response
                       [(''error'', JStr ''A company with this name already exists'')] 400, d)
               else if find (\<lambda>u. email u = in_adminEmail input) (users d) \<noteq> None
               then (json_response
                       [(''error'', JStr ''A user with this email already exists'')] 400, d)
               else
                 (case transaction (company_create_writes ev input) d of
                    (Inl e, d') \<Rightarrow>
                      (json_response [(''error'', JStr ''Failed to create company'')] 500, d')
                  | (Inr (company, adminUser), d') \<Rightarrow>
                      (json_response
                         [(''success'', JBool True),
                          (''data'',
                           JObj [(''companyId'', JStr (company_id company)),
                                 (''companyName'', JStr (company_name company)),
                                 (''adminEmail'', JStr (email adminUser)),
                                 (''message'', JStr ''Company created successfully'')])]
                         200, d'))))"

section \<open>The response shapes of the specification\<close>

text \<open>
  A success body is \<^verbatim>\<open>{success: true, data, message?}\<close> and an error body is
  \<^verbatim>\<open>{success: false, error, details?}\<close>.
\<close>

definition success_shape :: "json \<Rightarrow> bool" where
  "success_shape b =
     (case b of
        JObj kvs \<Rightarrow>
          map_of kvs ''success'' = Some (JBool True) \<and>
          map_of kvs ''data'' \<noteq> None \<and>
          list_all (\<lambda>k. k \<in> {''success'', ''data'', ''message''}) (map fst kvs)
      | _ \<Rightarrow> False)"

definition error_shape :: "json \<Rightarrow> bool" where
  "error_shape b =
     (case b of
        JObj kvs \<Rightarrow>
          map_of kvs ''success'' = Some (JBool False) \<and>
          (case map_of kvs ''error'' of Some (JStr m) \<Rightarrow> True | _ \<Rightarrow> False) \<and>
          list_all (\<lambda>k. k \<in> {''success'', ''error'', ''details''}) (map fst kvs)
      | _ \<Rightarrow> False)"

section \<open>Sample data\<close>

text \<open>
  Two companies, Acme and Globex, with a project each; three expenses, of which the
  first and third are Acme's; an employee, a manager and an administrator of Acme.
\<close>

definition acme :: string where
  "acme = ''ccompanyacme''"

definition globex :: string where
  "globex = ''ccompanyglobex''"

definition website :: Project where
  "website =
     \<lparr>project_id = ''cprojectwebsite'', project_name = ''Website'',
      project_description = None, active = True, project_companyId = acme\<rparr>"

definition rocket :: Project where
  "rocket =
     \<lparr>project_id = ''cprojectrocket'', project_name = ''Rocket'',
      project_description = None, active = True, project_companyId = globex\<rparr>"

definition lunch :: Expense where
  "lunch =
     \<lparr>expense_id = ''cexpenselunch'', projectId = ''cprojectwebsite'',
      employeeId = ''cuseremployee'', amountMinor = 4500, currency = ''USD'',
      description = ''Team lunch'', category = ''Meals'', paidBy = ''Card'',
      expenseDate = 1705276800000, status = PENDING\<rparr>"

definition fuel :: Expense where
  "fuel =
     \<lparr>expense_id = ''cexpensefuel'', projectId = ''cprojectrocket'',
      employeeId = ''cuserglobex'', amountMinor = 990000, currency = ''USD'',
      description = ''Fuel'', category = ''Supplies'', paidBy = ''Card'',
      expenseDate = 1705276800000, status = PENDING\<rparr>"

definition hosting :: Expense where
  "hosting =
     \<lparr>expense_id = ''cexpensehosting'', projectId = ''cprojectwebsite'',
      employeeId = ''cuseremployee'', amountMinor = 12000, currency = ''USD'',
      description = ''Hosting'', category = ''Software'', paidBy = ''Card'',
      expenseDate = 1705276800000, status = APPROVED\<rparr>"

definition acme_member :: Membership where
  "acme_member =
     \<lparr>membership_id = ''cmemberacme'', membership_userId = ''cuseremployee'',
      membership_companyId = acme, role = EMPLOYEE\<rparr>"

definition globex_member :: Membership where
  "globex_member =
     \<lparr>membership_id = ''cmemberglobex'', membership_userId = ''cuserglobex'',
      membership_companyId = globex, role = ADMIN\<rparr>"

definition acme_policy :: ApprovalPolicy where
  "acme_policy = default_policy ''cpolicyacme'' acme"

definition globex_policy :: ApprovalPolicy where
  "globex_policy = default_policy ''cpolicyglobex'' globex"

definition acme_log :: AuditLog where
  "acme_log =
     \<lparr>audit_id = ''clogacme'', audit_companyId = acme, actorUserId = ''cuseradmin'', action = ''CREATE_PROJECT'',
      entity = ''Project'', entityId = ''cprojectwebsite'', meta = JNull\<rparr>"

definition globex_log :: AuditLog where
  "globex_log =
     \<lparr>audit_id = ''clogglobex'', audit_companyId = globex, actorUserId = ''cuserglobex'', action = ''CREATE_PROJECT'',
      entity = ''Project'', entityId = ''cprojectrocket'', meta = JNull\<rparr>"

definition acme_rates :: ExchangeRateSnapshot where
  "acme_rates =
     \<lparr>snapshot_id = ''cratesacme'', snapshot_companyId = acme,
      snapshot_baseCurrency = ''USD'', rates = JObj []\<rparr>"

definition globex_rates :: ExchangeRateSnapshot where
  "globex_rates =
     \<lparr>snapshot_id = ''cratesglobex'', snapshot_companyId = globex,
      snapshot_baseCurrency = ''EUR'', rates = JObj []\<rparr>"

definition sample_db :: db where
  "sample_db =
     \<lparr>companies =
        [\<lparr>company_id = acme, company_name = ''Acme'', baseCurrency = ''USD''\<rparr>,
         \<lparr>company_id = globex, company_name = ''Globex'', baseCurrency = ''EUR''\<rparr>],
      users =
        [\<lparr>user_id = ''cuseremployee'', email = ''emp@acme.test'', user_name = ''Eve'',
          passwordHash = ''x''\<rparr>],
      memberships = [globex_member, acme_member],
      projects = [rocket, website],
      expenses = [fuel, lunch, hosting],
      receiptFiles = [],
      approvals = [],
      approvalPolicies = [globex_policy, acme_policy],
      auditLogs = [globex_log, acme_log],
      exchangeRateSnapshots = [globex_rates, acme_rates],
      next_id = 7\<rparr>"

definition acme_tenant :: TenantPrisma where
  "acme_tenant = \<lparr>companyId = acme, userId = ''cuseremployee''\<rparr>"

definition employee_session :: AuthSession where
  "employee_session =
     \<lparr>session_userId = ''cuseremployee'', session_companyId = acme,
      session_role = EMPLOYEE, session_email = ''emp@acme.test''\<rparr>"

definition manager_session :: AuthSession where
  "manager_session =
     \<lparr>session_userId = ''cusermanager'', session_companyId = acme,
      session_role = MANAGER, session_email = ''mgr@acme.test''\<rparr>"

definition admin_session :: AuthSession where
  "admin_session =
     \<lparr>session_userId = ''cuseradmin'', session_companyId = acme,
      session_role = ADMIN, session_email = ''admin@acme.test''\<rparr>"

definition sample_env :: env where
  "sample_env =
     \<lparr>is_email = (\<lambda>s. CHR ''@'' \<in> set s),
      bcrypt_hash = (\<lambda>s. ''hashed:'' @ s),
      date_parse = (\<lambda>s. if s = ''2024-01-15'' then Some 1705276800000 else None),
      json_parse = (\<lambda>s. if s = ''[]'' then Some (JArr []) else None),
      now = 1705312800000,
      now_iso = ''2024-01-15T10:00:00.000Z'',
      write_fails = (\<lambda>t. False)\<rparr>"

text \<open>
  Filters that name the other company, on a row and through the project, alone and
  next to the identifier of a row of Acme; and a database in which Acme has a second
  member.
\<close>

definition globex_where :: "string \<Rightarrow> cond list" where
  "globex_where i = [Fld ''id'' (JStr i), Fld ''companyId'' (JStr globex)]"

definition globex_project_where :: "string \<Rightarrow> cond list" where
  "globex_project_where i =
     [Fld ''id'' (JStr i), Rel ''project'' [Fld ''companyId'' (JStr globex)]]"

definition acme_manager :: Membership where
  "acme_manager =
     \<lparr>membership_id = ''cmembermanager'', membership_userId = ''cusermanager'',
      membership_companyId = acme, role = MANAGER\<rparr>"

definition members_db :: db where
  "members_db = sample_db\<lparr>memberships := [globex_member, acme_member, acme_manager]\<rparr>"

definition globex_filter :: "find_args option" where
  "globex_filter =
     Some \<lparr>arg_where = Some [Fld ''companyId'' (JStr globex)],
           arg_skip = None, arg_take = None\<rparr>"

definition globex_project_filter :: "find_args option" where
  "globex_project_filter =
     Some \<lparr>arg_where = Some [Rel ''project'' [Fld ''companyId'' (JStr globex)]],
           arg_skip = None, arg_take = None\<rparr>"

text \<open>
  Two creation requests by the Acme employee, one for Acme's project and one for
  Globex's, and the row the first one makes.
\<close>

definition taxi_request :: ExpenseCreateData where
  "taxi_request =
     \<lparr>new_projectId = ''cprojectwebsite'', new_employeeId = ''cuseremployee'',
      new_amountMinor = 2300, new_currency = ''USD'', new_description = ''Taxi'',
      new_category = ''Travel'', new_paidBy = ''Cash'',
      new_expenseDate = Some 1705276800000, new_status = PENDING\<rparr>"

definition rocket_request :: ExpenseCreateData where
  "rocket_request = taxi_request\<lparr>new_projectId := ''cprojectrocket''\<rparr>"

definition taxi :: Expense where
  "taxi =
     \<lparr>expense_id = ''c000000007'', projectId = ''cprojectwebsite'',
      employeeId = ''cuseremployee'', amountMinor = 2300, currency = ''USD'',
      description = ''Taxi'', category = ''Travel'', paidBy = ''Cash'',
      expenseDate = 1705276800000, status = PENDING\<rparr>"

text \<open>The inputs of an update of the lunch expense and of two deletions.\<close>

definition update_lunch_form :: json where
  "update_lunch_form =
     JObj [(''id'', JStr ''cexpenselunch''), (''description'', JStr ''Client lunch'')]"

definition update_lunch_input :: UpdateExpenseInput where
  "update_lunch_input =
     \<lparr>upd_id = ''cexpenselunch'', upd_projectId = None, upd_amount = None,
      upd_currency = None, upd_description = Some ''Client lunch'', upd_category = None,
      upd_paidBy = None, upd_expenseDate = None, upd_receiptFileKeys = None\<rparr>"

definition delete_lunch_form :: json where
  "delete_lunch_form = JObj [(''id'', JStr ''cexpenselunch'')]"

definition delete_hosting_form :: json where
  "delete_hosting_form = JObj [(''id'', JStr ''cexpensehosting'')]"

text \<open>
  A third project, of Acme and without expenses, the database that has it, and the
  input of its deletion.
\<close>

definition intranet :: Project where
  "intranet =
     \<lparr>project_id = ''cprojectintranet'', project_name = ''Intranet'',
      project_description = None, active = True, project_companyId = acme\<rparr>"

definition projects_db :: db where
  "projects_db = sample_db\<lparr>projects := [rocket, website, intranet]\<rparr>"

definition delete_intranet_form :: json where
  "delete_intranet_form = JObj [(''id'', JStr ''cprojectintranet'')]"

definition delete_website_form :: json where
  "delete_website_form = JObj [(''id'', JStr ''cprojectwebsite'')]"

definition intranet_deleted_log :: AuditLog where
  "intranet_deleted_log =
     \<lparr>audit_id = ''c000000007'', audit_companyId = acme, actorUserId = ''cuseradmin'', action = ''DELETE_PROJECT'',
      entity = ''Project'', entityId = ''cprojectintranet'',
      meta = JObj [(''projectName'', JStr ''Intranet''), (''deletedBy'', JStr ''cuseradmin'')]\<rparr>"

text \<open>
  A request to create the company Initech, an environment in which the insert of a user
  fails, and the four rows the request makes when nothing fails.
\<close>

definition initech_request :: Request where
  "initech_request =
     \<lparr>pathname = ''/api/company/create'',
      json_body =
        Some (JObj [(''companyName'', JStr ''Initech''), (''adminName'', JStr ''Peter''),
                    (''adminEmail'', JStr ''peter@initech.test''),
                    (''adminPassword'', JStr ''secret'')])\<rparr>"

definition failing_user_env :: env where
  "failing_user_env = sample_env\<lparr>write_fails := (\<lambda>t. t = ''user'')\<rparr>"

definition initech :: Company where
  "initech = \<lparr>company_id = ''c000000007'', company_name = ''Initech'', baseCurrency = ''USD''\<rparr>"

definition peter :: User where
  "peter =
     \<lparr>user_id = ''c000000008'', email = ''peter@initech.test'', user_name = ''Peter'',
      passwordHash = ''hashed:secret''\<rparr>"

definition peter_membership :: Membership where
  "peter_membership =
     \<lparr>membership_id = ''c000000009'', membership_userId = ''c000000008'',
      membership_companyId = ''c000000007'', role = ADMIN\<rparr>"

definition initech_policy :: ApprovalPolicy where
  "initech_policy = default_policy ''c0000000010'' ''c000000007''"

text \<open>
  The input of a creation through the server action, with the amount left open, what
  the schema makes of it, and the row that an amount of exactly 1000.00 makes.
\<close>

definition expense_form :: "string \<Rightarrow> json" where
  "expense_form amount =
     JObj [(''projectId'', JStr ''cprojectwebsite''), (''amount'', JStr amount),
           (''currency'', JStr ''USD''), (''description'', JStr ''Conference''),
           (''category'', JStr ''Travel''), (''paidBy'', JStr ''Card''),
           (''expenseDate'', JStr ''2024-01-15'')]"

definition expense_input :: "string \<Rightarrow> CreateExpenseInput" where
  "expense_input amount =
     \<lparr>in_projectId = ''cprojectwebsite'', in_amount = amount, in_currency = ''USD'',
      in_description = ''Conference'', in_category = ''Travel'', in_paidBy = ''Card'',
      in_expenseDate = ''2024-01-15'', in_receiptFileKeys = None\<rparr>"

definition conference :: "int \<Rightarrow> Expense" where
  "conference minor =
     \<lparr>expense_id = ''c000000007'', projectId = ''cprojectwebsite'',
      employeeId = ''cuseremployee'', amountMinor = minor, currency = ''USD'',
      description = ''Conference'', category = ''Travel'', paidBy = ''Card'',
      expenseDate = 1705276800000, status = PENDING\<rparr>"

text \<open>
  A request to \<^verbatim>\<open>POST /api/expenses\<close> with the amount left open, and the audit entry
  that a creation through this route writes on the sample database, with the amount it
  logs left open.
\<close>

definition api_expense_request :: "json \<Rightarrow> Request" where
  "api_expense_request amount =
     \<lparr>pathname = ''/api/expenses'',
      json_body =
        Some (JObj [(''projectId'', JStr ''cprojectwebsite''), (''amountMinor'', amount),
                    (''currency'', JStr ''USD''), (''description'', JStr ''Conference''),
                    (''category'', JStr ''Travel''), (''paidBy'', JStr ''Card''),
                    (''expenseDate'', JStr ''2024-01-15'')])\<rparr>"

definition conference_log :: "json \<Rightarrow> AuditLog" where
  "conference_log amount =
     \<lparr>audit_id = ''c000000008'', audit_companyId = acme, actorUserId = ''cuseremployee'',
      action = ''CREATE_EXPENSE'', entity = ''Expense'', entityId = ''c000000007'',
      meta = JObj [(''timestamp'', JStr ''2024-01-15T10:00:00.000Z''),
                   (''projectId'', JStr ''cprojectwebsite''),
                   (''projectName'', JStr ''Website''),
                   (''amount'', amount),
                   (''currency'', JStr ''USD''),
                   (''category'', JStr ''Travel'')]\<rparr>"

text \<open>
  The specification's word for an amount that is a number: the whole text is a decimal
  number, that is an optional sign, digits and an optional fraction, and nothing else.
\<close>

definition numeric_text :: "string \<Rightarrow> bool" where
  "numeric_text s =
     (let u = (case s of
                 [] \<Rightarrow> []
               | c # r \<Rightarrow> if c = CHR ''-'' \<or> c = CHR ''+'' then r else s);
          ip = takeWhile is_digit u
      in case dropWhile is_digit u of
           [] \<Rightarrow> ip \<noteq> []
         | c # fp \<Rightarrow> c = CHR ''.'' \<and> list_all is_digit fp \<and> \<not> (ip = [] \<and> fp = []))"

text \<open>
  A policy of Acme whose cap is \<open>9007199254740993\<close> minor units, one more than \<open>2\<close> to
  the \<open>53\<close>, and the database that has it in place of Acme's policy.
\<close>

definition large_cap_policy :: ApprovalPolicy where
  "large_cap_policy = acme_policy\<lparr>maxPerEmployeeMinor := Some 9007199254740993\<rparr>"

definition large_cap_db :: db where
  "large_cap_db = sample_db\<lparr>approvalPolicies := [globex_policy, large_cap_policy]\<rparr>"

text \<open>
  The manager's request to approve the lunch expense, as the manager dashboard sends
  it, and a request to create a company under a name that is taken.
\<close>

definition approve_lunch_request :: Request where
  "approve_lunch_request =
     \<lparr>pathname = approve_path ''cexpenselunch'',
      json_body = Some (JObj [(''decision'', JStr ''APPROVE'')])\<rparr>"

definition acme_again_request :: Request where
  "acme_again_request =
     \<lparr>pathname = ''/api/company/create'',
      json_body =
        Some (JObj [(''companyName'', JStr ''Acme''), (''adminName'', JStr ''Wile''),
                    (''adminEmail'', JStr ''wile@acme.test''),
                    (''adminPassword'', JStr ''secret'')])\<rparr>"

section \<open>Facts about the doubles\<close>

lemma p2_pos [simp]: "0 < (2::rat) powi k"
  by (simp add: zero_less_power_int)

lemma p2_add: "(2::rat) powi (a + b) = 2 powi a * 2 powi b"
  by (simp add: power_int_add)

lemma p2_mono: "a \<le> b \<Longrightarrow> (2::rat) powi a \<le> 2 powi b"
  by (simp add: power_int_increasing)

lemma p2_less_cancel: "(2::rat) powi a < 2 powi b \<Longrightarrow> a < b"
  using p2_mono [of b a] by (cases "a < b") auto

lemma p2_of_bitlen:
  assumes "0 < a"
  shows "(2::rat) powi (bitlen a - 1) \<le> of_int a \<and> of_int a < (2::rat) powi (bitlen a)"
proof -
  from bitlen_bounds [OF assms]
  have b: "2 ^ nat (bitlen a - 1) \<le> a" "a < 2 ^ nat (bitlen a)" by auto
  have pos: "0 < bitlen a"
  proof (rule ccontr)
    assume "\<not> 0 < bitlen a"
    then have "nat (bitlen a) = 0" by simp
    with b(2) assms show False by simp
  qed
  have "(of_int (2 ^ nat (bitlen a - 1)) :: rat) \<le> of_int a"
    using b(1) by (simp only: of_int_le_iff)
  moreover have "(of_int a :: rat) < of_int (2 ^ nat (bitlen a))"
    using b(2) by (simp only: of_int_less_iff)
  ultimately show ?thesis
    using pos by (simp add: power_int_def)
qed

text \<open>\<open>ilog2 q\<close> is the exponent of the power of two at or below a positive \<open>q\<close>.\<close>

lemma ilog2_bounds:
  assumes "0 < q"
  shows "2 powi (ilog2 q) \<le> q \<and> q < 2 powi (ilog2 q + 1)"
proof -
  obtain a b where ab: "quotient_of q = (a, b)" by (cases "quotient_of q")
  then have q: "q = of_int a / of_int b" and b: "0 < b"
    by (auto dest: quotient_of_div quotient_of_denom_pos)
  from assms q b have a: "0 < a"
    by (simp add: zero_less_divide_iff)
  define k where "k = bitlen a - bitlen b"
  from p2_of_bitlen [OF a] p2_of_bitlen [OF b]
  have A: "(2::rat) powi (bitlen a - 1) \<le> of_int a" "of_int a < (2::rat) powi (bitlen a)"
   and B: "(2::rat) powi (bitlen b - 1) \<le> of_int b" "of_int b < (2::rat) powi (bitlen b)"
    by auto
  have bpos: "(0::rat) < of_int b" using b by simp
  have lo: "2 powi (k - 1) \<le> q"
  proof -
    have "2 powi (k - 1) * of_int b \<le> 2 powi (k - 1) * (2::rat) powi (bitlen b)"
      using B(2) by (simp add: mult_left_mono)
    also have "\<dots> = 2 powi (bitlen a - 1)"
      by (simp add: k_def p2_add [symmetric])
    also have "\<dots> \<le> of_int a" by (rule A(1))
    finally show ?thesis using bpos by (simp add: q pos_le_divide_eq)
  qed
  have hi: "q < 2 powi (k + 1)"
  proof -
    have "of_int a < (2::rat) powi (bitlen a)" by (rule A(2))
    also have "\<dots> = 2 powi (k + 1) * 2 powi (bitlen b - 1)"
      by (simp add: k_def p2_add [symmetric])
    also have "\<dots> \<le> 2 powi (k + 1) * of_int b"
      using B(1) by (simp add: mult_left_mono)
    finally show ?thesis using bpos by (simp add: q pos_divide_less_eq)
  qed
  show ?thesis
    using lo hi by (auto simp: ilog2_def ab k_def Let_def not_le)
qed

lemma ilog2_unique:
  assumes "2 powi k \<le> q" "q < 2 powi (k + 1)"
  shows "ilog2 q = k"
proof -
  have "0 < q" using assms(1) p2_pos [of k] by linarith
  from ilog2_bounds [OF this]
  have "2 powi (ilog2 q) \<le> q" "q < 2 powi (ilog2 q + 1)" by auto
  with assms
  have "(2::rat) powi (ilog2 q) < 2 powi (k + 1)" "(2::rat) powi k < 2 powi (ilog2 q + 1)"
    by linarith+
  then show ?thesis by (auto dest!: p2_less_cancel)
qed

lemma round_half_even_int: "round_half_even (of_int n) = n"
  by (simp add: round_half_even_def)

lemma round_half_even_near:
  assumes "\<bar>x - of_int m\<bar> < 1 / 2"
  shows "round_half_even x = m"
proof -
  from assms have lo: "of_int m - 1 / 2 < x" and hi: "x < of_int m + 1 / 2"
    by linarith+
  have "m - 1 \<le> \<lfloor>x\<rfloor>" using lo by (simp add: le_floor_iff)
  moreover have "\<lfloor>x\<rfloor> \<le> m" using hi by (simp add: floor_le_iff)
  ultimately consider "\<lfloor>x\<rfloor> = m" | "\<lfloor>x\<rfloor> = m - 1" by linarith
  then show ?thesis
  proof cases
    case 1
    then show ?thesis using hi by (simp add: round_half_even_def Let_def)
  next
    case 2
    then show ?thesis using lo by (simp add: round_half_even_def Let_def)
  qed
qed

lemma round_half_even_tie:
  assumes "x = of_int f + 1 / 2"
  shows "round_half_even x = (if even f then f else f + 1)"
proof -
  have "\<lfloor>x\<rfloor> = f" unfolding assms by linarith
  then show ?thesis by (simp add: round_half_even_def Let_def assms)
qed

text \<open>
  The double of a positive rational, from the power of two at or below it and the
  rounding of its significand.
\<close>

lemma nearest_double_eq:
  assumes "2 powi k \<le> q" "q < 2 powi (k + 1)" and "- 1022 \<le> k"
    and "round_half_even (q / 2 powi (k - 52)) = m"
  shows "nearest_double q = of_int m * 2 powi (k - 52)"
proof -
  have "max (k - 52) (- 1074) = k - 52" using assms(3) by simp
  then show ?thesis
    by (simp add: nearest_double_def ilog2_unique [OF assms(1,2)] assms(4))
qed

text \<open>A rational with a significand below \<open>2\<close> to the \<open>53\<close> is its own double.\<close>

lemma nearest_double_exact:
  assumes q: "0 < q" "q = of_int m * 2 powi e0" and m: "m < 2 ^ 53" and e0: "- 1074 \<le> e0"
  shows "nearest_double q = q"
proof -
  define e where "e = max (ilog2 q - 52) (- 1074)"
  have "(of_int m :: rat) < of_int (2 ^ 53)"
    using m by (simp only: of_int_less_iff)
  then have "q < 2 powi 53 * 2 powi e0"
    by (simp add: q(2) power_int_def)
  then have "q < 2 powi (53 + e0)" by (simp add: p2_add)
  with ilog2_bounds [OF q(1)] have "(2::rat) powi (ilog2 q) < 2 powi (53 + e0)" by linarith
  then have "ilog2 q < 53 + e0" by (rule p2_less_cancel)
  with e0 have le: "e \<le> e0" by (simp add: e_def)
  then have "(2::rat) powi e0 = 2 powi e * 2 powi (e0 - e)"
    by (simp add: p2_add [symmetric])
  moreover have "(2::rat) powi (e0 - e) = of_int (2 ^ nat (e0 - e))"
    using le by (simp add: power_int_def)
  ultimately have "q / 2 powi e = of_int (m * 2 ^ nat (e0 - e))"
    by (simp add: q(2))
  then have "round_half_even (q / 2 powi e) = m * 2 ^ nat (e0 - e)"
    by (simp only: round_half_even_int)
  then have "nearest_double q = of_int (m * 2 ^ nat (e0 - e)) * 2 powi e"
    by (simp add: nearest_double_def e_def [symmetric] Let_def)
  also have "\<dots> = q"
    using \<open>q / 2 powi e = of_int (m * 2 ^ nat (e0 - e))\<close> by (simp add: field_simps)
  finally show ?thesis .
qed

lemma to_double_int:
  assumes "\<bar>n\<bar> \<le> 2 ^ 53"
  shows "to_double (of_int n) = Finite (of_int n)"
proof -
  have exact: "nearest_double (of_int k) = of_int k" if "0 < k" "k \<le> 2 ^ 53" for k :: int
  proof (cases "k = 2 ^ 53")
    case True
    have "(of_int k :: rat) = of_int (2 ^ 52) * 2 powi 1" by (simp add: True)
    with that(1) show ?thesis
      by (intro nearest_double_exact [where m = "2 ^ 52" and ?e0.0 = 1]) simp_all
  next
    case False
    with that have "k < 2 ^ 53" by simp
    with that(1) show ?thesis
      by (intro nearest_double_exact [where m = k and ?e0.0 = 0]) simp_all
  qed
  have small: "(of_int k :: rat) < 2 powi 1024" if "k \<le> 2 ^ 53" for k :: int
  proof -
    have "(of_int k :: rat) \<le> of_int (2 ^ 53)" using that by (simp only: of_int_le_iff)
    also have "\<dots> < 2 powi 1024" by (simp add: power_int_def)
    finally show ?thesis .
  qed
  consider "n = 0" | "0 < n" | "n < 0" by linarith
  then show ?thesis
  proof cases
    case 1
    then show ?thesis by (simp add: to_double_def)
  next
    case 2
    with assms have "n \<le> 2 ^ 53" by simp
    with 2 exact [of n] small [of n] show ?thesis
      by (simp add: to_double_def Let_def)
  next
    case 3
    with assms have "- n \<le> 2 ^ 53" "0 < - n" by simp_all
    with 3 exact [of "- n"] small [of "- n"] show ?thesis
      by (simp add: to_double_def Let_def)
  qed
qed

lemma math_round_int: "math_round (of_int c) = c"
proof -
  have "\<lfloor>(of_int c :: rat) + 1 / 2\<rfloor> = c"
    by (rule floor_unique) simp_all
  then show ?thesis by (simp add: math_round_def)
qed

text \<open>The numbers of the examples.\<close>

lemma small_doubles:
  "to_double 12 = Finite 12" "to_double 1200 = Finite 1200"
  "to_double 1000 = Finite 1000" "to_double 2000 = Finite 2000"
  "to_double 100000 = Finite 100000" "to_double 200000 = Finite 200000"
  "to_double 4500 = Finite 4500" "to_double 45 = Finite 45"
  using to_double_int [of 12] to_double_int [of 1200] to_double_int [of 1000]
    to_double_int [of 2000] to_double_int [of 100000] to_double_int [of 200000]
    to_double_int [of 4500] to_double_int [of 45]
  by simp_all

lemma double_of_large_cap: "Number_of_BigInt 9007199254740993 = Finite 9007199254740992"
proof -
  have "round_half_even (9007199254740993 / 2 powi (53 - 52)) = 4503599627370496"
    using round_half_even_tie [of "9007199254740993 / 2" 4503599627370496] by simp
  from nearest_double_eq [OF _ _ _ this]
  have "nearest_double 9007199254740993 = 9007199254740992"
    by (simp add: power_int_def)
  then show ?thesis
    by (simp add: Number_of_BigInt_def to_double_def power_int_def)
qed

lemma limit_of_large_cap:
  "js_divide (Finite 9007199254740992) (Finite 100) = Finite (5764607523034235 / 64)"
proof -
  have "round_half_even (9007199254740992 / 100 / 2 powi (46 - 52)) = 5764607523034235"
    by (rule round_half_even_near) (simp add: power_int_def power_one_over abs_if)
  from nearest_double_eq [OF _ _ _ this]
  have "nearest_double (9007199254740992 / 100) = 5764607523034235 / 64"
    by (simp add: power_int_def power_one_over)
  then show ?thesis
    by (simp add: js_divide_def to_double_def power_int_def)
qed

lemma double_of_large_amount:
  "to_double (9007199254740993 / 100) = Finite (1441151880758559 / 16)"
proof -
  have "round_half_even (9007199254740993 / 100 / 2 powi (46 - 52)) = 5764607523034236"
    by (rule round_half_even_near) (simp add: power_int_def power_one_over abs_if)
  from nearest_double_eq [OF _ _ _ this]
  have "nearest_double (9007199254740993 / 100) = 5764607523034236 / 64"
    by (simp add: power_int_def power_one_over)
  then show ?thesis
    by (simp add: to_double_def power_int_def)
qed

section \<open>Facts about the database client and the wrapper\<close>

lemma obj_put_mem: "c \<in> set (obj_put c w)"
  by (auto simp: obj_put_def)

lemma matches_obj_put: "matches (obj_put c w) obj \<Longrightarrow> holds c obj"
  using obj_put_mem [of c w] by (auto simp: matches_def list_all_iff)

lemma set_window: "set (window sk tk rows) \<subseteq> set rows"
  by (auto simp: window_def Let_def split: option.splits dest: in_set_takeD in_set_dropD)

lemma set_insert_by: "set (insert_by k x ys) = insert x (set ys)"
  by (induction ys) auto

lemma set_sort_by: "set (sort_by k rows) = set rows"
  by (induction rows) (simp_all add: sort_by_def set_insert_by)

lemma findMany_sound:
  "r \<in> set (findMany view args rows) \<Longrightarrow>
     r \<in> set rows \<and> matches (where_or_empty (arg_where args)) (view r)"
  using set_window [of "arg_skip args" "arg_take args"
          "sort_by (\<lambda>r. row_id (view r))
             (filter (\<lambda>r. matches (where_or_empty (arg_where args)) (view r)) rows)"]
  by (auto simp: findMany_def Let_def set_sort_by split: if_splits)

lemma findUnique_sound:
  "findUnique uniques view w rows = Inr (Some r) \<Longrightarrow> r \<in> set rows \<and> matches w (view r)"
  by (auto simp: findUnique_def find_Some_iff split: if_splits)

lemma findFirst_sound:
  "findFirst view args rows = Some r \<Longrightarrow>
     r \<in> set rows \<and> matches (where_or_empty (arg_where args)) (view r)"
  using findMany_sound [of r view "args\<lparr>arg_take := Some 1\<rparr>" rows]
  by (auto simp: findFirst_def split: list.splits)

text \<open>
  A query whose filter holds of no row outside a set of rows gives the same rows on the
  table that has the rows of the set only.
\<close>

lemma findMany_restrict:
  assumes "\<And>r. r \<in> set rows \<Longrightarrow> matches (where_or_empty (arg_where args)) (view r) \<Longrightarrow> Q r"
    and "\<And>r. r \<in> set rows \<Longrightarrow> Q r \<Longrightarrow> view' r = view r"
  shows "findMany view' args (filter Q rows) = findMany view args rows"
proof -
  have "filter (\<lambda>r. matches (where_or_empty (arg_where args)) (view' r)) (filter Q rows)
          = filter (\<lambda>r. matches (where_or_empty (arg_where args)) (view r)) rows"
    using assms by (auto intro!: filter_cong)
  moreover have "sort_by (\<lambda>r. row_id (view' r)) xs = sort_by (\<lambda>r. row_id (view r)) xs"
    if "set xs \<subseteq> {r \<in> set rows. Q r}" for xs
    using that
  proof (induction xs)
    case Nil
    then show ?case by (simp add: sort_by_def)
  next
    case (Cons x xs)
    then have x: "view' x = view x" and xs: "set xs \<subseteq> {r \<in> set rows. Q r}"
      using assms(2) by auto
    have ins: "insert_by (\<lambda>r. row_id (view' r)) x ys = insert_by (\<lambda>r. row_id (view r)) x ys"
      if "set ys \<subseteq> {r \<in> set rows. Q r}" for ys
      using that assms(2) by (induction ys) (auto simp: x)
    from Cons.IH [OF xs] ins [of "sort_by (\<lambda>r. row_id (view r)) xs"] xs
    show ?case by (simp add: sort_by_def set_sort_by [unfolded sort_by_def])
  qed
  moreover
  have "set (filter (\<lambda>r. matches (where_or_empty (arg_where args)) (view r)) rows)
          \<subseteq> {r \<in> set rows. Q r}"
    using assms(1) by auto
  ultimately show ?thesis
    by (simp add: findMany_def Let_def)
qed

lemma project_key: "holds (company_key t) (project_view p) \<Longrightarrow> project_companyId p = companyId t"
  by (simp add: company_key_def project_view_def)

lemma membership_key: "holds (company_key t) (membership_view p) \<Longrightarrow> membership_companyId p = companyId t"
  by (simp add: company_key_def membership_view_def)

lemma policy_key: "holds (company_key t) (policy_view p) \<Longrightarrow> policy_companyId p = companyId t"
  by (simp add: company_key_def policy_view_def)

lemma audit_key: "holds (company_key t) (audit_view p) \<Longrightarrow> audit_companyId p = companyId t"
  by (simp add: company_key_def audit_view_def)

lemma snapshot_key: "holds (company_key t) (snapshot_view p) \<Longrightarrow> snapshot_companyId p = companyId t"
  by (simp add: company_key_def snapshot_view_def)

lemma expense_key:
  "holds (project_company_key t) (expense_view d e) \<Longrightarrow> expense_company d e = Some (companyId t)"
  by (cases "project_of d e")
     (simp_all add: project_company_key_def expense_view_def expense_columns_def
        expense_company_def project_view_def)

lemma scoped_findMany:
  "r \<in> set (findMany view (scoped_args k args) rows) \<Longrightarrow> r \<in> set rows \<and> holds k (view r)"
  by (auto dest!: findMany_sound simp: scoped_args_def where_or_empty_def dest: matches_obj_put)

lemma scoped_findFirst:
  "findFirst view (scoped_args k args) rows = Some r \<Longrightarrow> r \<in> set rows \<and> holds k (view r)"
  by (auto dest!: findFirst_sound simp: scoped_args_def where_or_empty_def dest: matches_obj_put)

lemma scoped_findUnique:
  "findUnique uniques view (obj_put k w) rows = Inr (Some r) \<Longrightarrow>
     r \<in> set rows \<and> holds k (view r)"
  by (auto dest!: findUnique_sound dest: matches_obj_put)

lemma scoped_count_restrict:
  assumes "\<And>r. r \<in> set rows \<Longrightarrow> holds k (view r) \<Longrightarrow> Q r"
    and "\<And>r. r \<in> set rows \<Longrightarrow> Q r \<Longrightarrow> view' r = view r"
  shows "count_rows view' (scoped_count_args k args) (filter Q rows)
           = count_rows view (scoped_count_args k args) rows"
  unfolding count_rows_def
  by (rule arg_cong [where f = length], rule findMany_restrict)
     (auto simp: scoped_count_args_def where_or_empty_def assms dest: matches_obj_put)

lemma find_filter: "find P xs = Some x \<Longrightarrow> Q x \<Longrightarrow> find P (filter Q xs) = Some x"
  by (induction xs) (auto split: if_splits)

lemma expense_view_only_company:
  assumes "expense_company d e = Some c"
  shows "expense_view (only_company c d) e = expense_view d e"
proof -
  from assms obtain p where p: "project_of d e = Some p" "project_companyId p = c"
    by (auto simp: expense_company_def)
  then have "project_of (only_company c d) e = Some p"
    by (simp add: project_of_def only_company_def find_filter)
  with p show ?thesis by (simp add: expense_view_def)
qed

lemma matches_id_company:
  "matches [Fld ''id'' (JStr i), Fld ''companyId'' (JStr c)] (project_view p)
     \<longleftrightarrow> project_id p = i \<and> project_companyId p = c"
  by (simp add: matches_def project_view_def)

text \<open>Unfolding sets for evaluating queries on the sample data.\<close>

lemmas sample_rows =
  acme_def globex_def website_def rocket_def lunch_def fuel_def hosting_def acme_member_def
  globex_member_def acme_policy_def globex_policy_def default_policy_def acme_log_def
  globex_log_def acme_rates_def globex_rates_def

lemmas query_defs =
  findMany_def findUnique_def findFirst_def count_rows_def window_def scoped_args_def
  scoped_count_args_def caller_where_def where_or_empty_def obj_put_def company_key_def
  project_company_key_def matches_def truthy_nat_def unique_selector_def sort_by_def
  row_id_def Let_def

lemmas view_defs =
  project_view_def expense_view_def expense_columns_def project_of_def membership_view_def
  policy_view_def audit_view_def snapshot_view_def json_opt_int_def json_opt_str_def

lemma sample_db_sel:
  "memberships sample_db = [globex_member, acme_member]"
  "projects sample_db = [rocket, website]"
  "expenses sample_db = [fuel, lunch, hosting]"
  "receiptFiles sample_db = []"
  "approvals sample_db = []"
  "approvalPolicies sample_db = [globex_policy, acme_policy]"
  "auditLogs sample_db = [globex_log, acme_log]"
  "exchangeRateSnapshots sample_db = [globex_rates, acme_rates]"
  "next_id sample_db = 7"
  by (simp_all add: sample_db_def)

lemma show_small: "show_nat 7 = ''7''" "show_nat 8 = ''8''" "show_nat 9 = ''9''"
  "show_nat 10 = ''10''"
  by code_simp+

lemma new_id_sample: "new_id sample_db = ''c000000007''"
  by (simp add: new_id_def sample_db_sel show_small)

section \<open>Facts about the server-action wrapper\<close>

lemma object_schema_truthy: "object_schema parse paths j = Inr v \<Longrightarrow> js_truthy j"
  by (cases j) (simp_all add: object_schema_def)

lemma validate_input_ok:
  "schema j = Inr v \<Longrightarrow> js_truthy j \<Longrightarrow> validate_input (Some schema) (Some j) = Inr (Some v)"
  by (simp add: validate_input_def)

lemma findUnique_by_id:
  "findUnique [''id''] view (Fld ''id'' (JStr i) # w) rows
     = Inr (find (\<lambda>r. matches (Fld ''id'' (JStr i) # w) (view r)) rows)"
  by (simp add: findUnique_def unique_selector_def)

lemma tenant_expense_findUnique_total:
  "tenant_expense_findUnique t [Fld ''id'' (JStr i)] d
     = Inr (find (\<lambda>e. matches [Fld ''id'' (JStr i), project_company_key t] (expense_view d e))
              (expenses d))"
  by (simp add: tenant_expense_findUnique_def obj_put_def project_company_key_def
        findUnique_by_id)

lemma tenant_expense_findUnique_id:
  assumes "tenant_expense_findUnique t [Fld ''id'' (JStr i)] d = Inr (Some e)"
  shows "e \<in> set (expenses d) \<and> expense_id e = i \<and> expense_company d e = Some (companyId t)"
proof -
  from assms
  have m: "e \<in> set (expenses d)"
    and h: "matches (obj_put (project_company_key t) [Fld ''id'' (JStr i)]) (expense_view d e)"
    by (auto simp: tenant_expense_findUnique_def dest: findUnique_sound)
  from h have "holds (Fld ''id'' (JStr i)) (expense_view d e)"
    by (simp add: obj_put_def project_company_key_def matches_def)
  then have "expense_id e = i"
    by (simp add: expense_view_def expense_columns_def)
  moreover from h have "expense_company d e = Some (companyId t)"
    by (blast dest: matches_obj_put expense_key)
  ultimately show ?thesis using m by simp
qed

lemma io_try_bind: "io_bind (io_try f) g d = (case f d of Inl e \<Rightarrow> (Inl e, d) | Inr x \<Rightarrow> g x d)"
  by (simp add: io_bind_def io_try_def split: sum.splits)

lemma server_action_run:
  assumes "schema j = Inr v" and "js_truthy j"
  shows "createServerAction None (Some schema) act (Some s) (Some j) d =
           (case act (tenant_of s) s (Some v) d of
              (Inl (ZodError issues), d') \<Rightarrow> (validation_failed issues, d')
            | (Inl (Error m), d') \<Rightarrow> (failed m, d')
            | (Inr result, d') \<Rightarrow> (succeeded result, d'))"
  using assms
  by (simp add: createServerAction_def require_session_def requireAuth_def validate_input_ok)

lemma succeeded_inject: "succeeded a = succeeded b \<longleftrightarrow> a = b"
  by (simp add: succeeded_def)

lemma succeeded_not_failed:
  "succeeded a \<noteq> failed m" "succeeded a \<noteq> validation_failed is"
  "failed m \<noteq> succeeded a" "validation_failed is \<noteq> succeeded a"
  by (simp_all add: succeeded_def failed_def validation_failed_def)

lemmas schema_defs =
  object_schema_def zod_string_def zod_optional_string_def get_key_def failing_def

lemma sample_expense_lookup:
  "tenant_expense_findUnique \<lparr>companyId = acme, userId = u\<rparr>
     [Fld ''id'' (JStr ''cexpenselunch'')] sample_db = Inr (Some lunch)"
  "tenant_expense_findUnique \<lparr>companyId = acme, userId = u\<rparr>
     [Fld ''id'' (JStr ''cexpensehosting'')] sample_db = Inr (Some hosting)"
  by (simp_all add: tenant_expense_findUnique_def sample_db_sel query_defs view_defs
        sample_rows)

lemma admin_action_run:
  assumes "schema j = Inr v" and "js_truthy j" and "session_role s \<in> set roles"
  shows "createServerAction (Some roles) (Some schema) act (Some s) (Some j) d =
           (case act (tenant_of s) s (Some v) d of
              (Inl (ZodError issues), d') \<Rightarrow> (validation_failed issues, d')
            | (Inl (Error m), d') \<Rightarrow> (failed m, d')
            | (Inr result, d') \<Rightarrow> (succeeded result, d'))"
  using assms
  by (simp add: createServerAction_def require_session_def requireRole_def requireAuth_def
        validate_input_ok)

lemma tenant_project_findUnique_id:
  "tenant_project_findUnique t [Fld ''id'' (JStr i)] d
     = Inr (find (\<lambda>p. project_id p = i \<and> project_companyId p = companyId t) (projects d))"
  by (simp add: tenant_project_findUnique_def findUnique_def obj_put_def company_key_def
        matches_def project_view_def unique_selector_def)

lemma find_distinct_id:
  assumes "distinct (map project_id ps)" and "p \<in> set ps"
  shows "find (\<lambda>q. project_id q = project_id p) ps = Some p"
  using assms
proof (induction ps)
  case Nil
  then show ?case by simp
next
  case (Cons q qs)
  then show ?case by (cases "project_id q = project_id p") (auto simp: image_iff)
qed

lemma find_distinct_id_company:
  assumes "distinct (map project_id ps)" and "p \<in> set ps" and "project_companyId p = c"
  shows "find (\<lambda>q. project_id q = project_id p \<and> project_companyId q = c) ps = Some p"
  using assms
proof (induction ps)
  case Nil
  then show ?case by simp
next
  case (Cons q qs)
  then show ?case by (cases "project_id q = project_id p") (auto simp: image_iff)
qed

lemma guard_read:
  "findUnique [''id''] project_view [Fld ''id'' (JStr i), Fld ''companyId'' (JStr c)] ps
     = Inr (find (\<lambda>p. project_id p = i \<and> project_companyId p = c) ps)"
  by (simp add: findUnique_by_id matches_id_company)

lemma guard_read_None:
  "findUnique [''id''] project_view [Fld ''id'' (JStr i), Fld ''companyId'' (JStr c)] ps
     = Inr None
     \<longleftrightarrow> \<not> (\<exists>p \<in> set ps. project_id p = i \<and> project_companyId p = c)"
  by (auto simp: guard_read find_None_iff)

lemma tenant_expense_create_throws:
  assumes "\<not> (\<exists>p \<in> set (projects d).
               project_id p = new_projectId new \<and> project_companyId p = companyId t)"
  shows "tenant_expense_create t new d = (Inl (Error ''No Project found''), d)"
proof -
  from assms
  have "findUnique [''id''] project_view
          [Fld ''id'' (JStr (new_projectId new)), Fld ''companyId'' (JStr (companyId t))]
          (projects d) = Inr None"
    by (simp add: guard_read_None)
  then show ?thesis
    by (simp add: tenant_expense_create_def io_bind_def prisma_project_findUniqueOrThrow_def)
qed

lemma tenant_expense_create_cases:
  assumes "\<exists>p \<in> set (projects d).
             project_id p = new_projectId new \<and> project_companyId p = companyId t"
  shows "tenant_expense_create t new d = prisma_expense_create new d"
proof -
  from assms
  have "find (\<lambda>p. project_id p = new_projectId new \<and> project_companyId p = companyId t)
          (projects d) \<noteq> None"
    by (auto simp: find_None_iff)
  then show ?thesis
    by (auto simp: tenant_expense_create_def io_bind_def prisma_project_findUniqueOrThrow_def
          guard_read)
qed

lemma prisma_expense_create_Inr:
  assumes "prisma_expense_create new d = (Inr e, d')"
  shows "expenses d' = expenses d @ [e] \<and> projectId e = new_projectId new \<and>
         amountMinor e = new_amountMinor new \<and> status e = new_status new \<and>
         employeeId e = new_employeeId new"
  using assms
  by (auto simp: prisma_expense_create_def Let_def split: option.splits if_splits)

section \<open>Creating an expense through the server action\<close>

lemma createExpense_run:
  assumes "createExpenseSchema j = Inr input"
  shows "createExpense ev (Some s) (Some j) d =
           (case createExpense_action ev (tenant_of s) s (Some input) d of
              (Inl (ZodError issues), d') \<Rightarrow> (validation_failed issues, d')
            | (Inl (Error m), d') \<Rightarrow> (failed m, d')
            | (Inr result, d') \<Rightarrow> (succeeded result, d'))"
  unfolding createExpense_def
  using assms object_schema_truthy [of parse_createExpense _ j input]
  by (intro server_action_run) (simp_all add: createExpenseSchema_def)

lemma createExpense_invalid_amount:
  assumes "createExpenseSchema j = Inr input"
    and "parseFloat (in_amount input) = NaN \<or> js_le_zero (parseFloat (in_amount input))"
  shows "createExpense ev (Some s) (Some j) d = (succeeded (failed ''Invalid amount''), d)"
  using assms(2)
  by (auto simp: createExpense_run [OF assms(1)] createExpense_action_def Let_def isNaN_def
        io_return_def)

lemma policies_of_company:
  "tenant_approvalPolicy_findMany t None d
     = filter (\<lambda>a. policy_companyId a = companyId t) (approvalPolicies d)"
  by (simp add: tenant_approvalPolicy_findMany_def findMany_def scoped_args_def
        caller_where_def obj_put_def company_key_def where_or_empty_def Let_def
        matches_def policy_view_def)

lemma expense_form_parsed: "createExpenseSchema (expense_form amt) = (if amt = [] then Inl [''amount''] else Inr (expense_input amt))"
  by (cases amt)
     (simp_all add: createExpenseSchema_def parse_createExpense_def schema_defs
        expense_form_def expense_input_def)

text \<open>
  The creation of an expense for the Website project by the employee of Acme, on the
  sample database with any policy \<open>pol\<close> in the place of Acme's: the cap check against
  the limit that \<open>pol\<close> gives, and then the insert of the amount in minor units.
\<close>

lemma creation_on_sample:
  assumes amt: "amt \<noteq> []" "parseFloat amt = Finite x" "0 < x"
    and pol: "policy_companyId pol = acme"
  shows "createExpense sample_env (Some employee_session) (Some (expense_form amt))
           (sample_db\<lparr>approvalPolicies := [globex_policy, pol]\<rparr>)
     = (let d = sample_db\<lparr>approvalPolicies := [globex_policy, pol]\<rparr>;
            inserted =
              (case to_minor_units (Finite x) of
                 Inl e \<Rightarrow> (case e of ZodError issues \<Rightarrow> (validation_failed issues, d)
                           | Error m \<Rightarrow> (failed m, d))
               | Inr n \<Rightarrow>
                   if int64 n
                   then (succeeded (succeeded ''c000000007''),
                         d\<lparr>expenses := [fuel, lunch, hosting, conference n], next_id := 8\<rparr>)
                   else (failed ''Value out of range for the type'', d))
        in case per_employee_cap [pol] of
             None \<Rightarrow> inserted
           | Some cap \<Rightarrow>
               if js_gt (Finite x) (js_divide (Number_of_BigInt cap) (Finite 100))
               then (succeeded
                       (failed (''Amount exceeds maximum per employee limit of $''
                                @ toFixed2 (js_divide (Number_of_BigInt cap) (Finite 100)))),
                     d)
               else inserted)"
proof -
  let ?d = "sample_db\<lparr>approvalPolicies := [globex_policy, pol]\<rparr>"
  let ?t = "tenant_of employee_session"
  have schema: "createExpenseSchema (expense_form amt) = Inr (expense_input amt)"
    using amt(1) by (simp add: expense_form_parsed)
  have sel: "projects ?d = [rocket, website]" "expenses ?d = [fuel, lunch, hosting]"
    "approvalPolicies ?d = [globex_policy, pol]" "next_id ?d = 7"
    by (simp_all add: sample_db_sel)
  have found: "tenant_project_findUnique ?t [Fld ''id'' (JStr ''cprojectwebsite'')] ?d
                 = Inr (Some website)"
    by (simp add: tenant_project_findUnique_id sel tenant_of_def employee_session_def
          website_def rocket_def acme_def globex_def)
  have pols: "tenant_approvalPolicy_findMany ?t None ?d = [pol]"
    by (simp add: policies_of_company sel tenant_of_def employee_session_def pol
          globex_policy_def default_policy_def acme_def globex_def)
  have new_id: "new_id ?d = ''c000000007''"
    by (simp add: new_id_def sel show_small)
  have guard: "\<exists>p \<in> set (projects ?d).
                 project_id p = in_projectId (expense_input amt) \<and>
                 project_companyId p = companyId ?t"
    by (simp add: sel expense_input_def tenant_of_def employee_session_def website_def)
  have create: "tenant_expense_create ?t
                  \<lparr>new_projectId = in_projectId (expense_input amt),
                   new_employeeId = session_userId employee_session,
                   new_amountMinor = n,
                   new_currency = in_currency (expense_input amt),
                   new_description = in_description (expense_input amt),
                   new_category = in_category (expense_input amt),
                   new_paidBy = in_paidBy (expense_input amt),
                   new_expenseDate = date_parse sample_env (in_expenseDate (expense_input amt)),
                   new_status = PENDING\<rparr> ?d
                = (if int64 n
                   then (Inr (conference n),
                         ?d\<lparr>expenses := [fuel, lunch, hosting, conference n],
                             next_id := 8\<rparr>)
                   else (Inl out_of_range_error, ?d))" for n
    by (subst tenant_expense_create_cases)
       (use guard in \<open>simp_all add: prisma_expense_create_def expense_input_def
          sample_env_def new_id conference_def Let_def sel employee_session_def\<close>)
  have receipts: "create_receipts sample_env (in_receiptFileKeys (expense_input amt)) e
                    = io_return ()" for e
    by (simp add: create_receipts_def expense_input_def)
  have ins: "createExpense_insert sample_env ?t employee_session (expense_input amt)
               (Finite x) ?d
             = (case to_minor_units (Finite x) of
                  Inl e \<Rightarrow> (Inl e, ?d)
                | Inr n \<Rightarrow>
                    if int64 n
                    then (Inr (succeeded ''c000000007''),
                          ?d\<lparr>expenses := [fuel, lunch, hosting, conference n],
                              next_id := 8\<rparr>)
                    else (Inl out_of_range_error, ?d))"
    by (cases "to_minor_units (Finite x)")
       (simp_all add: createExpense_insert_def io_throw_def io_bind_def create receipts
          io_return_def conference_def)
  have act: "createExpense_action sample_env ?t employee_session (Some (expense_input amt)) ?d
             = (case per_employee_cap [pol] of
                  None \<Rightarrow>
                    createExpense_insert sample_env ?t employee_session (expense_input amt)
                      (Finite x) ?d
                | Some cap \<Rightarrow>
                    if js_gt (Finite x) (js_divide (Number_of_BigInt cap) (Finite 100))
                    then (Inr (failed (''Amount exceeds maximum per employee limit of $''
                                       @ toFixed2 (js_divide (Number_of_BigInt cap)
                                                     (Finite 100)))), ?d)
                    else createExpense_insert sample_env ?t employee_session
                           (expense_input amt) (Finite x) ?d)"
    using amt(3)
    by (simp add: createExpense_action_def expense_input_def amt(2) isNaN_def js_le_zero_def
          io_try_def found website_def io_bind_def io_read_def pols io_return_def Let_def
          split: option.splits)
  show ?thesis
    unfolding createExpense_run [OF schema] act ins Let_def
    by (simp add: out_of_range_error_def split: option.splits sum.splits exn.splits)
qed

lemma sample_db_policies: "sample_db\<lparr>approvalPolicies := [globex_policy, acme_policy]\<rparr> = sample_db"
  by (simp add: sample_db_def)

lemma large_cap_db_policies:
  "sample_db\<lparr>approvalPolicies := [globex_policy, large_cap_policy]\<rparr> = large_cap_db"
  by (simp add: large_cap_db_def)

lemma acme_cap: "per_employee_cap [acme_policy] = Some 100000"
  "policy_companyId acme_policy = acme"
  by (simp_all add: per_employee_cap_def acme_policy_def default_policy_def)

lemma large_cap: "per_employee_cap [large_cap_policy] = Some 9007199254740993"
  "policy_companyId large_cap_policy = acme"
  by (simp_all add: per_employee_cap_def large_cap_policy_def acme_policy_def
        default_policy_def)

text \<open>The numbers and the texts of the examples.\<close>

lemma decimal_samples:
  "decimal_value ''12abc'' = Some 12"
  "decimal_value ''2000.00'' = Some 2000"
  "decimal_value ''1000.00'' = Some 1000"
  "decimal_value ''90071992547409.93'' = Some (9007199254740993 / 100)"
  "decimal_value ''abc'' = None"
  "decimal_value ''5'' = Some 5"
  by code_simp+

lemma parse_samples:
  "parseFloat ''12abc'' = Finite 12"
  "parseFloat ''2000.00'' = Finite 2000"
  "parseFloat ''1000.00'' = Finite 1000"
  "parseFloat ''90071992547409.93'' = Finite (1441151880758559 / 16)"
  "parseFloat ''abc'' = NaN"
  "parseFloat ''-5'' = Finite (- 5)"
  using to_double_int [of 5]
  by (simp_all add: parseFloat_def is_space_def unsigned_decimal_def decimal_samples
        small_doubles double_of_large_amount js_negate_def)

lemma acme_limit:
  "js_divide (Number_of_BigInt 100000) (Finite 100) = Finite 1000"
  by (simp add: Number_of_BigInt_def js_divide_def small_doubles)

lemma minor_units_samples:
  "to_minor_units (Finite 12) = Inr 1200"
  "to_minor_units (Finite 1000) = Inr 100000"
  using math_round_int [of 1200] math_round_int [of 100000]
  by (simp_all add: to_minor_units_def js_times_def small_doubles)

lemma digit_chars:
  "digit_char 0 = CHR ''0''" "digit_char 100 = CHR ''0''" "digit_char 1000 = CHR ''0''"
  "digit_char 10000 = CHR ''0''" "digit_char 100000 = CHR ''0''"
  "digit_char 9007199254740992 = CHR ''2''" "digit_char 900719925474099 = CHR ''9''"
  by code_simp+

lemma acme_limit_text: "toFixed2 (Finite 1000) = ''1000.00''"
proof -
  have r: "math_round (100000 :: rat) = 100000"
    using math_round_int [of 100000] by simp
  have s: "show_int 1000 = ''1000''" by code_simp
  show ?thesis
    by (simp add: toFixed2_def fixed2_def r s digit_chars)
qed

lemma large_limit_text: "toFixed2 (Finite (5764607523034235 / 64)) = ''90071992547409.92''"
proof -
  have "\<lfloor>(144115188075855875 / 16 + 1 / 2 :: rat)\<rfloor> = 9007199254740992"
    by (rule floor_unique) simp_all
  then have r: "math_round (144115188075855875 / 16) = 9007199254740992"
    by (simp add: math_round_def)
  have s: "show_int 90071992547409 = ''90071992547409''" by code_simp
  show ?thesis
    by (simp add: toFixed2_def fixed2_def r s digit_chars)
qed

section \<open>Facts about the API wrapper and the route that creates an expense\<close>

lemma serializable_issues: "serializable (issues_json issues)"
  by (induction issues) (simp_all add: issues_json_def)

lemma error_response_made:
  assumes "case det of None \<Rightarrow> True | Some j \<Rightarrow> serializable j"
  shows "createErrorResponse m st det
           = Inr (json_response
                    ([(''success'', JBool False), (''error'', JStr m)]
                     @ (case det of
                          None \<Rightarrow> []
                        | Some j \<Rightarrow> if js_truthy j then [(''details'', j)] else []))
                    st)"
  using assms
  by (auto simp: createErrorResponse_def NextResponse_json_def split: option.splits)

lemma error_response_shape:
  "createErrorResponse m st det = Inr resp \<Longrightarrow> error_shape (body resp)"
  by (auto simp: createErrorResponse_def NextResponse_json_def json_response_def
        error_shape_def split: option.splits if_splits)

lemma api_handler_run_roles:
  assumes "session_role s \<in> set roles"
  shows "createApiHandler (Some roles) (Some schema) handler (Some s) req d =
     (case json_body req of
        None \<Rightarrow> (api_catch ''Unexpected end of JSON input'', d)
      | Some b \<Rightarrow>
          (case schema b of
             Inl issues \<Rightarrow>
               (createErrorResponse ''Invalid request data'' 400 (Some (issues_json issues)), d)
           | Inr v \<Rightarrow> handler req (tenant_of s) s (Some v) d))"
  using assms
  by (simp add: createApiHandler_def require_session_def requireRole_def requireAuth_def
        io_of_def split: option.splits sum.splits)

lemma api_handler_run:
  "createApiHandler (Some [ADMIN, MANAGER, EMPLOYEE]) (Some schema) handler (Some s) req d =
     (case json_body req of
        None \<Rightarrow> (api_catch ''Unexpected end of JSON input'', d)
      | Some b \<Rightarrow>
          (case schema b of
             Inl issues \<Rightarrow>
               (createErrorResponse ''Invalid request data'' 400 (Some (issues_json issues)), d)
           | Inr v \<Rightarrow> handler req (tenant_of s) s (Some v) d))"
  by (rule api_handler_run_roles) (cases "session_role s", simp_all)

lemma apiExpenseSchema_amount:
  assumes "zod_positive_int b ''amountMinor'' = None"
  shows "\<exists>issues. apiExpenseSchema ev b = Inl issues"
proof (cases b)
  case (JObj kvs)
  have "parse_apiExpense ev b = None"
    by (cases "zod_cuid b ''projectId''") (simp_all add: parse_apiExpense_def assms)
  with JObj show ?thesis
    by (simp add: apiExpenseSchema_def object_schema_def)
qed (simp_all add: apiExpenseSchema_def object_schema_def)

text \<open>
  The route refuses, before its handler runs, every body whose \<^verbatim>\<open>amountMinor\<close> is
  not a number that is a positive integer.
\<close>

lemma expenses_POST_invalid_amount:
  assumes "json_body req = Some b"
    and "zod_positive_int b ''amountMinor'' = None"
  shows "\<exists>resp. expenses_POST ev (Some s) req d = (Inr resp, d) \<and>
               http_status resp = 400 \<and> error_shape (body resp)"
proof -
  from apiExpenseSchema_amount [OF assms(2)]
  obtain issues where "apiExpenseSchema ev b = Inl issues" by blast
  with assms(1) show ?thesis
    using error_response_made [of "Some (issues_json issues)" "''Invalid request data''" 400]
    by (simp add: expenses_POST_def api_handler_run serializable_issues json_response_def
          error_shape_def)
qed

lemma cuid_website: "is_cuid ''cprojectwebsite''"
  by (simp add: is_cuid_def is_space_def)

text \<open>No success response can be made of an expense as the client returns it.\<close>

lemma unserializable_expense: "\<not> serializable (JObj (expense_object e @ rest))"
  by (simp add: expense_object_def expense_columns_def)

lemma success_response_of_expense:
  "createSuccessResponse (JObj (expense_object e)) msg
     = Inl (Error ''Do not know how to serialize a BigInt'')"
  "createSuccessResponse (expense_with_includes d e) msg
     = Inl (Error ''Do not know how to serialize a BigInt'')"
  using unserializable_expense [of e "[]"] unserializable_expense [of e]
  by (simp_all add: createSuccessResponse_def NextResponse_json_def expense_with_includes_def)

text \<open>
  A request of the employee of Acme to \<^verbatim>\<open>POST /api/expenses\<close> for the Website project
  and \<open>n\<close> minor units, on the sample database: the expense and the audit entry are
  written, and then the handler throws on the response it cannot make.
\<close>

lemma sample_api_creation:
  assumes "0 < n" "n < 2 ^ 53"
  shows "expenses_POST sample_env (Some employee_session)
           (api_expense_request (JNum (of_int n))) sample_db
     = (Inl (Error ''Do not know how to serialize a BigInt''),
        sample_db\<lparr>expenses := [fuel, lunch, hosting, conference n],
                    auditLogs :=
                      [globex_log, acme_log,
                       conference_log
                         (json_of_number (js_divide (Finite (of_int n)) (Finite 100)))],
                    next_id := 9\<rparr>)"
proof -
  let ?input = "\<lparr>api_projectId = ''cprojectwebsite'', api_amountMinor = n,
                  api_currency = ''USD'', api_description = ''Conference'',
                  api_category = ''Travel'', api_paidBy = ''Card'',
                  api_expenseDate = Some 1705276800000\<rparr>"
  let ?t = "tenant_of employee_session"
  have parsed: "apiExpenseSchema sample_env
                  (JObj [(''projectId'', JStr ''cprojectwebsite''),
                         (''amountMinor'', JNum (of_int n)),
                         (''currency'', JStr ''USD''), (''description'', JStr ''Conference''),
                         (''category'', JStr ''Travel''), (''paidBy'', JStr ''Card''),
                         (''expenseDate'', JStr ''2024-01-15'')])
     = Inr ?input"
    using assms(1)
    by (simp add: apiExpenseSchema_def parse_apiExpense_def schema_defs zod_cuid_def
          cuid_website zod_positive_int_def zod_currency_def sample_env_def)
  have run: "expenses_POST sample_env (Some employee_session)
               (api_expense_request (JNum (of_int n))) sample_db
             = expenses_POST_handler sample_env (api_expense_request (JNum (of_int n)))
                 ?t employee_session (Some ?input) sample_db"
    by (simp add: expenses_POST_def api_handler_run api_expense_request_def parsed)
  have found: "tenant_project_findUnique ?t [Fld ''id'' (JStr ''cprojectwebsite'')] sample_db
                 = Inr (Some website)"
    by (simp add: tenant_project_findUnique_id sample_db_sel tenant_of_def
          employee_session_def website_def rocket_def acme_def globex_def)
  have guard: "\<exists>p \<in> set (projects sample_db).
                 project_id p = ''cprojectwebsite'' \<and> project_companyId p = companyId ?t"
    by (simp add: sample_db_sel tenant_of_def employee_session_def website_def)
  have range: "int64 n"
    using assms by (simp add: int64_def)
  have create: "tenant_expense_create ?t
                  \<lparr>new_projectId = ''cprojectwebsite'',
                   new_employeeId = session_userId employee_session,
                   new_amountMinor = n, new_currency = ''USD'',
                   new_description = ''Conference'', new_category = ''Travel'',
                   new_paidBy = ''Card'', new_expenseDate = Some 1705276800000,
                   new_status = PENDING\<rparr> sample_db
                = (Inr (conference n),
                   sample_db\<lparr>expenses := [fuel, lunch, hosting, conference n],
                               next_id := 8\<rparr>)"
    by (subst tenant_expense_create_cases)
       (use guard range in \<open>simp_all add: prisma_expense_create_def new_id_sample
          conference_def Let_def sample_db_sel employee_session_def\<close>)
  show ?thesis
    unfolding run
    by (simp add: expenses_POST_handler_def io_try_def io_bind_def found create
          auditAction_def createAuditLog_def prisma_auditLog_create_def spread_def
          new_id_def show_small Let_def io_read_def io_of_def success_response_of_expense,
        simp add: sample_db_sel tenant_of_def employee_session_def website_def
          sample_env_def conference_def conference_log_def acme_def)
qed

section \<open>The route that approves or rejects an expense\<close>

lemma split_on_nonempty: "split_on sep s \<noteq> []"
  by (induction s) (auto split: list.splits)

lemma split_on_two:
  "\<exists>p q qs. split_on sep (xs @ sep # ys) = p # q # qs"
proof (induction xs)
  case Nil
  then show ?case
    by (cases "split_on sep ys") (auto simp: split_on_nonempty)
next
  case (Cons x xs)
  then show ?case by auto
qed

lemma last_split_on_append:
  "last (split_on sep (xs @ sep # ys)) = last (split_on sep ys)"
proof (induction xs)
  case Nil
  then show ?case by (simp add: split_on_nonempty)
next
  case (Cons x xs)
  from split_on_two [of sep xs ys]
  obtain p q qs where "split_on sep (xs @ sep # ys) = p # q # qs" by blast
  with Cons show ?case by auto
qed

lemma pop_approve_path: "pop (split_on CHR ''/'' (approve_path i)) = Some ''approve''"
proof -
  have "approve_path i = (''/api/expenses/'' @ i) @ CHR ''/'' # ''approve''"
    by (simp add: approve_path_def)
  then have "last (split_on CHR ''/'' (approve_path i)) = last (split_on CHR ''/'' ''approve'')"
    by (simp only: last_split_on_append)
  then show ?thesis
    by (simp add: pop_def split_on_nonempty)
qed

lemma hand_built_response:
  "NextResponse_json [(''error'', JStr m)] st = Inr (json_response [(''error'', JStr m)] st)"
  by (simp add: NextResponse_json_def)

lemma no_expense_called_approve:
  assumes "\<forall>e \<in> set (expenses d). expense_id e \<noteq> ''approve''"
  shows "findUnique [''id''] (expense_view d) [Fld ''id'' (JStr ''approve'')] (expenses d)
           = Inr None"
  using assms
  by (auto simp: findUnique_by_id find_None_iff matches_def expense_view_def
        expense_columns_def)

lemma approve_never_finds_the_expense:
  assumes "session_role s = MANAGER \<or> session_role s = ADMIN"
    and "json_body req = Some b" and "approveExpenseSchema b = Inr v"
    and "pathname req = approve_path i"
    and "\<forall>e \<in> set (expenses d). expense_id e \<noteq> ''approve''"
  shows "approve_POST ev (Some s) req d
           = (Inr (json_response [(''error'', JStr ''Expense not found'')] 404), d)"
proof -
  from assms(1) have r: "session_role s \<in> set [MANAGER, ADMIN]" by auto
  have "approve_POST ev (Some s) req d
          = approve_POST_handler ev req (tenant_of s) s (Some v) d"
    by (simp add: approve_POST_def api_handler_run_roles [OF r] assms(2,3))
  also have "\<dots> = (Inr (json_response [(''error'', JStr ''Expense not found'')] 404), d)"
    by (simp add: approve_POST_handler_def assms(4) pop_approve_path truthy_string_def
          io_bind_def io_try_def io_of_def hand_built_response
          no_expense_called_approve [OF assms(5)])
  finally show ?thesis .
qed

lemma matches_id_expense:
  "matches [Fld ''id'' (JStr i)] (expense_view d e) \<longleftrightarrow> expense_id e = i"
  by (simp add: matches_def expense_view_def expense_columns_def)

lemma apply_status_only: "apply_update (status_only st) = (\<lambda>e. e\<lparr>status := st\<rparr>)"
  by (rule ext) (simp add: apply_update_def status_only_def or_else_def)

lemma status_only_date: "set_expenseDate (status_only st) = None"
  by (simp add: status_only_def)

lemma status_only_amount: "set_amountMinor (status_only st) = None"
  by (simp add: status_only_def)

text \<open>
  What the handler does when the last segment of the path is the identifier of an
  expense of the requester's company: it refuses an expense that is not \<open>PENDING\<close> and
  changes nothing; it sets the status of a \<open>PENDING\<close> one by the decision and writes one
  approval and one audit entry for it, and then throws on the response of the updated
  row, which it cannot make.
\<close>

lemma approve_handler_on_last_segment:
  assumes seg: "pop (split_on CHR ''/'' (pathname req)) = Some i" "i \<noteq> []"
    and e: "find (\<lambda>e. expense_id e = i) (expenses d) = Some e"
    and p: "project_of d e = Some p" "project_companyId p = session_companyId s"
  shows
    "(status e \<noteq> PENDING \<longrightarrow>
        approve_POST_handler ev req t s (Some v) d
          = (Inr (json_response [(''error'', JStr ''Expense is not pending approval'')] 400),
             d)) \<and>
     (status e = PENDING \<longrightarrow>
        (\<exists>d'. approve_POST_handler ev req t s (Some v) d
                 = (Inl (Error ''Do not know how to serialize a BigInt''), d') \<and>
           expenses d' =
             update_first (\<lambda>r. expense_id r = i)
               (\<lambda>r. r\<lparr>status := decided_status (in_decision v)\<rparr>) (expenses d) \<and>
           approvals d' =
             approvals d @
             [\<lparr>approval_expenseId = i, managerId = session_userId s,
               decision = in_decision v, approval_note = truthy_string (in_note v),
               decidedAt = now ev\<rparr>] \<and>
           (\<exists>l. auditLogs d' = auditLogs d @ [l] \<and> entityId l = i \<and>
                entity l = ''Expense'' \<and> audit_companyId l = session_companyId s \<and>
                actorUserId l = session_userId s)))"
proof -
  have look: "findUnique [''id''] (expense_view d) [Fld ''id'' (JStr i)] (expenses d)
                = Inr (Some e)"
    using e by (simp add: findUnique_by_id matches_id_expense)
  have ts: "truthy_string (Some i) = Some i"
    using seg(2) by (simp add: truthy_string_def)
  show ?thesis
    by (simp add: approve_POST_handler_def seg(1) ts io_bind_def io_try_def io_of_def
          hand_built_response look p approve_writes_def prisma_expense_update_def
          status_only_date status_only_amount matches_id_expense prisma_approval_create_def
          prisma_auditLog_create_def Let_def success_response_of_expense apply_status_only)
qed

lemma approve_lunch_result:
  "approve_POST sample_env (Some manager_session) approve_lunch_request sample_db
     = (Inr (json_response [(''error'', JStr ''Expense not found'')] 404), sample_db)"
proof -
  have "approveExpenseSchema (JObj [(''decision'', JStr ''APPROVE'')])
          = Inr \<lparr>in_decision = APPROVE, in_note = None\<rparr>"
    by (simp add: approveExpenseSchema_def schema_defs zod_decision_def)
  moreover have "\<forall>e \<in> set (expenses sample_db). expense_id e \<noteq> ''approve''"
    by (simp add: sample_db_sel sample_rows)
  ultimately show ?thesis
    by (intro approve_never_finds_the_expense [where i = "''cexpenselunch''"])
       (simp_all add: manager_session_def approve_lunch_request_def)
qed

section \<open>Tenant isolation of the wrapper's reads\<close>

lemma only_company_sel:
  "projects (only_company c d) = filter (\<lambda>p. project_companyId p = c) (projects d)"
  "expenses (only_company c d) = filter (\<lambda>e. expense_company d e = Some c) (expenses d)"
  "memberships (only_company c d) = filter (\<lambda>m. membership_companyId m = c) (memberships d)"
  by (simp_all add: only_company_def)

lemma project_reads:
  "(\<forall>p \<in> set (tenant_project_findMany t args d).
      p \<in> set (projects d) \<and> project_companyId p = companyId t) \<and>
   (\<forall>p. tenant_project_findUnique t w d = Inr (Some p) \<longrightarrow>
      p \<in> set (projects d) \<and> project_companyId p = companyId t) \<and>
   tenant_project_count t args d = tenant_project_count t args (only_company (companyId t) d)"
proof -
  have "tenant_project_count t args (only_company (companyId t) d) = tenant_project_count t args d"
    unfolding tenant_project_count_def only_company_sel
    by (rule scoped_count_restrict) (auto dest: project_key)
  then show ?thesis
    unfolding tenant_project_findMany_def tenant_project_findUnique_def
    by (auto dest: scoped_findMany scoped_findUnique project_key)
qed

lemma expense_reads:
  "(\<forall>e \<in> set (tenant_expense_findMany t args d).
      e \<in> set (expenses d) \<and> expense_company d e = Some (companyId t)) \<and>
   (\<forall>e. tenant_expense_findUnique t w d = Inr (Some e) \<longrightarrow>
      e \<in> set (expenses d) \<and> expense_company d e = Some (companyId t)) \<and>
   tenant_expense_count t args d = tenant_expense_count t args (only_company (companyId t) d)"
proof -
  have "tenant_expense_count t args (only_company (companyId t) d) = tenant_expense_count t args d"
    unfolding tenant_expense_count_def only_company_sel
    by (rule scoped_count_restrict) (auto dest: expense_key simp: expense_view_only_company)
  then show ?thesis
    unfolding tenant_expense_findMany_def tenant_expense_findUnique_def
    by (auto dest: scoped_findMany scoped_findUnique expense_key)
qed

lemma membership_reads:
  "(\<forall>m \<in> set (tenant_membership_findMany t args d).
      m \<in> set (memberships d) \<and> membership_companyId m = companyId t) \<and>
   (\<forall>m. tenant_membership_findUnique t w d = Inr (Some m) \<longrightarrow>
      m \<in> set (memberships d) \<and> membership_companyId m = companyId t) \<and>
   tenant_membership_count t args d
     = tenant_membership_count t args (only_company (companyId t) d)"
proof -
  have "tenant_membership_count t args (only_company (companyId t) d)
          = tenant_membership_count t args d"
    unfolding tenant_membership_count_def only_company_sel
    by (rule scoped_count_restrict) (auto dest: membership_key)
  then show ?thesis
    unfolding tenant_membership_findMany_def tenant_membership_findUnique_def
    by (auto dest: scoped_findMany scoped_findUnique membership_key)
qed

lemma other_reads:
  "(\<forall>a \<in> set (tenant_approvalPolicy_findMany t args d).
      a \<in> set (approvalPolicies d) \<and> policy_companyId a = companyId t) \<and>
   (\<forall>a. tenant_approvalPolicy_findUnique t w d = Inr (Some a) \<longrightarrow>
      a \<in> set (approvalPolicies d) \<and> policy_companyId a = companyId t) \<and>
   (\<forall>l \<in> set (tenant_auditLog_findMany t args d).
      l \<in> set (auditLogs d) \<and> audit_companyId l = companyId t) \<and>
   (\<forall>x \<in> set (tenant_exchangeRateSnapshot_findMany t args d).
      x \<in> set (exchangeRateSnapshots d) \<and> snapshot_companyId x = companyId t) \<and>
   (\<forall>x. tenant_exchangeRateSnapshot_findFirst t args d = Some x \<longrightarrow>
      x \<in> set (exchangeRateSnapshots d) \<and> snapshot_companyId x = companyId t)"
  unfolding tenant_approvalPolicy_findMany_def tenant_approvalPolicy_findUnique_def
    tenant_auditLog_findMany_def tenant_exchangeRateSnapshot_findMany_def
    tenant_exchangeRateSnapshot_findFirst_def
  by (blast dest: scoped_findMany scoped_findUnique scoped_findFirst policy_key audit_key
        snapshot_key)

text \<open>
  Claim C1. Every read the tenant wrapper exposes (\<open>findMany\<close>, \<open>findUnique\<close> and
  \<open>count\<close> on projects, expenses and memberships; \<open>findMany\<close> and \<open>findUnique\<close> on
  approval policies; \<open>findMany\<close> on audit logs; \<open>findMany\<close> and \<open>findFirst\<close> on
  exchange-rate snapshots), with any argument object of the caller, returns only rows of
  the queried table that belong to the wrapper's company, and a count is the count that
  the same call gives on the database that has the rows of the wrapper's company only:
  the tenant key is put into the filter after the caller's keys, so a caller's key of
  the same name is replaced. An expense belongs to the company of its project. The rows
  are those of the table that is queried; what a caller's \<^verbatim>\<open>include\<close> loads along
  with them is not covered.
\<close>

theorem tenant_reads_stay_in_company:
  "(\<forall>p \<in> set (tenant_project_findMany t args d).
      p \<in> set (projects d) \<and> project_companyId p = companyId t) \<and>
   (\<forall>p. tenant_project_findUnique t w d = Inr (Some p) \<longrightarrow>
      p \<in> set (projects d) \<and> project_companyId p = companyId t) \<and>
   tenant_project_count t args d
     = tenant_project_count t args (only_company (companyId t) d) \<and>
   (\<forall>e \<in> set (tenant_expense_findMany t args d).
      e \<in> set (expenses d) \<and> expense_company d e = Some (companyId t)) \<and>
   (\<forall>e. tenant_expense_findUnique t w d = Inr (Some e) \<longrightarrow>
      e \<in> set (expenses d) \<and> expense_company d e = Some (companyId t)) \<and>
   tenant_expense_count t args d
     = tenant_expense_count t args (only_company (companyId t) d) \<and>
   (\<forall>m \<in> set (tenant_membership_findMany t args d).
      m \<in> set (memberships d) \<and> membership_companyId m = companyId t) \<and>
   (\<forall>m. tenant_membership_findUnique t w d = Inr (Some m) \<longrightarrow>
      m \<in> set (memberships d) \<and> membership_companyId m = companyId t) \<and>
   tenant_membership_count t args d
     = tenant_membership_count t args (only_company (companyId t) d) \<and>
   (\<forall>a \<in> set (tenant_approvalPolicy_findMany t args d).
      a \<in> set (approvalPolicies d) \<and> policy_companyId a = companyId t) \<and>
   (\<forall>a. tenant_approvalPolicy_findUnique t w d = Inr (Some a) \<longrightarrow>
      a \<in> set (approvalPolicies d) \<and> policy_companyId a = companyId t) \<and>
   (\<forall>l \<in> set (tenant_auditLog_findMany t args d).
      l \<in> set (auditLogs d) \<and> audit_companyId l = companyId t) \<and>
   (\<forall>x \<in> set (tenant_exchangeRateSnapshot_findMany t args d).
      x \<in> set (exchangeRateSnapshots d) \<and> snapshot_companyId x = companyId t) \<and>
   (\<forall>x. tenant_exchangeRateSnapshot_findFirst t args d = Some x \<longrightarrow>
      x \<in> set (exchangeRateSnapshots d) \<and> snapshot_companyId x = companyId t)"
  using project_reads [of t args d w] expense_reads [of t args d w]
    membership_reads [of t args d w] other_reads [of t args d w]
  by simp

theorem tenant_reads_stay_in_company_witness:
  "website \<in> set (tenant_project_findMany acme_tenant globex_filter sample_db) \<and>
   project_companyId website = companyId acme_tenant \<and>
   tenant_project_findUnique acme_tenant (globex_where ''cprojectwebsite'') sample_db
     = Inr (Some website) \<and>
   tenant_project_findUnique acme_tenant (globex_where ''cprojectrocket'') sample_db
     = Inr None \<and>
   tenant_project_count acme_tenant globex_filter projects_db = 2 \<and>
   tenant_project_count acme_tenant globex_filter (only_company (companyId acme_tenant) projects_db)
     = 2 \<and>
   lunch \<in> set (tenant_expense_findMany acme_tenant globex_project_filter sample_db) \<and>
   expense_company sample_db lunch = Some (companyId acme_tenant) \<and>
   tenant_expense_findUnique acme_tenant (globex_project_where ''cexpenselunch'') sample_db
     = Inr (Some lunch) \<and>
   tenant_expense_findUnique acme_tenant (globex_project_where ''cexpensefuel'') sample_db
     = Inr None \<and>
   tenant_expense_count acme_tenant globex_project_filter sample_db = 2 \<and>
   tenant_expense_count acme_tenant globex_project_filter
     (only_company (companyId acme_tenant) sample_db) = 2 \<and>
   acme_member \<in> set (tenant_membership_findMany acme_tenant globex_filter sample_db) \<and>
   membership_companyId acme_member = companyId acme_tenant \<and>
   tenant_membership_findUnique acme_tenant (globex_where ''cmemberacme'') sample_db
     = Inr (Some acme_member) \<and>
   tenant_membership_findUnique acme_tenant (globex_where ''cmemberglobex'') sample_db
     = Inr None \<and>
   tenant_membership_count acme_tenant globex_filter members_db = 2 \<and>
   tenant_membership_count acme_tenant globex_filter
     (only_company (companyId acme_tenant) members_db) = 2 \<and>
   acme_policy \<in> set (tenant_approvalPolicy_findMany acme_tenant globex_filter sample_db) \<and>
   policy_companyId acme_policy = companyId acme_tenant \<and>
   tenant_approvalPolicy_findUnique acme_tenant (globex_where ''cpolicyacme'') sample_db
     = Inr (Some acme_policy) \<and>
   tenant_approvalPolicy_findUnique acme_tenant (globex_where ''cpolicyglobex'') sample_db
     = Inr None \<and>
   acme_log \<in> set (tenant_auditLog_findMany acme_tenant globex_filter sample_db) \<and>
   audit_companyId acme_log = companyId acme_tenant \<and>
   acme_rates \<in> set (tenant_exchangeRateSnapshot_findMany acme_tenant globex_filter sample_db) \<and>
   snapshot_companyId acme_rates = companyId acme_tenant \<and>
   tenant_exchangeRateSnapshot_findFirst acme_tenant globex_filter sample_db = Some acme_rates"
proof -
  note defs = acme_tenant_def globex_filter_def globex_project_filter_def globex_where_def
    globex_project_where_def sample_db_def projects_db_def members_db_def intranet_def
    acme_manager_def query_defs view_defs sample_rows
  have p: "tenant_project_findMany acme_tenant globex_filter sample_db = [website]"
    by (simp add: tenant_project_findMany_def defs)
  have pu: "tenant_project_findUnique acme_tenant (globex_where ''cprojectwebsite'') sample_db
              = Inr (Some website)"
    "tenant_project_findUnique acme_tenant (globex_where ''cprojectrocket'') sample_db
              = Inr None"
    by (simp_all add: tenant_project_findUnique_def defs)
  have pc: "tenant_project_count acme_tenant globex_filter projects_db = 2"
    by (simp add: tenant_project_count_def defs)
  have e: "tenant_expense_findMany acme_tenant globex_project_filter sample_db = [lunch, hosting]"
    by (simp add: tenant_expense_findMany_def defs)
  have eu: "tenant_expense_findUnique acme_tenant (globex_project_where ''cexpenselunch'')
              sample_db = Inr (Some lunch)"
    "tenant_expense_findUnique acme_tenant (globex_project_where ''cexpensefuel'')
              sample_db = Inr None"
    by (simp_all add: tenant_expense_findUnique_def defs)
  have ec: "tenant_expense_count acme_tenant globex_project_filter sample_db = 2"
    by (simp add: tenant_expense_count_def defs)
  have m: "tenant_membership_findMany acme_tenant globex_filter sample_db = [acme_member]"
    by (simp add: tenant_membership_findMany_def defs)
  have mu: "tenant_membership_findUnique acme_tenant (globex_where ''cmemberacme'') sample_db
              = Inr (Some acme_member)"
    "tenant_membership_findUnique acme_tenant (globex_where ''cmemberglobex'') sample_db
              = Inr None"
    by (simp_all add: tenant_membership_findUnique_def defs)
  have mc: "tenant_membership_count acme_tenant globex_filter members_db = 2"
    by (simp add: tenant_membership_count_def defs)
  have a: "tenant_approvalPolicy_findMany acme_tenant globex_filter sample_db = [acme_policy]"
    by (simp add: tenant_approvalPolicy_findMany_def defs)
  have au: "tenant_approvalPolicy_findUnique acme_tenant (globex_where ''cpolicyacme'')
              sample_db = Inr (Some acme_policy)"
    "tenant_approvalPolicy_findUnique acme_tenant (globex_where ''cpolicyglobex'')
              sample_db = Inr None"
    by (simp_all add: tenant_approvalPolicy_findUnique_def defs)
  have l: "tenant_auditLog_findMany acme_tenant globex_filter sample_db = [acme_log]"
    by (simp add: tenant_auditLog_findMany_def defs)
  have x: "tenant_exchangeRateSnapshot_findMany acme_tenant globex_filter sample_db
             = [acme_rates]"
    by (simp add: tenant_exchangeRateSnapshot_findMany_def defs)
  have xf: "tenant_exchangeRateSnapshot_findFirst acme_tenant globex_filter sample_db
              = Some acme_rates"
    by (simp add: tenant_exchangeRateSnapshot_findFirst_def defs)
  show ?thesis
    using tenant_reads_stay_in_company
            [of acme_tenant globex_filter sample_db "globex_where ''cprojectwebsite''"]
          tenant_reads_stay_in_company
            [of acme_tenant globex_project_filter sample_db
                "globex_project_where ''cexpenselunch''"]
          tenant_reads_stay_in_company
            [of acme_tenant globex_filter projects_db "globex_where ''cmemberacme''"]
          tenant_reads_stay_in_company
            [of acme_tenant globex_filter members_db "globex_where ''cpolicyacme''"]
    by (simp add: p pu pc e eu ec m mu mc a au l x xf)
qed

section \<open>The project guard of expense creation\<close>

text \<open>
  Claim C7. A call of the wrapper's \<open>expense.create\<close> whose project identifier names no
  project of the caller's company throws, and leaves the database as it was; a call
  that returns an expense was made for a project of the caller's company, and has
  appended exactly that expense.
\<close>

theorem expense_create_guarded:
  "(\<not> (\<exists>p \<in> set (projects d).
          project_id p = new_projectId new \<and> project_companyId p = companyId t) \<longrightarrow>
      (\<exists>m. tenant_expense_create t new d = (Inl (Error m), d))) \<and>
   (\<forall>e d'. tenant_expense_create t new d = (Inr e, d') \<longrightarrow>
      (\<exists>p \<in> set (projects d).
          project_id p = new_projectId new \<and> project_companyId p = companyId t) \<and>
      expenses d' = expenses d @ [e] \<and> projectId e = new_projectId new)"
proof (intro conjI impI allI)
  assume "\<not> (\<exists>p \<in> set (projects d).
               project_id p = new_projectId new \<and> project_companyId p = companyId t)"
  then show "\<exists>m. tenant_expense_create t new d = (Inl (Error m), d)"
    using tenant_expense_create_throws by blast
next
  fix e d'
  assume ok: "tenant_expense_create t new d = (Inr e, d')"
  show guard: "\<exists>p \<in> set (projects d).
          project_id p = new_projectId new \<and> project_companyId p = companyId t"
  proof (rule ccontr)
    assume "\<not> ?thesis"
    then have "tenant_expense_create t new d = (Inl (Error ''No Project found''), d)"
      by (rule tenant_expense_create_throws)
    with ok show False by simp
  qed
  from guard ok have "prisma_expense_create new d = (Inr e, d')"
    by (simp add: tenant_expense_create_cases)
  then show "expenses d' = expenses d @ [e]" and "projectId e = new_projectId new"
    using prisma_expense_create_Inr by blast+
qed

theorem expense_create_guarded_witness:
  "\<not> (\<exists>p \<in> set (projects sample_db).
         project_id p = new_projectId rocket_request \<and>
         project_companyId p = companyId acme_tenant) \<and>
   tenant_expense_create acme_tenant rocket_request sample_db
     = (Inl (Error ''No Project found''), sample_db) \<and>
   tenant_expense_create acme_tenant taxi_request sample_db
     = (Inr taxi, sample_db\<lparr>expenses := [fuel, lunch, hosting, taxi], next_id := 8\<rparr>) \<and>
   project_id website = new_projectId taxi_request \<and>
   project_companyId website = companyId acme_tenant \<and>
   projectId taxi = new_projectId taxi_request"
proof -
  have no: "\<not> (\<exists>p \<in> set (projects sample_db).
              project_id p = new_projectId rocket_request \<and>
              project_companyId p = companyId acme_tenant)"
    by (simp add: sample_db_sel rocket_request_def taxi_request_def acme_tenant_def sample_rows)
  have yes: "tenant_expense_create acme_tenant taxi_request sample_db
               = (Inr taxi, sample_db\<lparr>expenses := [fuel, lunch, hosting, taxi], next_id := 8\<rparr>)"
    by (simp add: tenant_expense_create_def io_bind_def prisma_project_findUniqueOrThrow_def
          prisma_expense_create_def new_id_sample taxi_def taxi_request_def acme_tenant_def
          guard_read int64_def sample_db_sel Let_def sample_rows)
  from expense_create_guarded [of sample_db rocket_request acme_tenant] no
  have "\<exists>m. tenant_expense_create acme_tenant rocket_request sample_db
               = (Inl (Error m), sample_db)"
    by blast
  moreover have "tenant_expense_create acme_tenant rocket_request sample_db
                   = (Inl (Error ''No Project found''), sample_db)"
    using no by (rule tenant_expense_create_throws)
  moreover from expense_create_guarded [of sample_db taxi_request acme_tenant] yes
  have "projectId taxi = new_projectId taxi_request"
    by blast
  ultimately show ?thesis
    using no yes by (simp add: website_def taxi_request_def acme_tenant_def acme_def)
qed

section \<open>Updating and deleting an expense\<close>

lemma updateExpense_action_refuses:
  assumes "\<forall>e \<in> set (expenses d).
             expense_id e = upd_id input \<longrightarrow>
             employeeId e \<noteq> session_userId s \<or> status e \<noteq> PENDING"
  shows "\<exists>m. updateExpense_action ev t s (Some input) d = (Inr (failed m), d)"
proof -
  obtain found where look:
    "tenant_expense_findUnique t [Fld ''id'' (JStr (upd_id input))] d = Inr found"
    by (simp add: tenant_expense_findUnique_total)
  show ?thesis
  proof (cases found)
    case None
    with look show ?thesis
      by (auto simp: updateExpense_action_def io_bind_def io_try_def io_return_def)
  next
    case (Some e)
    with look assms tenant_expense_findUnique_id [of t "upd_id input" d e]
    have "employeeId e \<noteq> session_userId s \<or> status e \<noteq> PENDING" by blast
    with look Some show ?thesis
      by (auto simp: updateExpense_action_def io_bind_def io_try_def io_return_def)
  qed
qed

lemma updateExpense_action_success:
  assumes "updateExpense_action ev t s (Some input) d = (Inr r, d')" and "success r"
  shows "\<exists>e \<in> set (expenses d).
           expense_id e = upd_id input \<and> employeeId e = session_userId s \<and>
           status e = PENDING \<and> expense_company d e = Some (companyId t)"
proof -
  obtain found where look:
    "tenant_expense_findUnique t [Fld ''id'' (JStr (upd_id input))] d = Inr found"
    by (simp add: tenant_expense_findUnique_total)
  show ?thesis
  proof (cases found)
    case None
    with look assms show ?thesis
      by (auto simp: updateExpense_action_def io_bind_def io_try_def io_return_def failed_def)
  next
    case (Some e)
    show ?thesis
    proof (cases "employeeId e \<noteq> session_userId s \<or> status e \<noteq> PENDING")
      case True
      with look Some assms show ?thesis
        by (auto simp: updateExpense_action_def io_bind_def io_try_def io_return_def
              failed_def split: if_splits)
    next
      case False
      with look Some tenant_expense_findUnique_id [of t "upd_id input" d e] show ?thesis
        by blast
    qed
  qed
qed

lemma deleteExpense_action_refuses:
  assumes "\<forall>e \<in> set (expenses d).
             expense_id e = i \<longrightarrow>
             employeeId e \<noteq> session_userId s \<or> status e \<noteq> PENDING"
  shows "\<exists>m. deleteExpense_action t s (Some i) d = (Inr (failed m), d)"
proof -
  obtain found where look: "tenant_expense_findUnique t [Fld ''id'' (JStr i)] d = Inr found"
    by (simp add: tenant_expense_findUnique_total)
  show ?thesis
  proof (cases found)
    case None
    with look show ?thesis
      by (auto simp: deleteExpense_action_def io_bind_def io_try_def io_return_def)
  next
    case (Some e)
    with look assms tenant_expense_findUnique_id [of t i d e]
    have "employeeId e \<noteq> session_userId s \<or> status e \<noteq> PENDING" by blast
    with look Some show ?thesis
      by (auto simp: deleteExpense_action_def io_bind_def io_try_def io_return_def)
  qed
qed

lemma deleteExpense_action_success:
  assumes "deleteExpense_action t s (Some i) d = (Inr r, d')" and "success r"
  shows "\<exists>e \<in> set (expenses d).
           expense_id e = i \<and> employeeId e = session_userId s \<and>
           status e = PENDING \<and> expense_company d e = Some (companyId t)"
proof -
  obtain found where look: "tenant_expense_findUnique t [Fld ''id'' (JStr i)] d = Inr found"
    by (simp add: tenant_expense_findUnique_total)
  show ?thesis
  proof (cases found)
    case None
    with look assms show ?thesis
      by (auto simp: deleteExpense_action_def io_bind_def io_try_def io_return_def failed_def)
  next
    case (Some e)
    show ?thesis
    proof (cases "employeeId e \<noteq> session_userId s \<or> status e \<noteq> PENDING")
      case True
      with look Some assms show ?thesis
        by (auto simp: deleteExpense_action_def io_bind_def io_try_def io_return_def
              failed_def split: if_splits)
    next
      case False
      with look Some tenant_expense_findUnique_id [of t i d e] show ?thesis
        by blast
    qed
  qed
qed

lemma updateExpense_run:
  assumes "updateExpenseSchema j = Inr input"
  shows "updateExpense ev (Some s) (Some j) d =
           (case updateExpense_action ev (tenant_of s) s (Some input) d of
              (Inl (ZodError issues), d') \<Rightarrow> (validation_failed issues, d')
            | (Inl (Error m), d') \<Rightarrow> (failed m, d')
            | (Inr result, d') \<Rightarrow> (succeeded result, d'))"
  unfolding updateExpense_def
  using assms object_schema_truthy [of parse_updateExpense _ j input]
  by (intro server_action_run) (simp_all add: updateExpenseSchema_def)

lemma deleteExpense_run:
  assumes "idSchema k = Inr i"
  shows "deleteExpense (Some s) (Some k) d =
           (case deleteExpense_action (tenant_of s) s (Some i) d of
              (Inl (ZodError issues), d') \<Rightarrow> (validation_failed issues, d')
            | (Inl (Error m), d') \<Rightarrow> (failed m, d')
            | (Inr result, d') \<Rightarrow> (succeeded result, d'))"
  unfolding deleteExpense_def
  using assms object_schema_truthy [of _ _ k i]
  by (intro server_action_run) (simp_all add: idSchema_def)

text \<open>
  Claim C6. An update or a delete of an expense by a signed-in user, with input that
  passes the schema: when no expense with the requested identifier is both owned by
  the requester and \<open>PENDING\<close>, the action returns a failure object with an error message
  (which the wrapper hands on as the data of its envelope) and the database is
  unchanged; and when the action returns a success object, an expense with that
  identifier, of the requester's company, was owned by the requester and \<open>PENDING\<close>.
\<close>

theorem owner_and_pending_only:
  assumes "updateExpenseSchema j = Inr input" and "idSchema k = Inr i"
  shows
    "((\<forall>e \<in> set (expenses d).
         expense_id e = upd_id input \<longrightarrow>
         employeeId e \<noteq> session_userId s \<or> status e \<noteq> PENDING) \<longrightarrow>
        (\<exists>m. updateExpense ev (Some s) (Some j) d = (succeeded (failed m), d))) \<and>
     (\<forall>r d'. updateExpense ev (Some s) (Some j) d = (succeeded r, d') \<and> success r \<longrightarrow>
        (\<exists>e \<in> set (expenses d).
           expense_id e = upd_id input \<and> employeeId e = session_userId s \<and>
           status e = PENDING \<and> expense_company d e = Some (session_companyId s))) \<and>
     ((\<forall>e \<in> set (expenses d).
         expense_id e = i \<longrightarrow>
         employeeId e \<noteq> session_userId s \<or> status e \<noteq> PENDING) \<longrightarrow>
        (\<exists>m. deleteExpense (Some s) (Some k) d = (succeeded (failed m), d))) \<and>
     (\<forall>r d'. deleteExpense (Some s) (Some k) d = (succeeded r, d') \<and> success r \<longrightarrow>
        (\<exists>e \<in> set (expenses d).
           expense_id e = i \<and> employeeId e = session_userId s \<and>
           status e = PENDING \<and> expense_company d e = Some (session_companyId s)))"
proof (intro conjI impI allI)
  assume "\<forall>e \<in> set (expenses d).
            expense_id e = upd_id input \<longrightarrow>
            employeeId e \<noteq> session_userId s \<or> status e \<noteq> PENDING"
  from updateExpense_action_refuses [OF this, of ev "tenant_of s"]
  show "\<exists>m. updateExpense ev (Some s) (Some j) d = (succeeded (failed m), d)"
    by (auto simp: updateExpense_run [OF assms(1)])
next
  fix r d'
  assume a: "updateExpense ev (Some s) (Some j) d = (succeeded r, d') \<and> success r"
  then have "updateExpense_action ev (tenant_of s) s (Some input) d = (Inr r, d')"
    by (auto simp: updateExpense_run [OF assms(1)] succeeded_inject succeeded_not_failed
          split: prod.splits sum.splits exn.splits)
  from updateExpense_action_success [OF this] a
  show "\<exists>e \<in> set (expenses d).
           expense_id e = upd_id input \<and> employeeId e = session_userId s \<and>
           status e = PENDING \<and> expense_company d e = Some (session_companyId s)"
    by (simp add: tenant_of_def)
next
  assume "\<forall>e \<in> set (expenses d).
            expense_id e = i \<longrightarrow>
            employeeId e \<noteq> session_userId s \<or> status e \<noteq> PENDING"
  from deleteExpense_action_refuses [OF this, of "tenant_of s"]
  show "\<exists>m. deleteExpense (Some s) (Some k) d = (succeeded (failed m), d)"
    by (auto simp: deleteExpense_run [OF assms(2)])
next
  fix r d'
  assume a: "deleteExpense (Some s) (Some k) d = (succeeded r, d') \<and> success r"
  then have "deleteExpense_action (tenant_of s) s (Some i) d = (Inr r, d')"
    by (auto simp: deleteExpense_run [OF assms(2)] succeeded_inject succeeded_not_failed
          split: prod.splits sum.splits exn.splits)
  from deleteExpense_action_success [OF this] a
  show "\<exists>e \<in> set (expenses d).
           expense_id e = i \<and> employeeId e = session_userId s \<and>
           status e = PENDING \<and> expense_company d e = Some (session_companyId s)"
    by (simp add: tenant_of_def)
qed


lemma sample_forms:
  "updateExpenseSchema update_lunch_form = Inr update_lunch_input"
  "idSchema delete_lunch_form = Inr ''cexpenselunch''"
  "idSchema delete_hosting_form = Inr ''cexpensehosting''"
  by (simp_all add: updateExpenseSchema_def parse_updateExpense_def idSchema_def schema_defs
        update_lunch_form_def update_lunch_input_def delete_lunch_form_def
        delete_hosting_form_def)

theorem owner_and_pending_only_witness:
  "updateExpenseSchema update_lunch_form = Inr update_lunch_input \<and>
   idSchema delete_hosting_form = Inr ''cexpensehosting'' \<and>
   idSchema delete_lunch_form = Inr ''cexpenselunch'' \<and>
   employeeId lunch \<noteq> session_userId manager_session \<and>
   updateExpense sample_env (Some manager_session) (Some update_lunch_form) sample_db
     = (succeeded (failed ''Expense not found or access denied''), sample_db) \<and>
   status hosting \<noteq> PENDING \<and>
   deleteExpense (Some employee_session) (Some delete_hosting_form) sample_db
     = (succeeded (failed ''Cannot delete non-pending expenses''), sample_db) \<and>
   updateExpense sample_env (Some employee_session) (Some update_lunch_form) sample_db
     = (succeeded (succeeded (lunch\<lparr>description := ''Client lunch''\<rparr>)),
        sample_db\<lparr>expenses := [fuel, lunch\<lparr>description := ''Client lunch''\<rparr>, hosting]\<rparr>) \<and>
   deleteExpense (Some employee_session) (Some delete_lunch_form) sample_db
     = (succeeded \<lparr>success = True, data = None, error = None, details = None\<rparr>,
        sample_db\<lparr>expenses := [fuel, hosting]\<rparr>) \<and>
   lunch \<in> set (expenses sample_db) \<and>
   employeeId lunch = session_userId employee_session \<and> status lunch = PENDING \<and>
   expense_company sample_db lunch = Some (session_companyId employee_session)"
proof -
  have h1: "\<forall>e \<in> set (expenses sample_db).
              expense_id e = upd_id update_lunch_input \<longrightarrow>
              employeeId e \<noteq> session_userId manager_session \<or> status e \<noteq> PENDING"
    by (simp add: sample_db_sel update_lunch_input_def manager_session_def sample_rows)
  have h2: "\<forall>e \<in> set (expenses sample_db).
              expense_id e = ''cexpensehosting'' \<longrightarrow>
              employeeId e \<noteq> session_userId employee_session \<or> status e \<noteq> PENDING"
    by (simp add: sample_db_sel employee_session_def sample_rows)
  have r1: "updateExpense sample_env (Some manager_session) (Some update_lunch_form) sample_db
              = (succeeded (failed ''Expense not found or access denied''), sample_db)"
    by (simp add: updateExpense_run [OF sample_forms(1)] updateExpense_action_def io_bind_def
          io_try_def io_return_def tenant_of_def manager_session_def update_lunch_input_def
          sample_expense_lookup,
        simp add: lunch_def)
  have r2: "deleteExpense (Some employee_session) (Some delete_hosting_form) sample_db
              = (succeeded (failed ''Cannot delete non-pending expenses''), sample_db)"
    by (simp add: deleteExpense_run [OF sample_forms(3)] deleteExpense_action_def io_bind_def
          io_try_def io_return_def tenant_of_def employee_session_def sample_expense_lookup,
        simp add: hosting_def)
  have r3: "updateExpense sample_env (Some employee_session) (Some update_lunch_form) sample_db
     = (succeeded (succeeded (lunch\<lparr>description := ''Client lunch''\<rparr>)),
        sample_db\<lparr>expenses := [fuel, lunch\<lparr>description := ''Client lunch''\<rparr>, hosting]\<rparr>)"
    by (simp add: updateExpense_run [OF sample_forms(1)] updateExpense_action_def io_bind_def
          io_try_def io_return_def tenant_of_def employee_session_def update_lunch_input_def
          sample_expense_lookup truthy_string_def tenant_expense_update_def
          prisma_expense_update_def,
        simp add: sample_db_sel query_defs view_defs sample_rows apply_update_def or_else_def)
  have r4: "deleteExpense (Some employee_session) (Some delete_lunch_form) sample_db
     = (succeeded \<lparr>success = True, data = None, error = None, details = None\<rparr>,
        sample_db\<lparr>expenses := [fuel, hosting]\<rparr>)"
    by (simp add: deleteExpense_run [OF sample_forms(2)] deleteExpense_action_def io_bind_def
          io_try_def io_return_def tenant_of_def employee_session_def
          sample_expense_lookup tenant_expense_delete_def prisma_expense_delete_def,
        simp add: sample_db_sel query_defs view_defs sample_rows)
  have "\<exists>m. updateExpense sample_env (Some manager_session) (Some update_lunch_form) sample_db
               = (succeeded (failed m), sample_db)"
    using owner_and_pending_only [OF sample_forms(1) sample_forms(3), of sample_db
            manager_session sample_env] h1
    by blast
  moreover
  have "\<exists>e \<in> set (expenses sample_db).
           expense_id e = upd_id update_lunch_input \<and>
           employeeId e = session_userId employee_session \<and>
           status e = PENDING \<and>
           expense_company sample_db e = Some (session_companyId employee_session)"
    using owner_and_pending_only [OF sample_forms(1) sample_forms(2), of sample_db
            employee_session sample_env] r3
    by (simp add: succeeded_def)
  ultimately show ?thesis
    using r1 r2 r3 r4 sample_forms
    by (simp add: sample_db_sel expense_company_def project_of_def employee_session_def
          manager_session_def sample_rows)
qed

section \<open>Deleting a project\<close>

lemma tenant_project_delete_id:
  "tenant_project_delete t [Fld ''id'' (JStr i)] d
     = (case find (\<lambda>p. project_id p = i \<and> project_companyId p = companyId t) (projects d) of
          None \<Rightarrow> (Inl (Error ''Record to delete does not exist''), d)
        | Some p \<Rightarrow>
            (Inr p,
             d\<lparr>projects :=
                 delete_first (\<lambda>p. project_id p = i \<and> project_companyId p = companyId t)
                   (projects d)\<rparr>))"
  by (simp add: tenant_project_delete_def prisma_project_delete_def guard_read obj_put_def
        company_key_def matches_id_company split: option.splits)

lemma expense_count_by_project:
  "tenant_expense_count t
     (Some \<lparr>arg_where = Some [Fld ''projectId'' (JStr i)], arg_skip = None, arg_take = None\<rparr>) d
     = length (filter (\<lambda>e. projectId e = i \<and> expense_company d e = Some (companyId t))
                 (expenses d))"
proof -
  have "\<And>e. matches [Fld ''projectId'' (JStr i), project_company_key t] (expense_view d e)
              \<longleftrightarrow> projectId e = i \<and> expense_company d e = Some (companyId t)"
    by (auto simp: matches_def project_company_key_def expense_view_def expense_columns_def
          expense_company_def project_view_def split: option.splits)
  then show ?thesis
    by (simp add: tenant_expense_count_def count_rows_def findMany_def scoped_count_args_def
          caller_where_def where_or_empty_def obj_put_def Let_def project_company_key_def
          truthy_nat_def)
qed

lemma delete_first_distinct_id:
  assumes "distinct (map project_id ps)" and "p \<in> set ps" and "project_companyId p = c"
  shows "set (delete_first (\<lambda>q. project_id q = project_id p \<and> project_companyId q = c) ps)
           = set ps - {p}"
  using assms
proof (induction ps)
  case Nil
  then show ?case by simp
next
  case (Cons q qs)
  then show ?case by (cases "project_id q = project_id p") (auto simp: image_iff)
qed


lemma idSchema_nonempty: "idSchema k = Inr i \<Longrightarrow> i \<noteq> [] \<and> js_truthy k"
  by (cases k)
     (auto simp: idSchema_def object_schema_def zod_string_def get_key_def
        split: option.splits json.splits if_splits)

lemma deleteProject_run:
  assumes "session_role s = ADMIN" and "idSchema k = Inr i"
  shows "deleteProject (Some s) (Some k) d =
           (case deleteProject_action (tenant_of s) s (Some i) d of
              (Inl (ZodError issues), d') \<Rightarrow> (validation_failed issues, d')
            | (Inl (Error m), d') \<Rightarrow> (failed m, d')
            | (Inr result, d') \<Rightarrow> (succeeded result, d'))"
  unfolding deleteProject_def
  using assms idSchema_nonempty [OF assms(2)]
  by (intro admin_action_run) simp_all

lemma deleteProject_effects:
  assumes admin: "session_role s = ADMIN"
    and schema: "idSchema k = Inr i"
    and pk: "distinct (map project_id (projects d))"
    and p: "p \<in> set (projects d)" "project_id p = i" "project_companyId p = session_companyId s"
  shows
    "((\<exists>e \<in> set (expenses d). projectId e = i) \<longrightarrow>
        deleteProject (Some s) (Some k) d
          = (failed ''Cannot delete project with existing expenses'', d)) \<and>
     ((\<forall>e \<in> set (expenses d). projectId e \<noteq> i) \<longrightarrow>
        (\<exists>d'. deleteProject (Some s) (Some k) d = (failed ''NEXT_REDIRECT'', d') \<and>
              set (projects d') = set (projects d) - {p} \<and>
              expenses d' = expenses d \<and>
              auditLogs d' =
                auditLogs d @
                [\<lparr>audit_id = new_id d, audit_companyId = session_companyId s,
                  actorUserId = session_userId s,
                  action = ''DELETE_PROJECT'', entity = ''Project'', entityId = i,
                  meta = JObj [(''projectName'', JStr (project_name p)),
                               (''deletedBy'', JStr (session_userId s))]\<rparr>]))"
proof (intro conjI impI)
  have ne: "truthy_string (Some i) = Some i"
    using idSchema_nonempty [OF schema] by (simp add: truthy_string_def)
  have found: "tenant_project_findUnique (tenant_of s) [Fld ''id'' (JStr i)] d = Inr (Some p)"
    using find_distinct_id_company [OF pk p(1) p(3)] p(2)
    by (simp add: tenant_project_findUnique_id tenant_of_def)
  {
    assume "\<exists>e \<in> set (expenses d). projectId e = i"
    then obtain e where e: "e \<in> set (expenses d)" "projectId e = i" by blast
    have "project_of d e = Some p"
      using find_distinct_id [OF pk p(1)] p(2) e(2) by (simp add: project_of_def)
    then have "expense_company d e = Some (companyId (tenant_of s))"
      using p(3) by (simp add: expense_company_def tenant_of_def)
    with e have "filter (\<lambda>e. projectId e = i \<and>
                    expense_company d e = Some (companyId (tenant_of s))) (expenses d) \<noteq> []"
      by (auto simp: filter_empty_conv)
    then have "0 < tenant_expense_count (tenant_of s)
                 (Some \<lparr>arg_where = Some [Fld ''projectId'' (JStr i)],
                        arg_skip = None, arg_take = None\<rparr>) d"
      by (simp add: expense_count_by_project)
    then show "deleteProject (Some s) (Some k) d
                 = (failed ''Cannot delete project with existing expenses'', d)"
      by (simp add: deleteProject_run [OF admin schema] deleteProject_action_def ne found
            io_bind_def io_read_def io_try_def io_throw_def)
  }
  {
    assume "\<forall>e \<in> set (expenses d). projectId e \<noteq> i"
    then have zero: "tenant_expense_count (tenant_of s)
                 (Some \<lparr>arg_where = Some [Fld ''projectId'' (JStr i)],
                        arg_skip = None, arg_take = None\<rparr>) d = 0"
      by (simp add: expense_count_by_project filter_empty_conv)
    have f: "find (\<lambda>q. project_id q = i \<and> project_companyId q = companyId (tenant_of s))
               (projects d) = Some p"
      using find_distinct_id_company [OF pk p(1) p(3)] p(2) by (simp add: tenant_of_def)
    have gone: "set (delete_first
                   (\<lambda>q. project_id q = i \<and> project_companyId q = companyId (tenant_of s))
                   (projects d)) = set (projects d) - {p}"
      using delete_first_distinct_id [OF pk p(1) p(3)] p(2) by (simp add: tenant_of_def)
    show "\<exists>d'. deleteProject (Some s) (Some k) d = (failed ''NEXT_REDIRECT'', d') \<and>
              set (projects d') = set (projects d) - {p} \<and>
              expenses d' = expenses d \<and>
              auditLogs d' =
                auditLogs d @
                [\<lparr>audit_id = new_id d, audit_companyId = session_companyId s,
                  actorUserId = session_userId s,
                  action = ''DELETE_PROJECT'', entity = ''Project'', entityId = i,
                  meta = JObj [(''projectName'', JStr (project_name p)),
                               (''deletedBy'', JStr (session_userId s))]\<rparr>]"
      using gone
      by (simp add: deleteProject_run [OF admin schema] deleteProject_action_def ne found zero
            io_bind_def io_read_def io_try_def io_throw_def tenant_project_delete_id f createAuditLog_def
            prisma_auditLog_create_def redirect_def Let_def new_id_def,
          simp add: tenant_of_def)
  }
qed

text \<open>
  Claim C9. An administrator deletes the Intranet project, a project of the
  administrator's company that has no expenses. The row is removed and the audit entry
  is written (under the next identifier), and then \<^verbatim>\<open>redirect\<close> throws inside the wrapper's \<^verbatim>\<open>try\<close>: what the
  action returns is a failure whose error is the redirect signal. (With expenses, the
  deletion is refused and nothing is written: \<open>deleteProject_effects\<close>.)
\<close>

theorem deleteProject_empty_project_reports_failure:
  "deleteProject (Some admin_session) (Some delete_intranet_form) projects_db
     = (failed ''NEXT_REDIRECT'',
        projects_db\<lparr>projects := [rocket, website],
                    auditLogs := [globex_log, acme_log, intranet_deleted_log],
                    next_id := 8\<rparr>)"
proof -
  have schema: "idSchema delete_intranet_form = Inr ''cprojectintranet''"
    by (simp add: idSchema_def schema_defs delete_intranet_form_def)
  have admin: "session_role admin_session = ADMIN"
    by (simp add: admin_session_def)
  have sel: "projects projects_db = [rocket, website, intranet]"
    "expenses projects_db = [fuel, lunch, hosting]"
    "auditLogs projects_db = [globex_log, acme_log]" "next_id projects_db = 7"
    by (simp_all add: projects_db_def sample_db_sel)
  have zero: "tenant_expense_count (tenant_of admin_session)
                 (Some \<lparr>arg_where = Some [Fld ''projectId'' (JStr ''cprojectintranet'')],
                        arg_skip = None, arg_take = None\<rparr>) projects_db = 0"
    by (simp add: expense_count_by_project sel sample_rows)
  show ?thesis
    by (simp add: deleteProject_run [OF admin schema] deleteProject_action_def
          truthy_string_def tenant_project_findUnique_id zero io_bind_def io_read_def io_try_def
          io_throw_def tenant_project_delete_id createAuditLog_def prisma_auditLog_create_def
          redirect_def Let_def new_id_def show_small sel,
        simp add: tenant_of_def admin_session_def intranet_deleted_log_def sample_rows
          intranet_def)
qed

section \<open>Creating a company\<close>

lemma transaction_rollback: "transaction m d = (Inl e, d') \<Longrightarrow> d' = d"
  by (auto simp: transaction_def split: prod.splits sum.splits)

lemma transaction_commit: "transaction m d = (Inr x, d') \<Longrightarrow> m d = (Inr x, d')"
  by (auto simp: transaction_def split: prod.splits sum.splits)

lemmas tx_defs =
  company_create_writes_def tx_company_create_def tx_user_create_def
  tx_membership_create_def tx_approvalPolicy_create_def io_bind_def io_return_def Let_def

lemma company_create_writes_Inr:
  assumes "company_create_writes ev input d = (Inr (c, u), d')"
  shows "\<not> write_fails ev ''company'' \<and> \<not> write_fails ev ''user'' \<and>
         \<not> write_fails ev ''membership'' \<and> \<not> write_fails ev ''approvalPolicy'' \<and>
         company_name c = in_companyName input \<and> baseCurrency c = ''USD'' \<and>
         email u = in_adminEmail input \<and> user_name u = in_adminName input \<and>
         passwordHash u = bcrypt_hash ev (in_adminPassword input) \<and>
         companies d' = companies d @ [c] \<and>
         users d' = users d @ [u] \<and>
         (\<exists>m. memberships d' = memberships d @ [m] \<and> membership_userId m = user_id u \<and>
              membership_companyId m = company_id c \<and> role m = ADMIN) \<and>
         (\<exists>a. approvalPolicies d' = approvalPolicies d @ [a] \<and>
              a = default_policy (policy_id a) (company_id c)) \<and>
         projects d' = projects d \<and> expenses d' = expenses d"
  using assms
  by (auto simp: tx_defs default_policy_def split: if_splits)

lemma company_create_writes_fails:
  assumes "write_fails ev ''company'' \<or> write_fails ev ''user'' \<or>
           write_fails ev ''membership'' \<or> write_fails ev ''approvalPolicy''"
  shows "\<exists>e d'. company_create_writes ev input d = (Inl e, d')"
  using assms
  by (auto simp: tx_defs)


lemma company_create_POST_cases:
  assumes "company_create_POST ev req d = (resp, d')"
  shows "(http_status resp \<in> {400, 500} \<and> d' = d) \<or>
         (http_status resp = 200 \<and>
          (\<exists>input c u. company_create_writes ev input d = (Inr (c, u), d')))"
proof (cases "json_body req")
  case None
  with assms show ?thesis
    by (auto simp: company_create_POST_def json_response_def)
next
  case (Some b)
  show ?thesis
  proof (cases "createCompanySchema ev b")
    case (Inl issues)
    with Some assms show ?thesis
      by (auto simp: company_create_POST_def json_response_def)
  next
    case (Inr input)
    show ?thesis
    proof (cases "transaction (company_create_writes ev input) d")
      case (Pair outcome d2)
      show ?thesis
      proof (cases outcome)
        case (Inl e)
        with Pair have "d2 = d" by (auto dest: transaction_rollback)
        with Some Inr Pair Inl assms show ?thesis
          by (auto simp: company_create_POST_def json_response_def split: if_splits)
      next
        case (Inr cu)
        obtain c u where cu: "cu = (c, u)" by (cases cu)
        from Pair Inr cu have "company_create_writes ev input d = (Inr (c, u), d2)"
          by (auto dest: transaction_commit)
        with Some \<open>createCompanySchema ev b = Inr input\<close> Pair Inr cu assms show ?thesis
          by (auto simp: company_create_POST_def json_response_def split: if_splits)
      qed
    qed
  qed
qed

text \<open>
  Claim C2. For every request to create a company and every choice of the inserts that
  fail: the response is either an error, and then the database is exactly the one before
  the request (no company row of the request persists), or it is the success response,
  and then the database has gained exactly one company, one user, one \<open>ADMIN\<close> membership
  joining them and one default approval policy of that company. When any of the four
  inserts fails, the response is an error.
\<close>

theorem company_creation_atomic:
  assumes "company_create_POST ev req d = (resp, d')"
  shows
    "(http_status resp \<noteq> 200 \<longrightarrow> d' = d) \<and>
     (write_fails ev ''company'' \<or> write_fails ev ''user'' \<or>
      write_fails ev ''membership'' \<or> write_fails ev ''approvalPolicy''
        \<longrightarrow> http_status resp \<noteq> 200 \<and> d' = d) \<and>
     (http_status resp = 200 \<longrightarrow>
        (\<exists>c u m a.
           companies d' = companies d @ [c] \<and>
           users d' = users d @ [u] \<and>
           memberships d' = memberships d @ [m] \<and>
           approvalPolicies d' = approvalPolicies d @ [a] \<and>
           membership_userId m = user_id u \<and> membership_companyId m = company_id c \<and>
           role m = ADMIN \<and> a = default_policy (policy_id a) (company_id c)))"
proof -
  from company_create_POST_cases [OF assms]
  consider (err) "http_status resp \<in> {400, 500}" "d' = d"
    | (ok) input c u where "http_status resp = 200"
        "company_create_writes ev input d = (Inr (c, u), d')"
    by blast
  then show ?thesis
  proof cases
    case err
    then show ?thesis by auto
  next
    case ok
    note w = company_create_writes_Inr [OF ok(2)]
    from w obtain m where m: "memberships d' = memberships d @ [m]"
      "membership_userId m = user_id u" "membership_companyId m = company_id c" "role m = ADMIN"
      by blast
    from w obtain a where a: "approvalPolicies d' = approvalPolicies d @ [a]"
      "a = default_policy (policy_id a) (company_id c)"
      by blast
    from w have cs: "companies d' = companies d @ [c]" and us: "users d' = users d @ [u]"
      by simp_all
    have "\<exists>c u m a.
           companies d' = companies d @ [c] \<and>
           users d' = users d @ [u] \<and>
           memberships d' = memberships d @ [m] \<and>
           approvalPolicies d' = approvalPolicies d @ [a] \<and>
           membership_userId m = user_id u \<and> membership_companyId m = company_id c \<and>
           role m = ADMIN \<and> a = default_policy (policy_id a) (company_id c)"
      using cs us m a by (intro exI [of _ c] exI [of _ u] exI [of _ m] exI [of _ a]) simp
    with w ok(1) show ?thesis by simp
  qed
qed


lemma initech_parsed:
  "createCompanySchema ev
     (JObj [(''companyName'', JStr ''Initech''), (''adminName'', JStr ''Peter''),
            (''adminEmail'', JStr ''peter@initech.test''),
            (''adminPassword'', JStr ''secret'')])
   = (if is_email ev ''peter@initech.test''
      then Inr \<lparr>in_companyName = ''Initech'', in_adminName = ''Peter'',
                in_adminEmail = ''peter@initech.test'', in_adminPassword = ''secret''\<rparr>
      else Inl [''adminEmail''])"
  by (simp add: createCompanySchema_def zod_email_def schema_defs)

lemma sample_db_free:
  "find (\<lambda>c. company_name c = ''Initech'') (companies sample_db) = None"
  "find (\<lambda>u. email u = ''peter@initech.test'') (users sample_db) = None"
  by (simp_all add: sample_db_def)

theorem company_creation_atomic_witness:
  "company_create_POST failing_user_env initech_request sample_db
     = (json_response [(''error'', JStr ''Failed to create company'')] 500, sample_db) \<and>
   write_fails failing_user_env ''user'' \<and>
   company_create_POST sample_env initech_request sample_db
     = (json_response
          [(''success'', JBool True),
           (''data'',
            JObj [(''companyId'', JStr ''c000000007''), (''companyName'', JStr ''Initech''),
                  (''adminEmail'', JStr ''peter@initech.test''),
                  (''message'', JStr ''Company created successfully'')])]
          200,
        sample_db
          \<lparr>companies := companies sample_db @ [initech],
           users := users sample_db @ [peter],
           memberships := memberships sample_db @ [peter_membership],
           approvalPolicies := approvalPolicies sample_db @ [initech_policy],
           next_id := 11\<rparr>) \<and>
   membership_userId peter_membership = user_id peter \<and>
   membership_companyId peter_membership = company_id initech \<and>
   role peter_membership = ADMIN \<and>
   initech_policy = default_policy (policy_id initech_policy) (company_id initech)"
proof -
  have bad: "company_create_POST failing_user_env initech_request sample_db
     = (json_response [(''error'', JStr ''Failed to create company'')] 500, sample_db)"
    by (simp add: company_create_POST_def initech_request_def initech_parsed
          failing_user_env_def sample_env_def sample_db_free transaction_def tx_defs)
  have good: "company_create_POST sample_env initech_request sample_db
     = (json_response
          [(''success'', JBool True),
           (''data'',
            JObj [(''companyId'', JStr ''c000000007''), (''companyName'', JStr ''Initech''),
                  (''adminEmail'', JStr ''peter@initech.test''),
                  (''message'', JStr ''Company created successfully'')])]
          200,
        sample_db
          \<lparr>companies := companies sample_db @ [initech],
           users := users sample_db @ [peter],
           memberships := memberships sample_db @ [peter_membership],
           approvalPolicies := approvalPolicies sample_db @ [initech_policy],
           next_id := 11\<rparr>)"
    by (simp add: company_create_POST_def initech_request_def initech_parsed
          sample_env_def sample_db_free transaction_def tx_defs new_id_def show_small
          sample_db_sel initech_def peter_def peter_membership_def initech_policy_def)
  from company_creation_atomic [OF good]
  have "\<exists>c u m a.
          companies (sample_db
            \<lparr>companies := companies sample_db @ [initech],
             users := users sample_db @ [peter],
             memberships := memberships sample_db @ [peter_membership],
             approvalPolicies := approvalPolicies sample_db @ [initech_policy],
             next_id := 11\<rparr>) = companies sample_db @ [c]"
    by (simp add: json_response_def)
  with bad good show ?thesis
    using company_creation_atomic [OF bad] company_creation_atomic [OF good]
    by (simp add: failing_user_env_def peter_membership_def peter_def initech_def
          initech_policy_def default_policy_def)
qed

section \<open>The cap check of the server action\<close>

text \<open>
  With Acme's cap of 100000 minor units, an amount of exactly 1000.00 passes the check
  and the expense is created with 100000 minor units.
\<close>

lemma amount_at_ordinary_cap_is_created:
  "createExpense sample_env (Some employee_session) (Some (expense_form ''1000.00'')) sample_db
     = (succeeded (succeeded ''c000000007''),
        sample_db\<lparr>expenses := [fuel, lunch, hosting, conference 100000], next_id := 8\<rparr>)"
  using creation_on_sample [of "''1000.00''" 1000 acme_policy]
  by (simp add: parse_samples acme_cap acme_limit js_gt_def minor_units_samples int64_def
        sample_db_policies)

text \<open>
  Claim C10. Acme's policy has a cap of 9007199254740993 minor units, and the employee
  of Acme asks for an expense of 90071992547409.93, which is the cap divided by 100
  exactly. The check compares the double of the amount with
  \<^verbatim>\<open>Number(cap) / 100\<close>, and \<^verbatim>\<open>Number\<close> takes this cap to the double below it:
  the amount counts as greater than the limit, the action returns the failure object
  that names a limit of 90071992547409.92, and nothing is stored.
\<close>

theorem amount_equal_to_large_cap_is_rejected:
  "tenant_approvalPolicy_findMany (tenant_of employee_session) None large_cap_db
     = [large_cap_policy] \<and>
   maxPerEmployeeMinor large_cap_policy = Some 9007199254740993 \<and>
   decimal_value ''90071992547409.93'' = Some (of_int 9007199254740993 / 100) \<and>
   createExpense sample_env (Some employee_session)
     (Some (expense_form ''90071992547409.93'')) large_cap_db
     = (succeeded
          (failed ''Amount exceeds maximum per employee limit of $90071992547409.92''),
        large_cap_db)"
proof -
  have pols: "tenant_approvalPolicy_findMany (tenant_of employee_session) None large_cap_db
                = [large_cap_policy]"
    by (simp add: policies_of_company large_cap_db_def tenant_of_def employee_session_def
          large_cap_policy_def sample_rows)
  have cap: "maxPerEmployeeMinor large_cap_policy = Some 9007199254740993"
    by (simp add: large_cap_policy_def)
  have amount: "decimal_value ''90071992547409.93'' = Some (of_int 9007199254740993 / 100)"
    by (simp add: decimal_samples)
  have limit: "js_divide (Number_of_BigInt 9007199254740993) (Finite 100)
                 = Finite (5764607523034235 / 64)"
    by (simp add: double_of_large_cap limit_of_large_cap)
  have "createExpense sample_env (Some employee_session)
          (Some (expense_form ''90071992547409.93'')) large_cap_db
     = (succeeded
          (failed ''Amount exceeds maximum per employee limit of $90071992547409.92''),
        large_cap_db)"
    using creation_on_sample [of "''90071992547409.93''" "1441151880758559 / 16"
            large_cap_policy]
    by (simp add: parse_samples large_cap limit js_gt_def large_limit_text
          large_cap_db_policies)
  with pols cap amount show ?thesis by simp
qed

section \<open>Validation of amounts\<close>

text \<open>
  Claim C8. The employee of Acme asks, through the server action, for an expense whose
  amount is the text \<open>12abc\<close>, which is not a number. The check of the action,
  \<^verbatim>\<open>parseFloat\<close> and \<^verbatim>\<open>isNaN\<close>, reads the prefix \<open>12\<close> and lets the amount pass:
  the expense is stored with 1200 minor units. The route \<^verbatim>\<open>POST /api/expenses\<close>
  refuses the same text as \<^verbatim>\<open>amountMinor\<close> with status 400. (The action does refuse
  an amount without a numeric prefix and an amount that is not positive:
  \<open>createExpense_invalid_amount\<close>; the route refuses every \<^verbatim>\<open>amountMinor\<close> that is
  not a positive integer number: \<open>expenses_POST_invalid_amount\<close>.)
\<close>

theorem non_numeric_amount_is_accepted:
  "\<not> numeric_text ''12abc'' \<and>
   createExpense sample_env (Some employee_session) (Some (expense_form ''12abc'')) sample_db
     = (succeeded (succeeded ''c000000007''),
        sample_db\<lparr>expenses := [fuel, lunch, hosting, conference 1200], next_id := 8\<rparr>) \<and>
   expenses_POST sample_env (Some employee_session) (api_expense_request (JStr ''12abc''))
     sample_db
     = (Inr (json_response
               [(''success'', JBool False), (''error'', JStr ''Invalid request data''),
                (''details'', JArr [JStr ''amountMinor''])] 400),
        sample_db)"
proof -
  have "\<not> numeric_text ''12abc''"
    by (simp add: numeric_text_def is_digit_def)
  moreover
  have "createExpense sample_env (Some employee_session) (Some (expense_form ''12abc''))
          sample_db
     = (succeeded (succeeded ''c000000007''),
        sample_db\<lparr>expenses := [fuel, lunch, hosting, conference 1200], next_id := 8\<rparr>)"
    using creation_on_sample [of "''12abc''" 12 acme_policy]
    by (simp add: parse_samples acme_cap acme_limit js_gt_def minor_units_samples int64_def
          sample_db_policies)
  moreover
  have "expenses_POST sample_env (Some employee_session) (api_expense_request (JStr ''12abc''))
          sample_db
     = (Inr (json_response
               [(''success'', JBool False), (''error'', JStr ''Invalid request data''),
                (''details'', JArr [JStr ''amountMinor''])] 400),
        sample_db)"
    using error_response_made [of "Some (issues_json [''amountMinor''])"
            "''Invalid request data''" 400]
    by (simp add: expenses_POST_def api_handler_run api_expense_request_def
          apiExpenseSchema_def parse_apiExpense_def schema_defs zod_cuid_def cuid_website
          zod_positive_int_def zod_currency_def issues_json_def)
  ultimately show ?thesis by simp
qed

section \<open>The cap on the HTTP route\<close>

text \<open>
  Claim C4. Acme's policy caps an expense at 100000 minor units. A request of the
  employee of Acme to \<^verbatim>\<open>POST /api/expenses\<close> for 200000 minor units writes the
  expense and its audit entry: the route has no cap check. (The request then ends
  without a response, the handler throwing on the row it cannot write as JSON; the two
  rows stay.) The server action refuses the same amount and stores nothing.
\<close>

theorem api_creation_ignores_cap:
  "tenant_approvalPolicy_findMany (tenant_of employee_session) None sample_db = [acme_policy] \<and>
   maxPerEmployeeMinor acme_policy = Some 100000 \<and>
   expenses_POST sample_env (Some employee_session) (api_expense_request (JNum 200000))
     sample_db
     = (Inl (Error ''Do not know how to serialize a BigInt''),
        sample_db\<lparr>expenses := [fuel, lunch, hosting, conference 200000],
                    auditLogs := [globex_log, acme_log, conference_log (JNum 2000)],
                    next_id := 9\<rparr>) \<and>
   createExpense sample_env (Some employee_session) (Some (expense_form ''2000.00'')) sample_db
     = (succeeded (failed ''Amount exceeds maximum per employee limit of $1000.00''),
        sample_db)"
proof -
  have "tenant_approvalPolicy_findMany (tenant_of employee_session) None sample_db
          = [acme_policy]"
    by (simp add: policies_of_company sample_db_sel tenant_of_def employee_session_def
          sample_rows)
  moreover have "maxPerEmployeeMinor acme_policy = Some 100000"
    by (simp add: acme_policy_def default_policy_def)
  moreover
  have "expenses_POST sample_env (Some employee_session) (api_expense_request (JNum 200000))
          sample_db
     = (Inl (Error ''Do not know how to serialize a BigInt''),
        sample_db\<lparr>expenses := [fuel, lunch, hosting, conference 200000],
                    auditLogs := [globex_log, acme_log, conference_log (JNum 2000)],
                    next_id := 9\<rparr>)"
    using sample_api_creation [of 200000]
    by (simp add: js_divide_def small_doubles json_of_number_def)
  moreover
  have "createExpense sample_env (Some employee_session) (Some (expense_form ''2000.00''))
          sample_db
     = (succeeded (failed ''Amount exceeds maximum per employee limit of $1000.00''),
        sample_db)"
    using creation_on_sample [of "''2000.00''" 2000 acme_policy]
    by (simp add: parse_samples acme_cap acme_limit js_gt_def acme_limit_text
          sample_db_policies)
  ultimately show ?thesis by simp
qed

section \<open>The approval request of the manager dashboard\<close>

text \<open>
  Claim C3. A manager of Acme approves the lunch expense, a \<open>PENDING\<close> expense of Acme,
  with the request the manager dashboard sends: \<^verbatim>\<open>POST /api/expenses/cexpenselunch/approve\<close>
  with the decision \<open>APPROVE\<close>. The handler takes the last segment of the path,
  \<open>approve\<close>, for the expense identifier, finds no such expense and answers 404; the
  expense stays \<open>PENDING\<close> and neither an approval nor an audit entry is written. (The
  same holds for every expense identifier: \<open>approve_never_finds_the_expense\<close>. What the
  handler does once it has the right identifier is \<open>approve_handler_on_last_segment\<close>.)
\<close>

theorem approve_request_is_not_found:
  "status lunch = PENDING \<and> lunch \<in> set (expenses sample_db) \<and>
   expense_company sample_db lunch = Some (session_companyId manager_session) \<and>
   session_role manager_session = MANAGER \<and>
   approve_POST sample_env (Some manager_session) approve_lunch_request sample_db
     = (Inr (json_response [(''error'', JStr ''Expense not found'')] 404), sample_db)"
  using approve_lunch_result
  by (simp add: sample_db_sel expense_company_def project_of_def manager_session_def
        sample_rows)

section \<open>The shapes of the error responses\<close>

lemma acme_again_result:
  "company_create_POST sample_env acme_again_request sample_db
     = (json_response [(''error'', JStr ''A company with this name already exists'')] 400,
        sample_db)"
proof -
  have "createCompanySchema sample_env
          (JObj [(''companyName'', JStr ''Acme''), (''adminName'', JStr ''Wile''),
                 (''adminEmail'', JStr ''wile@acme.test''),
                 (''adminPassword'', JStr ''secret'')])
        = Inr \<lparr>in_companyName = ''Acme'', in_adminName = ''Wile'',
                in_adminEmail = ''wile@acme.test'', in_adminPassword = ''secret''\<rparr>"
    by (simp add: createCompanySchema_def zod_email_def schema_defs sample_env_def)
  moreover have "find (\<lambda>c. company_name c = ''Acme'') (companies sample_db) \<noteq> None"
    by (simp add: sample_db_def)
  ultimately show ?thesis
    by (simp add: company_create_POST_def acme_again_request_def)
qed

text \<open>
  Claim C5. Two error responses that are not in the error shape. A request to
  \<^verbatim>\<open>POST /api/company/create\<close> under the name of an existing company is answered
  with status 400 and the body \<^verbatim>\<open>{error: ...}\<close>, and the approval route answers an
  expense it does not find with status 404 and the body \<^verbatim>\<open>{error: ...}\<close>: neither
  body has the key \<^verbatim>\<open>success\<close>. (The responses the helper \<open>createErrorResponse\<close>
  builds are in the error shape: \<open>error_response_shape\<close>.)
\<close>

theorem error_bodies_without_success_key:
  "company_create_POST sample_env acme_again_request sample_db
     = (json_response [(''error'', JStr ''A company with this name already exists'')] 400,
        sample_db) \<and>
   \<not> error_shape
       (body (json_response
                [(''error'', JStr ''A company with this name already exists'')] 400)) \<and>
   approve_POST sample_env (Some manager_session) approve_lunch_request sample_db
     = (Inr (json_response [(''error'', JStr ''Expense not found'')] 404), sample_db) \<and>
   \<not> error_shape (body (json_response [(''error'', JStr ''Expense not found'')] 404))"
  using acme_again_result approve_lunch_result
  by (simp add: error_shape_def json_response_def)

end
